theory Spec2Isabelle
  imports Complex_Main "HOL-Library.Word" "HOL-Library.Signed_Division"
begin

unbundle bit_operations_syntax

section \<open>Data model of the LSM9DS1 driver (SparkFunLSM9DS1.c)\<close>

text \<open>
  Fixed-width C integers are words: \<open>uint8_t\<close> is \<open>8 word\<close>, \<open>uint16_t\<close> and
  \<open>int16_t\<close> are \<open>16 word\<close> (read with \<open>unat\<close> and \<open>sint\<close>), \<open>int32_t\<close> and
  \<open>int\<close> are \<open>32 word\<close>.  A C \<open>float\<close> is modelled by a real number: the rounding of
  single precision is not modelled, the sensitivity constants are the decimal
  literals of the source.
\<close>

type_synonym u8 = "8 word"
type_synonym u16 = "16 word"
type_synonym i16 = "16 word"
type_synonym i32 = "32 word"
type_synonym float = real

subsection \<open>Declarations of the two headers that are not part of the sources\<close>

text \<open>
  \<open>LSM9DS1_Registers.h\<close> and \<open>LSM9DS1_Types.h\<close> are not available.  The register
  addresses, the two identity responses and the numeric values of the enumerators
  that the driver passes on as numbers are therefore parameters of the model,
  collected in one record; every function that names one of them takes the record.
\<close>

record registers =
  WHO_AM_I_XG :: u8
  WHO_AM_I_M :: u8
  WHO_AM_I_AG_RSP :: i32
  WHO_AM_I_M_RSP :: i32
  CTRL_REG1_G :: u8
  CTRL_REG2_G :: u8
  CTRL_REG3_G :: u8
  CTRL_REG4 :: u8
  ORIENT_CFG_G :: u8
  CTRL_REG5_XL :: u8
  CTRL_REG6_XL :: u8
  CTRL_REG7_XL :: u8
  CTRL_REG9 :: u8
  FIFO_CTRL :: u8
  FIFO_SRC :: u8
  OUT_X_L_G :: u8
  OUT_X_L_XL :: u8
  OUT_X_L_M :: u8
  STATUS_REG_M :: u8
  OFFSET_X_REG_L_M :: u8
  OFFSET_X_REG_H_M :: u8
  CTRL_REG1_M :: u8
  CTRL_REG2_M :: u8
  FIFO_OFF :: i32
  FIFO_THS :: i32
  ALL_AXIS_value :: nat

text \<open>
  \<open>lsm9ds1_axis\<close>: the source indexes the three-element bias arrays with \<open>X_AXIS\<close>,
  \<open>Y_AXIS\<close> and \<open>Z_AXIS\<close> and says "axis will be 0, 1, or 2 (x, y, z respectively)";
  the value of \<open>ALL_AXIS\<close> comes from the header.
\<close>

datatype lsm9ds1_axis = X_AXIS | Y_AXIS | Z_AXIS | ALL_AXIS

fun axis_value :: "registers \<Rightarrow> lsm9ds1_axis \<Rightarrow> nat" where
  "axis_value rm X_AXIS = 0"
| "axis_value rm Y_AXIS = 1"
| "axis_value rm Z_AXIS = 2"
| "axis_value rm ALL_AXIS = ALL_AXIS_value rm"

datatype interface_mode = IMU_MODE_SPI | IMU_MODE_I2C

subsection \<open>Settings\<close>

record deviceSettings =
  commInterface :: interface_mode
  agAddress :: u8
  mAddress :: u8

record gyroSettings =
  gyro_enabled :: bool
  gyro_scale :: u16
  gyro_sampleRate :: u8
  gyro_bandwidth :: u8
  gyro_lowPowerEnable :: bool
  gyro_HPFEnable :: bool
  gyro_HPFCutoff :: u8
  gyro_flipX :: bool
  gyro_flipY :: bool
  gyro_flipZ :: bool
  gyro_orientation :: u8
  gyro_enableX :: bool
  gyro_enableY :: bool
  gyro_enableZ :: bool
  gyro_latchInterrupt :: bool

record accelSettings =
  accel_enabled :: bool
  accel_scale :: u8
  accel_sampleRate :: u8
  accel_enableX :: bool
  accel_enableY :: bool
  accel_enableZ :: bool
  accel_bandwidth :: "8 word"
  accel_highResEnable :: bool
  accel_highResBandwidth :: u8

record magSettings =
  mag_enabled :: bool
  mag_scale :: u8
  mag_sampleRate :: u8
  mag_tempCompensationEnable :: bool
  mag_XYPerformance :: u8
  mag_ZPerformance :: u8
  mag_lowPowerEnable :: bool
  mag_operatingMode :: u8

record temperatureSettings =
  temp_enabled :: bool

record IMUSettings =
  device :: deviceSettings
  gyro :: gyroSettings
  accel :: accelSettings
  mag :: magSettings
  temp :: temperatureSettings

subsection \<open>The I2C bus as the driver sees it\<close>

text \<open>
  \<open>I2C_IF_Write\<close> and \<open>I2C_IF_ReadFrom\<close> belong to the board support package.  A
  write is recorded in a trace.  A read is answered by the environment: \<open>rx n i\<close>
  is byte \<open>i\<close> of the destination buffer after the \<open>n\<close>-th read transaction, and
  the read is recorded in the trace with the bytes it delivered.  The driver ignores
  the status of both calls, so a failed transaction is one more answer of the
  environment (whatever the buffer holds).  \<open>open_ok\<close> says whether \<open>I2C_IF_Open\<close>
  succeeds.
\<close>

datatype bus_event =
  Wr u8 u8 u8
| Rd u8 u8 "u8 list"

record i2c_bus =
  rx :: "nat \<Rightarrow> nat \<Rightarrow> u8"
  reads :: nat
  trace :: "bus_event list"
  open_ok :: bool

subsection \<open>The globals of the driver\<close>

text \<open>
  The file-scope variables \<open>_mAddress\<close>, \<open>_xgAddress\<close> and \<open>_autoCalc\<close> are the
  fields \<open>u_mAddress\<close>, \<open>u_xgAddress\<close> and \<open>u_autoCalc\<close>.  The arrays of three
  elements are lists of length three.
\<close>

record driver =
  settings :: IMUSettings
  gBias :: "float list"
  aBias :: "float list"
  mBias :: "float list"
  gBiasRaw :: "i16 list"
  aBiasRaw :: "i16 list"
  mBiasRaw :: "i16 list"
  u_mAddress :: u8
  u_xgAddress :: u8
  gRes :: float
  aRes :: float
  mRes :: float
  u_autoCalc :: bool
  bus :: i2c_bus

section \<open>Transport\<close>

definition LSM9DS1_I2CwriteByte :: "u8 \<Rightarrow> u8 \<Rightarrow> u8 \<Rightarrow> driver \<Rightarrow> driver" where
  "LSM9DS1_I2CwriteByte address subAddress data s =
     s\<lparr>bus := (bus s)\<lparr>trace := trace (bus s) @ [Wr address subAddress data]\<rparr>\<rparr>"

definition LSM9DS1_I2CreadByte :: "u8 \<Rightarrow> u8 \<Rightarrow> driver \<Rightarrow> u8 \<times> driver" where
  "LSM9DS1_I2CreadByte address subAddress s =
     (rx (bus s) (reads (bus s)) 0,
      s\<lparr>bus := (bus s)\<lparr>reads := Suc (reads (bus s)),
                        trace := trace (bus s) @
                          [Rd address subAddress [rx (bus s) (reads (bus s)) 0]]\<rparr>\<rparr>)"

text \<open>
  \<open>LSM9DS1_I2CreadBytes\<close> fills the first \<open>count\<close> bytes of \<open>dest\<close> and returns
  \<open>count\<close>, whatever the status of the transaction.
\<close>

definition LSM9DS1_I2CreadBytes ::
  "u8 \<Rightarrow> u8 \<Rightarrow> u8 list \<Rightarrow> u8 \<Rightarrow> driver \<Rightarrow> u8 \<times> u8 list \<times> driver" where
  "LSM9DS1_I2CreadBytes address subAddress dest count s =
     (count,
      map (rx (bus s) (reads (bus s))) [0 ..< unat count] @ drop (unat count) dest,
      s\<lparr>bus := (bus s)\<lparr>reads := Suc (reads (bus s)),
                        trace := trace (bus s) @
                          [Rd address subAddress
                             (map (rx (bus s) (reads (bus s))) [0 ..< unat count])]\<rparr>\<rparr>)"

text \<open>The SPI functions are stubs ("ToDo"): no transfer, reads return 0.\<close>

definition LSM9DS1_SPIwriteByte :: "u8 \<Rightarrow> u8 \<Rightarrow> u8 \<Rightarrow> driver \<Rightarrow> driver" where
  "LSM9DS1_SPIwriteByte csPin subAddress data s = s"

definition LSM9DS1_SPIreadByte :: "u8 \<Rightarrow> u8 \<Rightarrow> driver \<Rightarrow> u8 \<times> driver" where
  "LSM9DS1_SPIreadByte csPin subAddress s = (0, s)"

definition LSM9DS1_SPIreadBytes ::
  "u8 \<Rightarrow> u8 \<Rightarrow> u8 list \<Rightarrow> u8 \<Rightarrow> driver \<Rightarrow> u8 \<times> u8 list \<times> driver" where
  "LSM9DS1_SPIreadBytes csPin subAddress dest count s = (0, dest, s)"

definition LSM9DS1_xgWriteByte :: "u8 \<Rightarrow> u8 \<Rightarrow> driver \<Rightarrow> driver" where
  "LSM9DS1_xgWriteByte subAddress data s =
     (case commInterface (device (settings s)) of
        IMU_MODE_I2C \<Rightarrow> LSM9DS1_I2CwriteByte (u_xgAddress s) subAddress data s
      | IMU_MODE_SPI \<Rightarrow> LSM9DS1_SPIwriteByte (u_xgAddress s) subAddress data s)"

definition LSM9DS1_mWriteByte :: "u8 \<Rightarrow> u8 \<Rightarrow> driver \<Rightarrow> driver" where
  "LSM9DS1_mWriteByte subAddress data s =
     (case commInterface (device (settings s)) of
        IMU_MODE_I2C \<Rightarrow> LSM9DS1_I2CwriteByte (u_mAddress s) subAddress data s
      | IMU_MODE_SPI \<Rightarrow> LSM9DS1_SPIwriteByte (u_mAddress s) subAddress data s)"

definition LSM9DS1_xgReadByte :: "u8 \<Rightarrow> driver \<Rightarrow> u8 \<times> driver" where
  "LSM9DS1_xgReadByte subAddress s =
     (case commInterface (device (settings s)) of
        IMU_MODE_I2C \<Rightarrow> LSM9DS1_I2CreadByte (u_xgAddress s) subAddress s
      | IMU_MODE_SPI \<Rightarrow> LSM9DS1_SPIreadByte (u_xgAddress s) subAddress s)"

definition LSM9DS1_xgReadBytes ::
  "u8 \<Rightarrow> u8 list \<Rightarrow> u8 \<Rightarrow> driver \<Rightarrow> u8 \<times> u8 list \<times> driver" where
  "LSM9DS1_xgReadBytes subAddress dest count s =
     (case commInterface (device (settings s)) of
        IMU_MODE_I2C \<Rightarrow> LSM9DS1_I2CreadBytes (u_xgAddress s) subAddress dest count s
      | IMU_MODE_SPI \<Rightarrow> LSM9DS1_SPIreadBytes (u_xgAddress s) subAddress dest count s)"

definition LSM9DS1_mReadByte :: "u8 \<Rightarrow> driver \<Rightarrow> u8 \<times> driver" where
  "LSM9DS1_mReadByte subAddress s =
     (case commInterface (device (settings s)) of
        IMU_MODE_I2C \<Rightarrow> LSM9DS1_I2CreadByte (u_mAddress s) subAddress s
      | IMU_MODE_SPI \<Rightarrow> LSM9DS1_SPIreadByte (u_mAddress s) subAddress s)"

definition LSM9DS1_mReadBytes ::
  "u8 \<Rightarrow> u8 list \<Rightarrow> u8 \<Rightarrow> driver \<Rightarrow> u8 \<times> u8 list \<times> driver" where
  "LSM9DS1_mReadBytes subAddress dest count s =
     (case commInterface (device (settings s)) of
        IMU_MODE_I2C \<Rightarrow> LSM9DS1_I2CreadBytes (u_mAddress s) subAddress dest count s
      | IMU_MODE_SPI \<Rightarrow> LSM9DS1_SPIreadBytes (u_mAddress s) subAddress dest count s)"

section \<open>FIFO control and the magnetometer offset registers\<close>

text \<open>
  \<open>LSM9DS1_setFIFO\<close>: the argument of the write is computed in \<open>int\<close> and converted
  to \<open>uint8_t\<close> by the call.
\<close>

definition LSM9DS1_setFIFO :: "registers \<Rightarrow> i32 \<Rightarrow> u8 \<Rightarrow> driver \<Rightarrow> driver" where
  "LSM9DS1_setFIFO rm fifoMode fifoThs s =
     (let threshold = (if fifoThs \<le> 0x1F then fifoThs else 0x1F)
      in LSM9DS1_xgWriteByte (FIFO_CTRL rm)
           (ucast (push_bit 5 (fifoMode AND 0x7) OR (ucast threshold AND 0x1F))) s)"

definition LSM9DS1_enableFIFO :: "registers \<Rightarrow> bool \<Rightarrow> driver \<Rightarrow> driver" where
  "LSM9DS1_enableFIFO rm enable s =
     (let (temp, s1) = LSM9DS1_xgReadByte (CTRL_REG9 rm) s;
          temp' = (if enable then temp OR push_bit 1 1 else temp AND NOT (push_bit 1 1))
      in LSM9DS1_xgWriteByte (CTRL_REG9 rm) temp' s1)"

text \<open>
  \<open>LSM9DS1_magOffset\<close>: \<open>msb = (offset & 0xFF00) >> 8\<close> and \<open>lsb = offset & 0x00FF\<close>
  are computed in \<open>int\<close> on the sign-extended offset and stored in \<open>uint8_t\<close>; the
  register numbers \<open>OFFSET_X_REG_L_M + (2 * axis)\<close> are computed in \<open>int\<close> and
  converted to \<open>uint8_t\<close> by the call.
\<close>

definition LSM9DS1_magOffset :: "registers \<Rightarrow> u8 \<Rightarrow> i16 \<Rightarrow> driver \<Rightarrow> driver" where
  "LSM9DS1_magOffset rm axis offset s =
     (if axis > 2 then s
      else
        let msb = (ucast (drop_bit 8 ((scast offset :: i32) AND 0xFF00)) :: u8);
            lsb = (ucast ((scast offset :: i32) AND 0x00FF) :: u8);
            s1 = LSM9DS1_mWriteByte
                   (ucast ((ucast (OFFSET_X_REG_L_M rm) :: i32) + 2 * ucast axis)) lsb s
        in LSM9DS1_mWriteByte
             (ucast ((ucast (OFFSET_X_REG_H_M rm) :: i32) + 2 * ucast axis)) msb s1)"

section \<open>Resolutions and unit conversion\<close>

definition SENSITIVITY_ACCELEROMETER_2 :: float where
  "SENSITIVITY_ACCELEROMETER_2 = 0.000061"

definition SENSITIVITY_ACCELEROMETER_4 :: float where
  "SENSITIVITY_ACCELEROMETER_4 = 0.000122"

definition SENSITIVITY_ACCELEROMETER_8 :: float where
  "SENSITIVITY_ACCELEROMETER_8 = 0.000244"

definition SENSITIVITY_ACCELEROMETER_16 :: float where
  "SENSITIVITY_ACCELEROMETER_16 = 0.000732"

definition SENSITIVITY_GYROSCOPE_245 :: float where
  "SENSITIVITY_GYROSCOPE_245 = 0.00875"

definition SENSITIVITY_GYROSCOPE_500 :: float where
  "SENSITIVITY_GYROSCOPE_500 = 0.0175"

definition SENSITIVITY_GYROSCOPE_2000 :: float where
  "SENSITIVITY_GYROSCOPE_2000 = 0.07"

definition SENSITIVITY_MAGNETOMETER_4 :: float where
  "SENSITIVITY_MAGNETOMETER_4 = 0.00014"

definition SENSITIVITY_MAGNETOMETER_8 :: float where
  "SENSITIVITY_MAGNETOMETER_8 = 0.00029"

definition SENSITIVITY_MAGNETOMETER_12 :: float where
  "SENSITIVITY_MAGNETOMETER_12 = 0.00043"

definition SENSITIVITY_MAGNETOMETER_16 :: float where
  "SENSITIVITY_MAGNETOMETER_16 = 0.00058"

text \<open>
  The three \<open>calc?Res\<close> functions store the resolution and return it; a scale
  outside the \<open>switch\<close> leaves the stored resolution as it is.
\<close>

definition LSM9DS1_calcgRes :: "driver \<Rightarrow> float \<times> driver" where
  "LSM9DS1_calcgRes s =
     (let s' = (if gyro_scale (gyro (settings s)) = 245
                  then s\<lparr>gRes := SENSITIVITY_GYROSCOPE_245\<rparr>
                else if gyro_scale (gyro (settings s)) = 500
                  then s\<lparr>gRes := SENSITIVITY_GYROSCOPE_500\<rparr>
                else if gyro_scale (gyro (settings s)) = 2000
                  then s\<lparr>gRes := SENSITIVITY_GYROSCOPE_2000\<rparr>
                else s)
      in (gRes s', s'))"

definition LSM9DS1_calcaRes :: "driver \<Rightarrow> float \<times> driver" where
  "LSM9DS1_calcaRes s =
     (let s' = (if accel_scale (accel (settings s)) = 2
                  then s\<lparr>aRes := SENSITIVITY_ACCELEROMETER_2\<rparr>
                else if accel_scale (accel (settings s)) = 4
                  then s\<lparr>aRes := SENSITIVITY_ACCELEROMETER_4\<rparr>
                else if accel_scale (accel (settings s)) = 8
                  then s\<lparr>aRes := SENSITIVITY_ACCELEROMETER_8\<rparr>
                else if accel_scale (accel (settings s)) = 16
                  then s\<lparr>aRes := SENSITIVITY_ACCELEROMETER_16\<rparr>
                else s)
      in (aRes s', s'))"

definition LSM9DS1_calcmRes :: "driver \<Rightarrow> float \<times> driver" where
  "LSM9DS1_calcmRes s =
     (let s' = (if mag_scale (mag (settings s)) = 4
                  then s\<lparr>mRes := SENSITIVITY_MAGNETOMETER_4\<rparr>
                else if mag_scale (mag (settings s)) = 8
                  then s\<lparr>mRes := SENSITIVITY_MAGNETOMETER_8\<rparr>
                else if mag_scale (mag (settings s)) = 12
                  then s\<lparr>mRes := SENSITIVITY_MAGNETOMETER_12\<rparr>
                else if mag_scale (mag (settings s)) = 16
                  then s\<lparr>mRes := SENSITIVITY_MAGNETOMETER_16\<rparr>
                else s)
      in (mRes s', s'))"

definition LSM9DS1_constrainScales :: "driver \<Rightarrow> driver" where
  "LSM9DS1_constrainScales s =
     (let st = settings s;
          st1 = (if gyro_scale (gyro st) \<noteq> 245 \<and> gyro_scale (gyro st) \<noteq> 500 \<and>
                    gyro_scale (gyro st) \<noteq> 2000
                 then st\<lparr>gyro := (gyro st)\<lparr>gyro_scale := 245\<rparr>\<rparr> else st);
          st2 = (if accel_scale (accel st1) \<noteq> 2 \<and> accel_scale (accel st1) \<noteq> 4 \<and>
                    accel_scale (accel st1) \<noteq> 8 \<and> accel_scale (accel st1) \<noteq> 16
                 then st1\<lparr>accel := (accel st1)\<lparr>accel_scale := 2\<rparr>\<rparr> else st1);
          st3 = (if mag_scale (mag st2) \<noteq> 4 \<and> mag_scale (mag st2) \<noteq> 8 \<and>
                    mag_scale (mag st2) \<noteq> 12 \<and> mag_scale (mag st2) \<noteq> 16
                 then st2\<lparr>mag := (mag st2)\<lparr>mag_scale := 4\<rparr>\<rparr> else st2)
      in s\<lparr>settings := st3\<rparr>)"

definition LSM9DS1_calcGyro :: "driver \<Rightarrow> i16 \<Rightarrow> float" where
  "LSM9DS1_calcGyro s gyro_raw = gRes s * real_of_int (sint gyro_raw)"

definition LSM9DS1_calcAccel :: "driver \<Rightarrow> i16 \<Rightarrow> float" where
  "LSM9DS1_calcAccel s accel_raw = aRes s * real_of_int (sint accel_raw)"

definition LSM9DS1_calcMag :: "driver \<Rightarrow> i16 \<Rightarrow> float" where
  "LSM9DS1_calcMag s mag_raw = mRes s * real_of_int (sint mag_raw)"

section \<open>Raw sample readers\<close>

text \<open>
  \<open>(temp[1] << 8) | temp[0]\<close> is computed in \<open>int\<close> and stored in an \<open>int16_t\<close>,
  which keeps the low 16 bits.
\<close>

definition int16_of_bytes :: "u8 \<Rightarrow> u8 \<Rightarrow> i16" where
  "int16_of_bytes hi lo = ucast (push_bit 8 (ucast hi :: i32) OR ucast lo)"

text \<open>
  The local buffer \<open>temp\<close> is not initialised by the source.  It is read only after
  a burst that returned the full count, which has filled it; the model starts it
  with zeros.
\<close>

definition temp_buffer :: "nat \<Rightarrow> u8 list" where
  "temp_buffer n = replicate n 0"

text \<open>
  The triplet readers write through three pointers: the model takes the values the
  three variables hold before the call and returns the values they hold after it.
  \<open>*ax -= aBiasRaw[X_AXIS]\<close> is a subtraction in \<open>int\<close> stored in an \<open>int16_t\<close>,
  that is a subtraction of 16-bit words.
\<close>

definition LSM9DS1_readAccel ::
  "registers \<Rightarrow> i16 \<times> i16 \<times> i16 \<Rightarrow> driver \<Rightarrow> (i16 \<times> i16 \<times> i16) \<times> driver" where
  "LSM9DS1_readAccel rm out s =
     (let (n, temp, s1) = LSM9DS1_xgReadBytes (OUT_X_L_XL rm) (temp_buffer 6) 6 s
      in if n = 6 then
           let ax = int16_of_bytes (temp ! 1) (temp ! 0);
               ay = int16_of_bytes (temp ! 3) (temp ! 2);
               az = int16_of_bytes (temp ! 5) (temp ! 4)
           in if u_autoCalc s1
              then ((ax - aBiasRaw s1 ! 0, ay - aBiasRaw s1 ! 1, az - aBiasRaw s1 ! 2), s1)
              else ((ax, ay, az), s1)
         else (out, s1))"

definition LSM9DS1_readGyro ::
  "registers \<Rightarrow> i16 \<times> i16 \<times> i16 \<Rightarrow> driver \<Rightarrow> (i16 \<times> i16 \<times> i16) \<times> driver" where
  "LSM9DS1_readGyro rm out s =
     (let (n, temp, s1) = LSM9DS1_xgReadBytes (OUT_X_L_G rm) (temp_buffer 6) 6 s
      in if n = 6 then
           let gx = int16_of_bytes (temp ! 1) (temp ! 0);
               gy = int16_of_bytes (temp ! 3) (temp ! 2);
               gz = int16_of_bytes (temp ! 5) (temp ! 4)
           in if u_autoCalc s1
              then ((gx - gBiasRaw s1 ! 0, gy - gBiasRaw s1 ! 1, gz - gBiasRaw s1 ! 2), s1)
              else ((gx, gy, gz), s1)
         else (out, s1))"

definition LSM9DS1_readMag ::
  "registers \<Rightarrow> i16 \<times> i16 \<times> i16 \<Rightarrow> driver \<Rightarrow> (i16 \<times> i16 \<times> i16) \<times> driver" where
  "LSM9DS1_readMag rm out s =
     (let (n, temp, s1) = LSM9DS1_mReadBytes (OUT_X_L_M rm) (temp_buffer 6) 6 s
      in if n = 6 then
           ((int16_of_bytes (temp ! 1) (temp ! 0),
             int16_of_bytes (temp ! 3) (temp ! 2),
             int16_of_bytes (temp ! 5) (temp ! 4)), s1)
         else (out, s1))"

text \<open>
  The single-axis readers return the sample, or 0 after a short read.  With
  auto-calibration on they read \<open>aBiasRaw[axis]\<close> (\<open>gBiasRaw[axis]\<close>); for an axis
  value of 3 or more that is a read outside the array, reported as \<open>None\<close>.
\<close>

definition LSM9DS1_readAccelAxis ::
  "registers \<Rightarrow> lsm9ds1_axis \<Rightarrow> driver \<Rightarrow> (i16 \<times> driver) option" where
  "LSM9DS1_readAccelAxis rm axis s =
     (let (n, temp, s1) =
            LSM9DS1_xgReadBytes
              (ucast ((ucast (OUT_X_L_XL rm) :: i32) + 2 * of_nat (axis_value rm axis)))
              (temp_buffer 2) 2 s
      in if n = 2 then
           let v = int16_of_bytes (temp ! 1) (temp ! 0)
           in if u_autoCalc s1
              then (if axis_value rm axis < 3
                    then Some (v - aBiasRaw s1 ! axis_value rm axis, s1) else None)
              else Some (v, s1)
         else Some (0, s1))"

definition LSM9DS1_readGyroAxis ::
  "registers \<Rightarrow> lsm9ds1_axis \<Rightarrow> driver \<Rightarrow> (i16 \<times> driver) option" where
  "LSM9DS1_readGyroAxis rm axis s =
     (let (n, temp, s1) =
            LSM9DS1_xgReadBytes
              (ucast ((ucast (OUT_X_L_G rm) :: i32) + 2 * of_nat (axis_value rm axis)))
              (temp_buffer 2) 2 s
      in if n = 2 then
           let v = int16_of_bytes (temp ! 1) (temp ! 0)
           in if u_autoCalc s1
              then (if axis_value rm axis < 3
                    then Some (v - gBiasRaw s1 ! axis_value rm axis, s1) else None)
              else Some (v, s1)
         else Some (0, s1))"

definition LSM9DS1_readMagAxis ::
  "registers \<Rightarrow> lsm9ds1_axis \<Rightarrow> driver \<Rightarrow> i16 \<times> driver" where
  "LSM9DS1_readMagAxis rm axis s =
     (let (n, temp, s1) =
            LSM9DS1_mReadBytes
              (ucast ((ucast (OUT_X_L_M rm) :: i32) + 2 * of_nat (axis_value rm axis)))
              (temp_buffer 2) 2 s
      in if n = 2 then (int16_of_bytes (temp ! 1) (temp ! 0), s1) else (0, s1))"

text \<open>
  \<open>LSM9DS1_magAvailable\<close>: \<open>(status & (1 << axis)) >> axis\<close> in \<open>int\<close>, returned as
  \<open>uint8_t\<close>.
\<close>

definition LSM9DS1_magAvailable :: "registers \<Rightarrow> lsm9ds1_axis \<Rightarrow> driver \<Rightarrow> u8 \<times> driver" where
  "LSM9DS1_magAvailable rm axis s =
     (let (status, s1) = LSM9DS1_mReadByte (STATUS_REG_M rm) s
      in (ucast (drop_bit (axis_value rm axis)
                   ((ucast status :: i32) AND push_bit (axis_value rm axis) 1)), s1))"

section \<open>Calibration\<close>

text \<open>
  \<open>(int16_t)(1./aRes)\<close>: the conversion of a floating value to \<open>int16_t\<close> drops the
  fraction, and C leaves it undefined when the truncated value is not an \<open>int16_t\<close>.
  The quotient \<open>1./aRes\<close> has no finite value for \<open>aRes = 0\<close> (the value of the static
  \<open>aRes\<close> before \<open>LSM9DS1_begin\<close>), so its conversion is undefined as well.  The model
  reports both as an error instead of choosing a value: \<open>int16_of_double x\<close> is the
  converted value of \<open>x\<close> where there is one, and \<open>one_g_raw res\<close> is the value of
  \<open>(int16_t)(1./res)\<close> where there is one.
\<close>

datatype error = Undefined_conversion

definition int16_of_double :: "real \<Rightarrow> i16 option" where
  "int16_of_double x =
     (let k = (if 0 \<le> x then \<lfloor>x\<rfloor> else \<lceil>x\<rceil>)
      in if - 32768 \<le> k \<and> k \<le> 32767 then Some (word_of_int k) else None)"

definition one_g_raw :: "float \<Rightarrow> i16 option" where
  "one_g_raw res = (if res = 0 then None else int16_of_double (1 / res))"

text \<open>
  The wait for the FIFO: \<open>while (samples < 0x1F) samples = xgReadByte(FIFO_SRC) & 0x3F\<close>.
  The loop has no bound; a run that never leaves it is \<open>None\<close>.
\<close>

partial_function (option) calibrate_wait :: "registers \<Rightarrow> u8 \<Rightarrow> driver \<Rightarrow> (u8 \<times> driver) option" where
  "calibrate_wait rm samples s =
     (if samples < 0x1F
      then calibrate_wait rm (fst (LSM9DS1_xgReadByte (FIFO_SRC rm) s) AND 0x3F)
             (snd (LSM9DS1_xgReadByte (FIFO_SRC rm) s))
      else Some (samples, s))"

text \<open>
  One pass of the accumulation loop.  The sums are \<open>int32_t\<close>; the samples are
  promoted to \<open>int\<close> before they are added, and the Z sample of the accelerometer is
  reduced by \<open>(int16_t)(1./aRes)\<close> in \<open>int\<close>; the pass ends in an error where that
  conversion is undefined.  The six sample variables are declared in the loop body
  without a value; the model starts them with 0.
\<close>

definition calibrate_sample ::
  "registers \<Rightarrow> i32 list \<times> i32 list \<times> driver \<Rightarrow>
     error + i32 list \<times> i32 list \<times> driver" where
  "calibrate_sample rm acc =
     (let (aBiasRawTemp, gBiasRawTemp, s) = acc;
          ((gx, gy, gz), s1) = LSM9DS1_readGyro rm (0, 0, 0) s;
          g1 = gBiasRawTemp[0 := gBiasRawTemp ! 0 + scast gx];
          g2 = g1[1 := g1 ! 1 + scast gy];
          g3 = g2[2 := g2 ! 2 + scast gz];
          ((ax, ay, az), s2) = LSM9DS1_readAccel rm (0, 0, 0) s1;
          a1 = aBiasRawTemp[0 := aBiasRawTemp ! 0 + scast ax];
          a2 = a1[1 := a1 ! 1 + scast ay]
      in case one_g_raw (aRes s2) of
           None \<Rightarrow> Inl Undefined_conversion
         | Some one_g \<Rightarrow> Inr (a2[2 := a2 ! 2 + (scast az - scast one_g)], g3, s2))"

text \<open>The loop \<open>for (ii = 0; ii < samples; ii++)\<close>; its body does not use \<open>ii\<close>.\<close>

fun calibrate_accumulate ::
  "registers \<Rightarrow> nat \<Rightarrow> i32 list \<times> i32 list \<times> driver \<Rightarrow>
     error + i32 list \<times> i32 list \<times> driver" where
  "calibrate_accumulate rm 0 acc = Inr acc"
| "calibrate_accumulate rm (Suc n) acc =
     (case calibrate_sample rm acc of
        Inl e \<Rightarrow> Inl e
      | Inr acc' \<Rightarrow> calibrate_accumulate rm n acc')"

text \<open>
  One pass of the loop that publishes the bias: \<open>gBiasRawTemp[ii] / samples\<close> is a
  division of \<open>int\<close> that truncates towards zero, and the store into \<open>int16_t\<close> keeps
  the low 16 bits.
\<close>

definition calibrate_publish ::
  "i32 list \<Rightarrow> i32 list \<Rightarrow> u8 \<Rightarrow> nat \<Rightarrow> driver \<Rightarrow> driver" where
  "calibrate_publish aBiasRawTemp gBiasRawTemp samples ii s =
     (let s1 = s\<lparr>gBiasRaw := (gBiasRaw s)
                  [ii := word_of_int (sint (gBiasRawTemp ! ii) sdiv uint samples)]\<rparr>;
          s2 = s1\<lparr>gBias := (gBias s1)[ii := LSM9DS1_calcGyro s1 (gBiasRaw s1 ! ii)]\<rparr>;
          s3 = s2\<lparr>aBiasRaw := (aBiasRaw s2)
                  [ii := word_of_int (sint (aBiasRawTemp ! ii) sdiv uint samples)]\<rparr>
      in s3\<lparr>aBias := (aBias s3)[ii := LSM9DS1_calcAccel s3 (aBiasRaw s3 ! ii)]\<rparr>)"

text \<open>
  \<open>LSM9DS1_calibrate\<close>: \<open>None\<close> is a run that never leaves the wait for the FIFO,
  \<open>Some (Inl e)\<close> a run that reaches an undefined conversion, \<open>Some (Inr s')\<close> a run
  that returns with the driver in state \<open>s'\<close>.
\<close>

definition LSM9DS1_calibrate ::
  "registers \<Rightarrow> bool \<Rightarrow> driver \<Rightarrow> (error + driver) option" where
  "LSM9DS1_calibrate rm autoCalc s =
     (let s1 = LSM9DS1_enableFIFO rm True s;
          s2 = LSM9DS1_setFIFO rm (FIFO_THS rm) 0x1F s1
      in case calibrate_wait rm 0 s2 of
           None \<Rightarrow> None
         | Some (samples, s3) \<Rightarrow>
             (case calibrate_accumulate rm (unat samples) ([0, 0, 0], [0, 0, 0], s3) of
                Inl e \<Rightarrow> Some (Inl e)
              | Inr (aBiasRawTemp, gBiasRawTemp, s4) \<Rightarrow>
                  let s5 = fold (calibrate_publish aBiasRawTemp gBiasRawTemp samples) [0, 1, 2] s4;
                      s6 = LSM9DS1_enableFIFO rm False s5;
                      s7 = LSM9DS1_setFIFO rm (FIFO_OFF rm) 0x00 s6
                  in Some (Inr (if autoCalc then s7\<lparr>u_autoCalc := True\<rparr> else s7))))"

text \<open>
  \<open>while (!LSM9DS1_magAvailable(ALL_AXIS));\<close> has no bound either.
\<close>

partial_function (option) calibrateMag_wait :: "registers \<Rightarrow> driver \<Rightarrow> driver option" where
  "calibrateMag_wait rm s =
     (if fst (LSM9DS1_magAvailable rm ALL_AXIS s) = 0
      then calibrateMag_wait rm (snd (LSM9DS1_magAvailable rm ALL_AXIS s))
      else Some (snd (LSM9DS1_magAvailable rm ALL_AXIS s)))"

text \<open>
  The inner loop over \<open>j\<close>: the comparisons are between \<open>int16_t\<close> values, hence
  signed.
\<close>

definition calibrateMag_minmax ::
  "i16 list \<Rightarrow> nat \<Rightarrow> i16 list \<times> i16 list \<Rightarrow> i16 list \<times> i16 list" where
  "calibrateMag_minmax magTemp j mm =
     (let (magMin, magMax) = mm;
          magMax' = (if sint (magTemp ! j) > sint (magMax ! j)
                     then magMax[j := magTemp ! j] else magMax);
          magMin' = (if sint (magTemp ! j) < sint (magMin ! j)
                     then magMin[j := magTemp ! j] else magMin)
      in (magMin', magMax'))"

text \<open>
  The loop \<open>for (i=0; i<128; i++)\<close>, counted by the number of passes still to run.
  \<open>magTemp\<close> is declared in the loop body without a value; the model starts it with
  zeros.
\<close>

fun calibrateMag_loop ::
  "registers \<Rightarrow> nat \<Rightarrow> i16 list \<times> i16 list \<times> driver \<Rightarrow> (i16 list \<times> i16 list \<times> driver) option" where
  "calibrateMag_loop rm 0 st = Some st"
| "calibrateMag_loop rm (Suc n) (magMin, magMax, s) =
     (case calibrateMag_wait rm s of
        None \<Rightarrow> None
      | Some s1 \<Rightarrow>
          let ((mx, my, mz), s2) = LSM9DS1_readMag rm (0, 0, 0) s1;
              (magMin', magMax') =
                 fold (calibrateMag_minmax [mx, my, mz]) [0, 1, 2] (magMin, magMax)
          in calibrateMag_loop rm n (magMin', magMax', s2))"

text \<open>
  One pass of the loop that publishes the offset: \<open>(magMax[j] + magMin[j]) / 2\<close> is
  computed in \<open>int\<close>; \<open>j\<close> is converted to \<open>uint8_t\<close> for \<open>LSM9DS1_magOffset\<close>.
\<close>

definition calibrateMag_publish ::
  "registers \<Rightarrow> bool \<Rightarrow> i16 list \<Rightarrow> i16 list \<Rightarrow> nat \<Rightarrow> driver \<Rightarrow> driver" where
  "calibrateMag_publish rm loadIn magMin magMax j s =
     (let s1 = s\<lparr>mBiasRaw := (mBiasRaw s)
                  [j := word_of_int ((sint (magMax ! j) + sint (magMin ! j)) sdiv 2)]\<rparr>;
          s2 = s1\<lparr>mBias := (mBias s1)[j := LSM9DS1_calcMag s1 (mBiasRaw s1 ! j)]\<rparr>
      in if loadIn then LSM9DS1_magOffset rm (of_nat j) (mBiasRaw s2 ! j) s2 else s2)"

definition LSM9DS1_calibrateMag :: "registers \<Rightarrow> bool \<Rightarrow> driver \<Rightarrow> driver option" where
  "LSM9DS1_calibrateMag rm loadIn s =
     (case calibrateMag_loop rm 128 ([0, 0, 0], [0, 0, 0], s) of
        None \<Rightarrow> None
      | Some (magMin, magMax, s1) \<Rightarrow>
          Some (fold (calibrateMag_publish rm loadIn magMin magMax) [0, 1, 2] s1))"

section \<open>Scale and output data rate setters\<close>

definition LSM9DS1_setGyroScale :: "registers \<Rightarrow> u16 \<Rightarrow> driver \<Rightarrow> driver" where
  "LSM9DS1_setGyroScale rm gScl s =
     (let (v, s1) = LSM9DS1_xgReadByte (CTRL_REG1_G rm) s;
          ctrl1RegValue = v AND 0xE7;
          (ctrl1RegValue', scl) =
             (if gScl = 500 then (ctrl1RegValue OR push_bit 3 0x1, 500)
              else if gScl = 2000 then (ctrl1RegValue OR push_bit 3 0x3, 2000)
              else (ctrl1RegValue, 245));
          s2 = s1\<lparr>settings := (settings s1)\<lparr>gyro := (gyro (settings s1))\<lparr>gyro_scale := scl\<rparr>\<rparr>\<rparr>;
          s3 = LSM9DS1_xgWriteByte (CTRL_REG1_G rm) ctrl1RegValue' s2
      in snd (LSM9DS1_calcgRes s3))"

definition LSM9DS1_setAccelScale :: "registers \<Rightarrow> u8 \<Rightarrow> driver \<Rightarrow> driver" where
  "LSM9DS1_setAccelScale rm aScl s =
     (let (v, s1) = LSM9DS1_xgReadByte (CTRL_REG6_XL rm) s;
          tempRegValue = v AND 0xE7;
          (tempRegValue', scl) =
             (if aScl = 4 then (tempRegValue OR push_bit 3 0x2, 4)
              else if aScl = 8 then (tempRegValue OR push_bit 3 0x3, 8)
              else if aScl = 16 then (tempRegValue OR push_bit 3 0x1, 16)
              else (tempRegValue, 2));
          s2 = s1\<lparr>settings := (settings s1)\<lparr>accel := (accel (settings s1))\<lparr>accel_scale := scl\<rparr>\<rparr>\<rparr>;
          s3 = LSM9DS1_xgWriteByte (CTRL_REG6_XL rm) tempRegValue' s2
      in snd (LSM9DS1_calcaRes s3))"

definition LSM9DS1_setMagScale :: "registers \<Rightarrow> u8 \<Rightarrow> driver \<Rightarrow> driver" where
  "LSM9DS1_setMagScale rm mScl s =
     (let (v, s1) = LSM9DS1_mReadByte (CTRL_REG2_M rm) s;
          temp = v AND (0xFF XOR push_bit 5 0x3);
          (temp', scl) =
             (if mScl = 8 then (temp OR push_bit 5 0x1, 8)
              else if mScl = 12 then (temp OR push_bit 5 0x2, 12)
              else if mScl = 16 then (temp OR push_bit 5 0x3, 16)
              else (temp, 4));
          s2 = s1\<lparr>settings := (settings s1)\<lparr>mag := (mag (settings s1))\<lparr>mag_scale := scl\<rparr>\<rparr>\<rparr>;
          s3 = LSM9DS1_mWriteByte (CTRL_REG2_M rm) temp' s2
      in snd (LSM9DS1_calcmRes s3))"

definition LSM9DS1_setGyroODR :: "registers \<Rightarrow> u8 \<Rightarrow> driver \<Rightarrow> driver" where
  "LSM9DS1_setGyroODR rm gRate s =
     (if gRate AND 0x07 \<noteq> 0 then
        let (v, s1) = LSM9DS1_xgReadByte (CTRL_REG1_G rm) s;
            temp = v AND (0xFF XOR push_bit 5 0x7);
            temp' = temp OR push_bit 5 (gRate AND 0x07);
            s2 = s1\<lparr>settings := (settings s1)
                    \<lparr>gyro := (gyro (settings s1))\<lparr>gyro_sampleRate := gRate AND 0x07\<rparr>\<rparr>\<rparr>
        in LSM9DS1_xgWriteByte (CTRL_REG1_G rm) temp' s2
      else s)"

definition LSM9DS1_setAccelODR :: "registers \<Rightarrow> u8 \<Rightarrow> driver \<Rightarrow> driver" where
  "LSM9DS1_setAccelODR rm aRate s =
     (if aRate AND 0x07 \<noteq> 0 then
        let (v, s1) = LSM9DS1_xgReadByte (CTRL_REG6_XL rm) s;
            temp = v AND 0x1F;
            temp' = temp OR push_bit 5 (aRate AND 0x07);
            s2 = s1\<lparr>settings := (settings s1)
                    \<lparr>accel := (accel (settings s1))\<lparr>accel_sampleRate := aRate AND 0x07\<rparr>\<rparr>\<rparr>
        in LSM9DS1_xgWriteByte (CTRL_REG6_XL rm) temp' s2
      else s)"

definition LSM9DS1_setMagODR :: "registers \<Rightarrow> u8 \<Rightarrow> driver \<Rightarrow> driver" where
  "LSM9DS1_setMagODR rm mRate s =
     (let (v, s1) = LSM9DS1_mReadByte (CTRL_REG1_M rm) s;
          temp = v AND (0xFF XOR push_bit 2 0x7);
          temp' = temp OR push_bit 2 (mRate AND 0x07);
          s2 = s1\<lparr>settings := (settings s1)
                  \<lparr>mag := (mag (settings s1))\<lparr>mag_sampleRate := mRate AND 0x07\<rparr>\<rparr>\<rparr>
      in LSM9DS1_mWriteByte (CTRL_REG1_M rm) temp' s2)"

section \<open>Bring-up\<close>

definition LSM9DS1_init :: "interface_mode \<Rightarrow> u8 \<Rightarrow> u8 \<Rightarrow> driver \<Rightarrow> driver" where
  "LSM9DS1_init interface xgAddr mAddr s =
     s\<lparr>settings :=
         \<lparr>device = \<lparr>commInterface = interface, agAddress = xgAddr, mAddress = mAddr\<rparr>,
          gyro = \<lparr>gyro_enabled = True, gyro_scale = 245, gyro_sampleRate = 6,
                  gyro_bandwidth = 0, gyro_lowPowerEnable = False, gyro_HPFEnable = False,
                  gyro_HPFCutoff = 0, gyro_flipX = False, gyro_flipY = False,
                  gyro_flipZ = False, gyro_orientation = 0, gyro_enableX = True,
                  gyro_enableY = True, gyro_enableZ = True, gyro_latchInterrupt = True\<rparr>,
          accel = \<lparr>accel_enabled = True, accel_scale = 2, accel_sampleRate = 6,
                   accel_enableX = True, accel_enableY = True, accel_enableZ = True,
                   accel_bandwidth = - 1, accel_highResEnable = False,
                   accel_highResBandwidth = 0\<rparr>,
          mag = \<lparr>mag_enabled = True, mag_scale = 4, mag_sampleRate = 7,
                 mag_tempCompensationEnable = False, mag_XYPerformance = 3,
                 mag_ZPerformance = 3, mag_lowPowerEnable = False, mag_operatingMode = 0\<rparr>,
          temp = \<lparr>temp_enabled = True\<rparr>\<rparr>,
       gBias := [0, 0, 0], aBias := [0, 0, 0], mBias := [0, 0, 0],
       gBiasRaw := [0, 0, 0], aBiasRaw := [0, 0, 0], mBiasRaw := [0, 0, 0],
       u_autoCalc := False\<rparr>"

text \<open>
  \<open>LSM9DS1_initGyro\<close> and \<open>LSM9DS1_initAccel\<close>: \<open>tempRegValue\<close> is a \<open>uint8_t\<close>, each
  \<open>|=\<close> keeps the low eight bits.
\<close>

definition LSM9DS1_initGyro :: "registers \<Rightarrow> driver \<Rightarrow> driver" where
  "LSM9DS1_initGyro rm s =
     (let g = gyro (settings s);
          t0 = (if gyro_enabled g then push_bit 5 (gyro_sampleRate g AND 0x07) else 0);
          t1 = (if gyro_scale g = 500 then t0 OR push_bit 3 0x1
                else if gyro_scale g = 2000 then t0 OR push_bit 3 0x3 else t0);
          t2 = t1 OR (gyro_bandwidth g AND 0x3);
          s1 = LSM9DS1_xgWriteByte (CTRL_REG1_G rm) t2 s;
          s2 = LSM9DS1_xgWriteByte (CTRL_REG2_G rm) 0x00 s1;
          t3 = (if gyro_lowPowerEnable g then push_bit 7 1 else 0);
          t4 = (if gyro_HPFEnable g then t3 OR (push_bit 6 1 OR (gyro_HPFCutoff g AND 0x0F))
                else t3);
          s3 = LSM9DS1_xgWriteByte (CTRL_REG3_G rm) t4 s2;
          t5 = (if gyro_enableZ g then push_bit 5 1 else 0);
          t6 = (if gyro_enableY g then t5 OR push_bit 4 1 else t5);
          t7 = (if gyro_enableX g then t6 OR push_bit 3 1 else t6);
          t8 = (if gyro_latchInterrupt g then t7 OR push_bit 1 1 else t7);
          s4 = LSM9DS1_xgWriteByte (CTRL_REG4 rm) t8 s3;
          t9 = (if gyro_flipX g then push_bit 5 1 else 0);
          t10 = (if gyro_flipY g then t9 OR push_bit 4 1 else t9);
          t11 = (if gyro_flipZ g then t10 OR push_bit 3 1 else t10)
      in LSM9DS1_xgWriteByte (ORIENT_CFG_G rm) t11 s4)"

definition LSM9DS1_initAccel :: "registers \<Rightarrow> driver \<Rightarrow> driver" where
  "LSM9DS1_initAccel rm s =
     (let a = accel (settings s);
          t0 = (if accel_enableZ a then push_bit 5 1 else 0);
          t1 = (if accel_enableY a then t0 OR push_bit 4 1 else t0);
          t2 = (if accel_enableX a then t1 OR push_bit 3 1 else t1);
          s1 = LSM9DS1_xgWriteByte (CTRL_REG5_XL rm) t2 s;
          t3 = (if accel_enabled a then push_bit 5 (accel_sampleRate a AND 0x07) else 0);
          t4 = (if accel_scale a = 4 then t3 OR push_bit 3 0x2
                else if accel_scale a = 8 then t3 OR push_bit 3 0x3
                else if accel_scale a = 16 then t3 OR push_bit 3 0x1 else t3);
          t5 = (if 0 \<le> sint (accel_bandwidth a)
                then (t4 OR push_bit 2 1) OR (accel_bandwidth a AND 0x03) else t4);
          s2 = LSM9DS1_xgWriteByte (CTRL_REG6_XL rm) t5 s1;
          t6 = (if accel_highResEnable a
                then push_bit 7 1 OR push_bit 5 (accel_highResBandwidth a AND 0x3) else 0)
      in LSM9DS1_xgWriteByte (CTRL_REG7_XL rm) t6 s2)"

text \<open>
  \<open>LSM9DS1_initI2C\<close> spins for ever when \<open>I2C_IF_Open\<close> fails: \<open>None\<close>.
  \<open>vTaskDelay\<close> only lets time pass.
\<close>

definition LSM9DS1_initI2C :: "driver \<Rightarrow> driver option" where
  "LSM9DS1_initI2C s = (if open_ok (bus s) then Some s else None)"

definition LSM9DS1_initSPI :: "driver \<Rightarrow> driver" where
  "LSM9DS1_initSPI s = s"

definition LSM9DS1_begin :: "registers \<Rightarrow> driver \<Rightarrow> (u16 \<times> driver) option" where
  "LSM9DS1_begin rm s =
     (let s1 = s\<lparr>u_xgAddress := agAddress (device (settings s)),
                 u_mAddress := mAddress (device (settings s))\<rparr>;
          s2 = LSM9DS1_constrainScales s1;
          s3 = snd (LSM9DS1_calcgRes s2);
          s4 = snd (LSM9DS1_calcmRes s3);
          s5 = snd (LSM9DS1_calcaRes s4)
      in case (case commInterface (device (settings s5)) of
                 IMU_MODE_I2C \<Rightarrow> LSM9DS1_initI2C s5
               | IMU_MODE_SPI \<Rightarrow> Some (LSM9DS1_initSPI s5)) of
           None \<Rightarrow> None
         | Some s6 \<Rightarrow>
             let (mTest, s7) = LSM9DS1_mReadByte (WHO_AM_I_M rm) s6;
                 (xgTest, s8) = LSM9DS1_xgReadByte (WHO_AM_I_XG rm) s7;
                 whoAmICombined =
                   (ucast (push_bit 8 (ucast xgTest :: i32) OR ucast mTest) :: u16);
                 s9 = LSM9DS1_initGyro rm s8;
                 s10 = LSM9DS1_initAccel rm s9
             in Some (whoAmICombined, s10))"

definition LSM9DS1_isConnected :: "registers \<Rightarrow> driver \<Rightarrow> bool \<times> driver" where
  "LSM9DS1_isConnected rm s =
     (let (mTest, s1) = LSM9DS1_mReadByte (WHO_AM_I_M rm) s;
          (xgTest, s2) = LSM9DS1_xgReadByte (WHO_AM_I_XG rm) s1;
          whoAmICombined = (ucast (push_bit 8 (ucast xgTest :: i32) OR ucast mTest) :: u16)
      in ((ucast whoAmICombined :: i32) =
            (push_bit 8 (WHO_AM_I_AG_RSP rm) OR WHO_AM_I_M_RSP rm), s2))"

section \<open>A concrete device for the example runs\<close>

text \<open>
  The register numbers, identity bytes and enumerator values of the LSM9DS1 data
  sheet, used where a statement below is run on a concrete input.
\<close>

definition example_registers :: registers where
  "example_registers =
     \<lparr>WHO_AM_I_XG = 0x0F, WHO_AM_I_M = 0x0F, WHO_AM_I_AG_RSP = 0x68, WHO_AM_I_M_RSP = 0x3D,
      CTRL_REG1_G = 0x10, CTRL_REG2_G = 0x11, CTRL_REG3_G = 0x12, CTRL_REG4 = 0x1E,
      ORIENT_CFG_G = 0x13, CTRL_REG5_XL = 0x1F, CTRL_REG6_XL = 0x20, CTRL_REG7_XL = 0x21,
      CTRL_REG9 = 0x23, FIFO_CTRL = 0x2E, FIFO_SRC = 0x2F, OUT_X_L_G = 0x18,
      OUT_X_L_XL = 0x28, OUT_X_L_M = 0x28, STATUS_REG_M = 0x27, OFFSET_X_REG_L_M = 0x05,
      OFFSET_X_REG_H_M = 0x06, CTRL_REG1_M = 0x20, CTRL_REG2_M = 0x21, FIFO_OFF = 0,
      FIFO_THS = 1, ALL_AXIS_value = 3\<rparr>"

text \<open>The statics before any call: all zero; the bus answers with \<open>f\<close>.\<close>

definition power_on :: "(nat \<Rightarrow> nat \<Rightarrow> u8) \<Rightarrow> driver" where
  "power_on f =
     \<lparr>settings =
         \<lparr>device = \<lparr>commInterface = IMU_MODE_SPI, agAddress = 0, mAddress = 0\<rparr>,
          gyro = \<lparr>gyro_enabled = False, gyro_scale = 0, gyro_sampleRate = 0,
                  gyro_bandwidth = 0, gyro_lowPowerEnable = False, gyro_HPFEnable = False,
                  gyro_HPFCutoff = 0, gyro_flipX = False, gyro_flipY = False,
                  gyro_flipZ = False, gyro_orientation = 0, gyro_enableX = False,
                  gyro_enableY = False, gyro_enableZ = False, gyro_latchInterrupt = False\<rparr>,
          accel = \<lparr>accel_enabled = False, accel_scale = 0, accel_sampleRate = 0,
                   accel_enableX = False, accel_enableY = False, accel_enableZ = False,
                   accel_bandwidth = 0, accel_highResEnable = False,
                   accel_highResBandwidth = 0\<rparr>,
          mag = \<lparr>mag_enabled = False, mag_scale = 0, mag_sampleRate = 0,
                 mag_tempCompensationEnable = False, mag_XYPerformance = 0,
                 mag_ZPerformance = 0, mag_lowPowerEnable = False, mag_operatingMode = 0\<rparr>,
          temp = \<lparr>temp_enabled = False\<rparr>\<rparr>,
      gBias = [0, 0, 0], aBias = [0, 0, 0], mBias = [0, 0, 0],
      gBiasRaw = [0, 0, 0], aBiasRaw = [0, 0, 0], mBiasRaw = [0, 0, 0],
      u_mAddress = 0, u_xgAddress = 0, gRes = 0, aRes = 0, mRes = 0,
      u_autoCalc = False,
      bus = \<lparr>rx = f, reads = 0, trace = [], open_ok = True\<rparr>\<rparr>"

text \<open>
  The driver after \<open>LSM9DS1_init\<close> with the given interface and the addresses, scales
  and resolutions that \<open>LSM9DS1_begin\<close> installs, before any bus traffic.
\<close>

definition example_driver :: "interface_mode \<Rightarrow> (nat \<Rightarrow> nat \<Rightarrow> u8) \<Rightarrow> driver" where
  "example_driver interface f =
     (LSM9DS1_init interface 0x6B 0x1E (power_on f))
       \<lparr>u_mAddress := 0x1E, u_xgAddress := 0x6B,
        gRes := SENSITIVITY_GYROSCOPE_245, aRes := SENSITIVITY_ACCELEROMETER_2,
        mRes := SENSITIVITY_MAGNETOMETER_4\<rparr>"

section \<open>Vocabulary of the statements\<close>

text \<open>
  The three little-endian samples carried by a burst of six bytes, low byte first,
  as the triplet readers assemble them.
\<close>

definition triplet :: "(nat \<Rightarrow> u8) \<Rightarrow> i16 \<times> i16 \<times> i16" where
  "triplet f = (int16_of_bytes (f 1) (f 0), int16_of_bytes (f 3) (f 2),
                int16_of_bytes (f 5) (f 4))"

text \<open>\<open>s'\<close> differs from \<open>s\<close> at most in the bus: its traffic and read position.\<close>

definition only_bus_changed :: "driver \<Rightarrow> driver \<Rightarrow> bool" where
  "only_bus_changed s s' = (s' = s\<lparr>bus := bus s'\<rparr>)"

text \<open>
  The state of \<open>LSM9DS1_begin\<close> once the addresses are copied, the scales
  constrained and the three resolutions computed, before the bus is opened.
\<close>

definition begin_configured :: "driver \<Rightarrow> driver" where
  "begin_configured s =
     snd (LSM9DS1_calcaRes (snd (LSM9DS1_calcmRes (snd (LSM9DS1_calcgRes
       (LSM9DS1_constrainScales
          (s\<lparr>u_xgAddress := agAddress (device (settings s)),
             u_mAddress := mAddress (device (settings s))\<rparr>)))))))"

text \<open>A driver whose three scale settings have been overwritten by the application.\<close>

definition with_scales :: "u16 \<Rightarrow> u8 \<Rightarrow> u8 \<Rightarrow> driver \<Rightarrow> driver" where
  "with_scales g a m s =
     s\<lparr>settings := (settings s)
         \<lparr>gyro := (gyro (settings s))\<lparr>gyro_scale := g\<rparr>,
          accel := (accel (settings s))\<lparr>accel_scale := a\<rparr>,
          mag := (mag (settings s))\<lparr>mag_scale := m\<rparr>\<rparr>\<rparr>"

text \<open>Each of the nine arrays of three elements holds three elements.\<close>

definition arrays_ok :: "driver \<Rightarrow> bool" where
  "arrays_ok s =
     (length (gBias s) = 3 \<and> length (aBias s) = 3 \<and> length (mBias s) = 3 \<and>
      length (gBiasRaw s) = 3 \<and> length (aBiasRaw s) = 3 \<and> length (mBiasRaw s) = 3)"

text \<open>
  The raw bias that the publishing loop of \<open>LSM9DS1_calibrate\<close> stores for a sum and a
  sample count: the quotient truncated towards zero, reduced to 16 bits.
\<close>

definition bias_of_sum :: "i32 \<Rightarrow> u8 \<Rightarrow> i16" where
  "bias_of_sum acc samples = word_of_int (sint acc sdiv uint samples)"

text \<open>
  The raw hard-iron offset that the publishing loop of \<open>LSM9DS1_calibrateMag\<close> stores
  for a running minimum and maximum: half their sum, truncated towards zero.
\<close>

definition offset_of_minmax :: "i16 \<Rightarrow> i16 \<Rightarrow> i16" where
  "offset_of_minmax lo hi = word_of_int ((sint hi + sint lo) sdiv 2)"

text \<open>
  The driver after \<open>k\<close> further read transactions, the events \<open>tr\<close> having been
  appended to the trace.
\<close>

definition advance :: "nat \<Rightarrow> bus_event list \<Rightarrow> driver \<Rightarrow> driver" where
  "advance k tr s =
     s\<lparr>bus := (bus s)\<lparr>reads := reads (bus s) + k, trace := trace (bus s) @ tr\<rparr>\<rparr>"

fun nth3 :: "'a \<times> 'a \<times> 'a \<Rightarrow> nat \<Rightarrow> 'a" where
  "nth3 (x, y, z) i = (if i = 0 then x else if i = 1 then y else z)"

text \<open>
  What \<open>LSM9DS1_readGyro\<close> and \<open>LSM9DS1_readAccel\<close> hand over on the I2C bus for the
  burst answered at read position \<open>n\<close>: the triplet of the burst, less the stored raw
  bias when auto-calibration is already on.
\<close>

definition gyro_reading :: "driver \<Rightarrow> nat \<Rightarrow> i16 \<times> i16 \<times> i16" where
  "gyro_reading s n =
     (let (gx, gy, gz) = triplet (rx (bus s) n)
      in if u_autoCalc s then (gx - gBiasRaw s ! 0, gy - gBiasRaw s ! 1, gz - gBiasRaw s ! 2)
         else (gx, gy, gz))"

definition accel_reading :: "driver \<Rightarrow> nat \<Rightarrow> i16 \<times> i16 \<times> i16" where
  "accel_reading s n =
     (let (ax, ay, az) = triplet (rx (bus s) n)
      in if u_autoCalc s then (ax - aBiasRaw s ! 0, ay - aBiasRaw s ! 1, az - aBiasRaw s ! 2)
         else (ax, ay, az))"

text \<open>
  The sums, as integers, of what the readers hand over for a batch of \<open>n\<close> gyroscope
  and \<open>n\<close> accelerometer bursts that alternate from read position \<open>p\<close> on (gyroscope
  first); each Z value of the accelerometer is reduced by \<open>one_g\<close>, the value of
  \<open>(int16_t)(1./aRes)\<close>.
\<close>

definition gyro_total :: "driver \<Rightarrow> nat \<Rightarrow> nat \<Rightarrow> nat \<Rightarrow> int" where
  "gyro_total s p n i = (\<Sum>j<n. sint (nth3 (gyro_reading s (p + 2 * j)) i))"

definition accel_total :: "driver \<Rightarrow> i16 \<Rightarrow> nat \<Rightarrow> nat \<Rightarrow> nat \<Rightarrow> int" where
  "accel_total s one_g p n i =
     (\<Sum>j<n. sint (nth3 (accel_reading s (p + 2 * j + 1)) i) -
             (if i = 2 then sint one_g else 0))"

text \<open>
  The FIFO entries themselves: gyroscope sample \<open>j\<close> and accelerometer sample \<open>j\<close> of
  the batch that starts at read position \<open>p\<close>, and the sums, as integers, of the first
  \<open>n\<close> samples of axis \<open>i\<close>, each Z sample of the accelerometer reduced by \<open>one_g\<close>.
\<close>

definition fifo_gyro :: "driver \<Rightarrow> nat \<Rightarrow> nat \<Rightarrow> i16 \<times> i16 \<times> i16" where
  "fifo_gyro s p j = triplet (rx (bus s) (p + 2 * j))"

definition fifo_accel :: "driver \<Rightarrow> nat \<Rightarrow> nat \<Rightarrow> i16 \<times> i16 \<times> i16" where
  "fifo_accel s p j = triplet (rx (bus s) (p + 2 * j + 1))"

definition gyro_sum :: "driver \<Rightarrow> nat \<Rightarrow> nat \<Rightarrow> nat \<Rightarrow> int" where
  "gyro_sum s p n i = (\<Sum>j<n. sint (nth3 (fifo_gyro s p j) i))"

definition accel_sum :: "driver \<Rightarrow> i16 \<Rightarrow> nat \<Rightarrow> nat \<Rightarrow> nat \<Rightarrow> int" where
  "accel_sum s one_g p n i =
     (\<Sum>j<n. sint (nth3 (fifo_accel s p j) i) - (if i = 2 then sint one_g else 0))"

text \<open>
  On the I2C bus \<open>LSM9DS1_calibrate\<close>, started in \<open>s\<close>, spends one read on
  \<open>CTRL_REG9\<close> and then polls \<open>FIFO_SRC\<close>.  \<open>fifo_level s m\<close> is the masked answer
  to poll number \<open>m\<close> (counted from 0); when that poll ends the wait, the batch starts
  at read position \<open>batch_start s m\<close>.
\<close>

definition fifo_level :: "driver \<Rightarrow> nat \<Rightarrow> u8" where
  "fifo_level s m = rx (bus s) (reads (bus s) + 1 + m) 0 AND 0x3F"

definition batch_start :: "driver \<Rightarrow> nat \<Rightarrow> nat" where
  "batch_start s m = reads (bus s) + m + 2"

text \<open>
  The answers of a device whose FIFO is full of identical entries: read 0 (of
  \<open>CTRL_REG9\<close>) is answered with 0, read 1 (of \<open>FIFO_SRC\<close>) with 31, every later
  read at an even position with the gyroscope burst \<open>g\<close> and at an odd position with
  the accelerometer burst \<open>a\<close>.
\<close>

definition fifo_of_identical :: "u8 list \<Rightarrow> u8 list \<Rightarrow> nat \<Rightarrow> nat \<Rightarrow> u8" where
  "fifo_of_identical g a n i =
     (if n = 0 then 0 else if n = 1 then 31
      else if even n then (if i < length g then g ! i else 0)
      else (if i < length a then a ! i else 0))"

text \<open>
  The driver as a call of \<open>LSM9DS1_calibrate\<close> with \<open>autoCalc\<close> leaves it when every
  FIFO entry is the gyroscope sample \<open>(1, 2, 3)\<close> and the accelerometer sample
  \<open>(10, 20, 16398)\<close> at 2 g (raw biases \<open>(1, 2, 3)\<close> and \<open>(10, 20, 5)\<close>,
  auto-calibration on), facing a device that answers a second calibration with the
  same FIFO content.
\<close>

definition calibrated_example :: driver where
  "calibrated_example =
     (example_driver IMU_MODE_I2C (fifo_of_identical [1, 0, 2, 0, 3, 0] [10, 0, 20, 0, 0x0E, 0x40]))
       \<lparr>gBiasRaw := [1, 2, 3], aBiasRaw := [10, 20, 5], u_autoCalc := True\<rparr>"

text \<open>
  The states the driver can be in after it was in \<open>s\<close>: \<open>later rm s t\<close> holds when \<open>t\<close>
  is reached from \<open>s\<close> by any sequence of calls of the readers, the data-ready test of
  the magnetometer, the scale and rate setters, the FIFO functions, \<open>LSM9DS1_magOffset\<close>
  and \<open>LSM9DS1_calibrateMag\<close> that return.
\<close>

inductive later :: "registers \<Rightarrow> driver \<Rightarrow> driver \<Rightarrow> bool"
  for rm :: registers and s :: driver where
  later_now: "later rm s s"
| later_readGyro: "later rm s t \<Longrightarrow> later rm s (snd (LSM9DS1_readGyro rm out t))"
| later_readAccel: "later rm s t \<Longrightarrow> later rm s (snd (LSM9DS1_readAccel rm out t))"
| later_readMag: "later rm s t \<Longrightarrow> later rm s (snd (LSM9DS1_readMag rm out t))"
| later_readGyroAxis:
    "later rm s t \<Longrightarrow> LSM9DS1_readGyroAxis rm axis t = Some (v, t') \<Longrightarrow> later rm s t'"
| later_readAccelAxis:
    "later rm s t \<Longrightarrow> LSM9DS1_readAccelAxis rm axis t = Some (v, t') \<Longrightarrow> later rm s t'"
| later_readMagAxis: "later rm s t \<Longrightarrow> later rm s (snd (LSM9DS1_readMagAxis rm axis t))"
| later_magAvailable: "later rm s t \<Longrightarrow> later rm s (snd (LSM9DS1_magAvailable rm axis t))"
| later_setGyroScale: "later rm s t \<Longrightarrow> later rm s (LSM9DS1_setGyroScale rm gScl t)"
| later_setAccelScale: "later rm s t \<Longrightarrow> later rm s (LSM9DS1_setAccelScale rm aScl t)"
| later_setMagScale: "later rm s t \<Longrightarrow> later rm s (LSM9DS1_setMagScale rm mScl t)"
| later_setGyroODR: "later rm s t \<Longrightarrow> later rm s (LSM9DS1_setGyroODR rm gRate t)"
| later_setAccelODR: "later rm s t \<Longrightarrow> later rm s (LSM9DS1_setAccelODR rm aRate t)"
| later_setMagODR: "later rm s t \<Longrightarrow> later rm s (LSM9DS1_setMagODR rm mRate t)"
| later_enableFIFO: "later rm s t \<Longrightarrow> later rm s (LSM9DS1_enableFIFO rm enable t)"
| later_setFIFO: "later rm s t \<Longrightarrow> later rm s (LSM9DS1_setFIFO rm fifoMode fifoThs t)"
| later_magOffset: "later rm s t \<Longrightarrow> later rm s (LSM9DS1_magOffset rm axis offset t)"
| later_calibrateMag:
    "later rm s t \<Longrightarrow> LSM9DS1_calibrateMag rm loadIn t = Some t' \<Longrightarrow> later rm s t'"

text \<open>
  \<open>t\<close> has the interface, the auto-calibration flag and the raw gyroscope and
  accelerometer biases of \<open>s\<close>.
\<close>

definition same_calibration :: "driver \<Rightarrow> driver \<Rightarrow> bool" where
  "same_calibration s t =
     (commInterface (device (settings t)) = commInterface (device (settings s)) \<and>
      u_autoCalc t = u_autoCalc s \<and> gBiasRaw t = gBiasRaw s \<and> aBiasRaw t = aBiasRaw s)"

text \<open>
  The test that ends \<open>while (!LSM9DS1_magAvailable(ALL_AXIS))\<close>, on the status byte the
  poll has read.
\<close>

definition mag_ready :: "registers \<Rightarrow> u8 \<Rightarrow> bool" where
  "mag_ready rm status =
     ((ucast (drop_bit (ALL_AXIS_value rm)
                ((ucast status :: i32) AND push_bit (ALL_AXIS_value rm) 1)) :: u8) \<noteq> 0)"

text \<open>
  The read position at which pass \<open>i\<close> of the sampling loop of \<open>LSM9DS1_calibrateMag\<close>
  starts, when pass \<open>i\<close> polls \<open>w i\<close> times in vain, once with success, and then reads
  one burst; the burst of pass \<open>i\<close>; the bus events of pass \<open>i\<close>.
\<close>

fun round_start :: "(nat \<Rightarrow> nat) \<Rightarrow> nat \<Rightarrow> nat \<Rightarrow> nat" where
  "round_start w p 0 = p"
| "round_start w p (Suc i) = round_start w p i + w i + 2"

definition mag_sample :: "driver \<Rightarrow> (nat \<Rightarrow> nat) \<Rightarrow> nat \<Rightarrow> i16 \<times> i16 \<times> i16" where
  "mag_sample s w i = triplet (rx (bus s) (round_start w (reads (bus s)) i + w i + 1))"

definition round_events :: "registers \<Rightarrow> driver \<Rightarrow> (nat \<Rightarrow> nat) \<Rightarrow> nat \<Rightarrow> bus_event list" where
  "round_events rm s w i =
     map (\<lambda>k. Rd (u_mAddress s) (STATUS_REG_M rm)
                 [rx (bus s) (round_start w (reads (bus s)) i + k) 0]) [0 ..< Suc (w i)] @
     [Rd (u_mAddress s) (OUT_X_L_M rm)
         (map (rx (bus s) (round_start w (reads (bus s)) i + w i + 1)) [0 ..< 6])]"

text \<open>
  The device answers the polls of the first \<open>n\<close> passes as \<open>w\<close> says: in pass \<open>i\<close> the
  first \<open>w i\<close> status bytes fail the test and the next one passes it.
\<close>

definition polls_ok :: "registers \<Rightarrow> driver \<Rightarrow> (nat \<Rightarrow> nat) \<Rightarrow> nat \<Rightarrow> bool" where
  "polls_ok rm s w n =
     (\<forall>i<n. (\<forall>k<w i. \<not> mag_ready rm (rx (bus s) (round_start w (reads (bus s)) i + k) 0)) \<and>
             mag_ready rm (rx (bus s) (round_start w (reads (bus s)) i + w i) 0))"

text \<open>
  The least and the greatest of zero and the first \<open>n\<close> samples of axis \<open>j\<close>, as
  integers.
\<close>

definition running_min :: "driver \<Rightarrow> (nat \<Rightarrow> nat) \<Rightarrow> nat \<Rightarrow> nat \<Rightarrow> int" where
  "running_min s w n j = Min (insert 0 ((\<lambda>i. sint (nth3 (mag_sample s w i) j)) ` {..<n}))"

definition running_max :: "driver \<Rightarrow> (nat \<Rightarrow> nat) \<Rightarrow> nat \<Rightarrow> nat \<Rightarrow> int" where
  "running_max s w n j = Max (insert 0 ((\<lambda>i. sint (nth3 (mag_sample s w i) j)) ` {..<n}))"

text \<open>A burst of six bytes, as the triplet readers request it.\<close>

fun is_burst :: "bus_event \<Rightarrow> bool" where
  "is_burst (Rd a r d) = (length d = 6)"
| "is_burst (Wr a r d) = False"

text \<open>
  The answers of a magnetometer whose every poll finds data ready (status 0x08) and
  whose bursts alternate between the six bytes \<open>a\<close> and the six bytes \<open>b\<close>: polls are
  answered at even read positions, bursts at odd ones.
\<close>

definition mag_of_two :: "u8 list \<Rightarrow> u8 list \<Rightarrow> nat \<Rightarrow> nat \<Rightarrow> u8" where
  "mag_of_two a b n i =
     (if even n then 0x08
      else if n mod 4 = 1 then (if i < length a then a ! i else 0)
      else (if i < length b then b ! i else 0))"

section \<open>Bit-level facts about the register bytes\<close>

lemma mask_numerals:
  "(0x1F :: 'a::len word) = mask 5"
  "(7 :: 'a::len word) = mask 3"
  "(0xFF :: 'a::len word) = mask 8"
  by (simp_all add: mask_eq_exp_minus_1)

lemma numeral_FF00: "(0xFF00 :: i32) = push_bit 8 (mask 8)"
  by (simp add: mask_eq_exp_minus_1)

lemma and_1F_u8: "(x::u8) \<le> 0x1F \<Longrightarrow> x AND 0x1F = x"
proof -
  assume "x \<le> 0x1F"
  then have "x < 2 ^ 5" by (simp add: word_le_nat_alt word_less_nat_alt)
  then have "x AND mask 5 = x" by (rule less_mask_eq)
  then show ?thesis by (simp only: mask_numerals)
qed

lemma setFIFO_bits:
  "(ucast (push_bit 5 (fifoMode AND mask 3) OR (ucast (t::u8) AND mask 5) :: i32) :: u8)
     = push_bit 5 (ucast fifoMode AND mask 3) OR (t AND mask 5)"
  by (rule bit_word_eqI) (auto simp add: bit_simps)

lemma setFIFO_byte:
  "(ucast (push_bit 5 (fifoMode AND 0x7) OR
      (ucast (if fifoThs \<le> 0x1F then fifoThs else 0x1F) AND 0x1F) :: i32) :: u8)
   = push_bit 5 (ucast fifoMode AND 0x7) OR min (fifoThs::u8) 31"
proof -
  have "(if fifoThs \<le> 0x1F then fifoThs else 0x1F) AND mask 5 = min fifoThs 31"
    using and_1F_u8 [of fifoThs] by (simp add: min_def mask_numerals(1) [symmetric])
  then show ?thesis
    unfolding mask_numerals setFIFO_bits by simp
qed

lemma setFIFO_fields:
  "(push_bit 5 (m AND 0x7) OR min (t::u8) 31) AND 0x1F = min t 31"
  "drop_bit 5 (push_bit 5 (m AND 0x7) OR min (t::u8) 31) = m AND 7"
proof -
  have "min t 31 \<le> 0x1F" by simp
  then have e: "min t 31 = min t 31 AND mask 5"
    using and_1F_u8 [of "min t 31"] by (simp only: mask_numerals)
  show "(push_bit 5 (m AND 0x7) OR min (t::u8) 31) AND 0x1F = min t 31"
    apply (subst (2) e) apply (subst e) unfolding mask_numerals
    by (rule bit_word_eqI) (auto simp add: bit_simps)
  show "drop_bit 5 (push_bit 5 (m AND 0x7) OR min (t::u8) 31) = m AND 7"
    apply (subst e) unfolding mask_numerals
    by (rule bit_word_eqI) (auto simp add: bit_simps)
qed

lemma setFIFO_eq:
  "LSM9DS1_setFIFO rm fifoMode fifoThs s =
     LSM9DS1_xgWriteByte (FIFO_CTRL rm)
       (push_bit 5 (ucast fifoMode AND 0x7) OR min fifoThs 31) s"
  unfolding LSM9DS1_setFIFO_def Let_def setFIFO_byte ..

lemma magOffset_msb_mask:
  "(ucast (drop_bit 8 ((scast (offset::i16) :: i32) AND push_bit 8 (mask 8))) :: u8)
     = ucast (drop_bit 8 offset)"
  by (rule bit_word_eqI) (auto simp add: bit_simps)

lemma magOffset_msb:
  "(ucast (drop_bit 8 ((scast (offset::i16) :: i32) AND 0xFF00)) :: u8)
     = ucast (drop_bit 8 offset)"
  using magOffset_msb_mask [of offset] by (simp only: numeral_FF00)

lemma magOffset_lsb_mask:
  "(ucast ((scast (offset::i16) :: i32) AND mask 8) :: u8) = ucast offset"
  by (rule bit_word_eqI) (auto simp add: bit_simps)

lemma magOffset_lsb:
  "(ucast ((scast (offset::i16) :: i32) AND 0x00FF) :: u8) = ucast offset"
  using magOffset_lsb_mask [of offset] by (simp only: mask_numerals)

lemma magOffset_reg:
  "(ucast ((ucast (r::u8) :: i32) + 2 * ucast (axis::u8)) :: u8) = r + 2 * axis"
proof -
  have "(ucast r :: i32) + 2 * ucast axis = word_of_int (uint r + 2 * uint axis)"
    by simp
  then have "(ucast ((ucast r :: i32) + 2 * ucast axis) :: u8)
               = word_of_int (uint r + 2 * uint axis)"
    by (simp only: ucast_down_wi is_down len_bit0 len_num1)
  also have "\<dots> = r + 2 * axis" by simp
  finally show ?thesis .
qed

lemma magOffset_eq:
  "axis \<le> 2 \<Longrightarrow> LSM9DS1_magOffset rm axis offset s =
     LSM9DS1_mWriteByte (OFFSET_X_REG_H_M rm + 2 * axis) (ucast (drop_bit 8 offset))
       (LSM9DS1_mWriteByte (OFFSET_X_REG_L_M rm + 2 * axis) (ucast offset) s)"
  unfolding LSM9DS1_magOffset_def Let_def magOffset_msb magOffset_lsb magOffset_reg
  by (simp add: not_less [symmetric])

lemma offset_block:
  assumes "axis \<le> (2::u8)" "unat (L::u8) + 5 < 256"
  shows "L \<le> L + 2 * axis" "L + 2 * axis < L + 1 + 2 * axis"
    "L + 1 + 2 * axis \<le> L + 1 + 4"
proof -
  have a: "unat axis \<le> 2" using assms(1) by (simp add: word_le_nat_alt)
  have u1: "unat (L + 2 * axis) = unat L + 2 * unat axis"
    using a assms(2) by (simp add: unat_word_ariths)
  have u2: "unat (L + 1 + 2 * axis) = unat L + 1 + 2 * unat axis"
    using a assms(2) by (simp add: unat_word_ariths)
  have u3: "unat (L + 1 + 4) = unat L + 5"
    using assms(2) by (simp add: unat_word_ariths)
  show "L \<le> L + 2 * axis" unfolding word_le_nat_alt u1 by simp
  show "L + 2 * axis < L + 1 + 2 * axis" unfolding word_less_nat_alt u1 u2 by simp
  show "L + 1 + 2 * axis \<le> L + 1 + 4" unfolding word_le_nat_alt u2 u3 using a by simp
qed

section \<open>The transport in I2C mode and in SPI mode\<close>

lemma xgWriteByte_I2C:
  "commInterface (device (settings s)) = IMU_MODE_I2C \<Longrightarrow>
     LSM9DS1_xgWriteByte r d s =
       s\<lparr>bus := (bus s)\<lparr>trace := trace (bus s) @ [Wr (u_xgAddress s) r d]\<rparr>\<rparr>"
  by (simp add: LSM9DS1_xgWriteByte_def LSM9DS1_I2CwriteByte_def)

lemma mWriteByte_I2C:
  "commInterface (device (settings s)) = IMU_MODE_I2C \<Longrightarrow>
     LSM9DS1_mWriteByte r d s =
       s\<lparr>bus := (bus s)\<lparr>trace := trace (bus s) @ [Wr (u_mAddress s) r d]\<rparr>\<rparr>"
  by (simp add: LSM9DS1_mWriteByte_def LSM9DS1_I2CwriteByte_def)

lemma example_driver_mode:
  "commInterface (device (settings (example_driver m f))) = m"
  by (simp add: example_driver_def LSM9DS1_init_def)

section \<open>FIFO control byte\<close>

text \<open>
  C9.  For every FIFO mode and every requested threshold, \<open>LSM9DS1_setFIFO\<close> hands the
  byte \<open>((fifoMode & 0x7) << 5) | min(fifoThs, 31)\<close> to the register write of
  \<open>FIFO_CTRL\<close> (on the I2C bus this is exactly one write transaction with that
  byte).  The low five bits of the byte are the clamped threshold and the three
  high bits are the mode, so a threshold above 31 never reaches the mode bits.
\<close>

theorem setFIFO_writes_clamped_threshold:
  "LSM9DS1_setFIFO rm fifoMode fifoThs s =
     LSM9DS1_xgWriteByte (FIFO_CTRL rm)
       (push_bit 5 (ucast fifoMode AND 0x7) OR min fifoThs 31) s
   \<and> (commInterface (device (settings s)) = IMU_MODE_I2C \<longrightarrow>
        trace (bus (LSM9DS1_setFIFO rm fifoMode fifoThs s)) =
          trace (bus s) @ [Wr (u_xgAddress s) (FIFO_CTRL rm)
                             (push_bit 5 (ucast fifoMode AND 0x7) OR min fifoThs 31)])
   \<and> (push_bit 5 (ucast fifoMode AND 0x7) OR min fifoThs 31 :: u8) AND 0x1F
        = min fifoThs 31
   \<and> drop_bit 5 (push_bit 5 (ucast fifoMode AND 0x7) OR min fifoThs 31 :: u8)
        = ucast fifoMode AND 0x7"
  by (simp only: setFIFO_eq setFIFO_fields) (simp add: xgWriteByte_I2C)

theorem setFIFO_writes_clamped_threshold_witness:
  "commInterface (device (settings (example_driver IMU_MODE_I2C (\<lambda>n i. 0)))) = IMU_MODE_I2C \<and>
   trace (bus (LSM9DS1_setFIFO example_registers 1 200
                 (example_driver IMU_MODE_I2C (\<lambda>n i. 0))))
     = [Wr 0x6B 0x2E 0x3F]"
proof -
  let ?s = "example_driver IMU_MODE_I2C (\<lambda>n i. 0)"
  have h: "commInterface (device (settings ?s)) = IMU_MODE_I2C"
    by (rule example_driver_mode)
  from setFIFO_writes_clamped_threshold [of example_registers 1 200 ?s] h
  have "trace (bus (LSM9DS1_setFIFO example_registers 1 200 ?s)) =
          trace (bus ?s) @ [Wr (u_xgAddress ?s) (FIFO_CTRL example_registers)
                             (push_bit 5 (ucast (1::i32) AND 0x7) OR min 200 31)]"
    by blast
  also have "\<dots> = [Wr 0x6B 0x2E 0x3F]"
    by (simp add: example_driver_def LSM9DS1_init_def power_on_def example_registers_def)
  finally show ?thesis using h by simp
qed

section \<open>Magnetometer offset registers\<close>

text \<open>
  C10.  For an axis argument above 2 \<open>LSM9DS1_magOffset\<close> returns the state as it
  was: no register write.  For an axis in 0..2 it makes exactly two register
  writes, the low byte to \<open>OFFSET_X_REG_L_M + 2 * axis\<close> and then the high byte to
  \<open>OFFSET_X_REG_H_M + 2 * axis\<close>; when the two base registers are neighbours and the
  block of six does not run over the end of the address space, both numbers lie
  between \<open>OFFSET_X_REG_L_M\<close> and \<open>OFFSET_X_REG_H_M + 4\<close>.
\<close>

theorem magOffset_stays_in_offset_block:
  "(2 < axis \<longrightarrow> LSM9DS1_magOffset rm axis offset s = s) \<and>
   (axis \<le> 2 \<longrightarrow>
      LSM9DS1_magOffset rm axis offset s =
        LSM9DS1_mWriteByte (OFFSET_X_REG_H_M rm + 2 * axis) (ucast (drop_bit 8 offset))
          (LSM9DS1_mWriteByte (OFFSET_X_REG_L_M rm + 2 * axis) (ucast offset) s) \<and>
      (commInterface (device (settings s)) = IMU_MODE_I2C \<longrightarrow>
         LSM9DS1_magOffset rm axis offset s =
           s\<lparr>bus := (bus s)\<lparr>trace := trace (bus s) @
              [Wr (u_mAddress s) (OFFSET_X_REG_L_M rm + 2 * axis) (ucast offset),
               Wr (u_mAddress s) (OFFSET_X_REG_H_M rm + 2 * axis)
                  (ucast (drop_bit 8 offset))]\<rparr>\<rparr>) \<and>
      (OFFSET_X_REG_H_M rm = OFFSET_X_REG_L_M rm + 1 \<and>
       unat (OFFSET_X_REG_L_M rm) + 5 < 256 \<longrightarrow>
         OFFSET_X_REG_L_M rm \<le> OFFSET_X_REG_L_M rm + 2 * axis \<and>
         OFFSET_X_REG_L_M rm + 2 * axis < OFFSET_X_REG_H_M rm + 2 * axis \<and>
         OFFSET_X_REG_H_M rm + 2 * axis \<le> OFFSET_X_REG_H_M rm + 4))"
proof (intro conjI impI)
  assume "2 < axis"
  then show "LSM9DS1_magOffset rm axis offset s = s"
    by (simp add: LSM9DS1_magOffset_def)
next
  assume "axis \<le> 2"
  then show "LSM9DS1_magOffset rm axis offset s =
        LSM9DS1_mWriteByte (OFFSET_X_REG_H_M rm + 2 * axis) (ucast (drop_bit 8 offset))
          (LSM9DS1_mWriteByte (OFFSET_X_REG_L_M rm + 2 * axis) (ucast offset) s)"
    by (rule magOffset_eq)
next
  assume "axis \<le> 2" and "commInterface (device (settings s)) = IMU_MODE_I2C"
  then show "LSM9DS1_magOffset rm axis offset s =
           s\<lparr>bus := (bus s)\<lparr>trace := trace (bus s) @
              [Wr (u_mAddress s) (OFFSET_X_REG_L_M rm + 2 * axis) (ucast offset),
               Wr (u_mAddress s) (OFFSET_X_REG_H_M rm + 2 * axis)
                  (ucast (drop_bit 8 offset))]\<rparr>\<rparr>"
    by (simp add: magOffset_eq mWriteByte_I2C)
next
  assume a: "axis \<le> 2"
    and b: "OFFSET_X_REG_H_M rm = OFFSET_X_REG_L_M rm + 1 \<and>
            unat (OFFSET_X_REG_L_M rm) + 5 < 256"
  from offset_block(1) [OF a] b
  show "OFFSET_X_REG_L_M rm \<le> OFFSET_X_REG_L_M rm + 2 * axis" by blast
next
  assume a: "axis \<le> 2"
    and b: "OFFSET_X_REG_H_M rm = OFFSET_X_REG_L_M rm + 1 \<and>
            unat (OFFSET_X_REG_L_M rm) + 5 < 256"
  from offset_block(2) [OF a, of "OFFSET_X_REG_L_M rm"] b
  show "OFFSET_X_REG_L_M rm + 2 * axis < OFFSET_X_REG_H_M rm + 2 * axis" by simp
next
  assume a: "axis \<le> 2"
    and b: "OFFSET_X_REG_H_M rm = OFFSET_X_REG_L_M rm + 1 \<and>
            unat (OFFSET_X_REG_L_M rm) + 5 < 256"
  from offset_block(3) [OF a, of "OFFSET_X_REG_L_M rm"] b
  show "OFFSET_X_REG_H_M rm + 2 * axis \<le> OFFSET_X_REG_H_M rm + 4" by simp
qed

theorem magOffset_stays_in_offset_block_witness:
  "LSM9DS1_magOffset example_registers 3 0x1234 (example_driver IMU_MODE_I2C (\<lambda>n i. 0))
     = example_driver IMU_MODE_I2C (\<lambda>n i. 0) \<and>
   trace (bus (LSM9DS1_magOffset example_registers 2 0x1234
                 (example_driver IMU_MODE_I2C (\<lambda>n i. 0))))
     = [Wr 0x1E 0x09 0x34, Wr 0x1E 0x0A 0x12] \<and>
   (0x05 :: u8) \<le> 0x09 \<and> (0x09 :: u8) < 0x0A \<and> (0x0A :: u8) \<le> 0x0A"
proof -
  let ?s = "example_driver IMU_MODE_I2C (\<lambda>n i. 0)"
  have h: "commInterface (device (settings ?s)) = IMU_MODE_I2C"
    by (rule example_driver_mode)
  have r: "OFFSET_X_REG_H_M example_registers = OFFSET_X_REG_L_M example_registers + 1 \<and>
       unat (OFFSET_X_REG_L_M example_registers) + 5 < 256"
    by (simp add: example_registers_def)
  have a3: "(2::u8) < 3" and a2: "(2::u8) \<le> 2" by simp_all
  from magOffset_stays_in_offset_block [of 3 example_registers "0x1234" ?s] a3
  have one: "LSM9DS1_magOffset example_registers 3 0x1234 ?s = ?s" by blast
  from magOffset_stays_in_offset_block [of 2 example_registers "0x1234" ?s] a2 h r
  have two: "LSM9DS1_magOffset example_registers 2 0x1234 ?s =
           ?s\<lparr>bus := (bus ?s)\<lparr>trace := trace (bus ?s) @
              [Wr (u_mAddress ?s) (OFFSET_X_REG_L_M example_registers + 2 * 2) (ucast (0x1234 :: i16)),
               Wr (u_mAddress ?s) (OFFSET_X_REG_H_M example_registers + 2 * 2)
                  (ucast (drop_bit 8 (0x1234 :: i16)))]\<rparr>\<rparr>"
    and three: "OFFSET_X_REG_L_M example_registers \<le> OFFSET_X_REG_L_M example_registers + 2 * 2 \<and>
         OFFSET_X_REG_L_M example_registers + 2 * 2 < OFFSET_X_REG_H_M example_registers + 2 * 2 \<and>
         OFFSET_X_REG_H_M example_registers + 2 * 2 \<le> OFFSET_X_REG_H_M example_registers + 4"
    by blast+
  have "trace (bus (LSM9DS1_magOffset example_registers 2 0x1234 ?s))
     = [Wr 0x1E 0x09 0x34, Wr 0x1E 0x0A 0x12]"
    unfolding two
    by (simp add: example_driver_def LSM9DS1_init_def power_on_def example_registers_def drop_bit_eq_div)
  with one three show ?thesis by (simp add: example_registers_def)
qed

lemma xgWriteByte_SPI:
  "commInterface (device (settings s)) = IMU_MODE_SPI \<Longrightarrow> LSM9DS1_xgWriteByte r d s = s"
  by (simp add: LSM9DS1_xgWriteByte_def LSM9DS1_SPIwriteByte_def)

lemma mWriteByte_SPI:
  "commInterface (device (settings s)) = IMU_MODE_SPI \<Longrightarrow> LSM9DS1_mWriteByte r d s = s"
  by (simp add: LSM9DS1_mWriteByte_def LSM9DS1_SPIwriteByte_def)

lemma xgReadByte_I2C:
  "commInterface (device (settings s)) = IMU_MODE_I2C \<Longrightarrow>
     LSM9DS1_xgReadByte r s =
       (rx (bus s) (reads (bus s)) 0,
        s\<lparr>bus := (bus s)\<lparr>reads := Suc (reads (bus s)),
                          trace := trace (bus s) @
                            [Rd (u_xgAddress s) r [rx (bus s) (reads (bus s)) 0]]\<rparr>\<rparr>)"
  by (simp add: LSM9DS1_xgReadByte_def LSM9DS1_I2CreadByte_def)

lemma mReadByte_I2C:
  "commInterface (device (settings s)) = IMU_MODE_I2C \<Longrightarrow>
     LSM9DS1_mReadByte r s =
       (rx (bus s) (reads (bus s)) 0,
        s\<lparr>bus := (bus s)\<lparr>reads := Suc (reads (bus s)),
                          trace := trace (bus s) @
                            [Rd (u_mAddress s) r [rx (bus s) (reads (bus s)) 0]]\<rparr>\<rparr>)"
  by (simp add: LSM9DS1_mReadByte_def LSM9DS1_I2CreadByte_def)

lemma xgReadByte_SPI:
  "commInterface (device (settings s)) = IMU_MODE_SPI \<Longrightarrow> LSM9DS1_xgReadByte r s = (0, s)"
  by (simp add: LSM9DS1_xgReadByte_def LSM9DS1_SPIreadByte_def)

lemma mReadByte_SPI:
  "commInterface (device (settings s)) = IMU_MODE_SPI \<Longrightarrow> LSM9DS1_mReadByte r s = (0, s)"
  by (simp add: LSM9DS1_mReadByte_def LSM9DS1_SPIreadByte_def)

lemma xgReadBytes_I2C:
  "commInterface (device (settings s)) = IMU_MODE_I2C \<Longrightarrow>
     LSM9DS1_xgReadBytes r dest count s =
       (count,
        map (rx (bus s) (reads (bus s))) [0 ..< unat count] @ drop (unat count) dest,
        s\<lparr>bus := (bus s)\<lparr>reads := Suc (reads (bus s)),
                          trace := trace (bus s) @
                            [Rd (u_xgAddress s) r
                               (map (rx (bus s) (reads (bus s))) [0 ..< unat count])]\<rparr>\<rparr>)"
  by (simp add: LSM9DS1_xgReadBytes_def LSM9DS1_I2CreadBytes_def)

lemma mReadBytes_I2C:
  "commInterface (device (settings s)) = IMU_MODE_I2C \<Longrightarrow>
     LSM9DS1_mReadBytes r dest count s =
       (count,
        map (rx (bus s) (reads (bus s))) [0 ..< unat count] @ drop (unat count) dest,
        s\<lparr>bus := (bus s)\<lparr>reads := Suc (reads (bus s)),
                          trace := trace (bus s) @
                            [Rd (u_mAddress s) r
                               (map (rx (bus s) (reads (bus s))) [0 ..< unat count])]\<rparr>\<rparr>)"
  by (simp add: LSM9DS1_mReadBytes_def LSM9DS1_I2CreadBytes_def)

lemma xgReadBytes_SPI:
  "commInterface (device (settings s)) = IMU_MODE_SPI \<Longrightarrow>
     LSM9DS1_xgReadBytes r dest count s = (0, dest, s)"
  by (simp add: LSM9DS1_xgReadBytes_def LSM9DS1_SPIreadBytes_def)

lemma mReadBytes_SPI:
  "commInterface (device (settings s)) = IMU_MODE_SPI \<Longrightarrow>
     LSM9DS1_mReadBytes r dest count s = (0, dest, s)"
  by (simp add: LSM9DS1_mReadBytes_def LSM9DS1_SPIreadBytes_def)

text \<open>A short read happens exactly in SPI mode.\<close>
lemma xgReadBytes_short:
  "0 < count \<Longrightarrow> (fst (LSM9DS1_xgReadBytes r dest count s) \<noteq> count) = (commInterface (device (settings s)) = IMU_MODE_SPI)"
  by (cases "commInterface (device (settings s))") (auto simp add: xgReadBytes_I2C xgReadBytes_SPI)

lemma burst_nth:
  "k < 6 \<Longrightarrow> (map f [0 ..< 6] @ drop 6 (temp_buffer 6)) ! k = f k"
  by (simp add: nth_append)

lemma burst2_nth:
  "k < 2 \<Longrightarrow> (map f [0 ..< 2] @ drop 2 (temp_buffer 2)) ! k = f k"
  by (simp add: nth_append)

lemma readGyro_I2C:
  "commInterface (device (settings s)) = IMU_MODE_I2C \<Longrightarrow>
     LSM9DS1_readGyro rm out s =
       (let (gx, gy, gz) = triplet (rx (bus s) (reads (bus s))) in
        if u_autoCalc s then (gx - gBiasRaw s ! 0, gy - gBiasRaw s ! 1, gz - gBiasRaw s ! 2)
        else (gx, gy, gz),
        snd (snd (LSM9DS1_xgReadBytes (OUT_X_L_G rm) (temp_buffer 6) 6 s)))"
  by (simp add: LSM9DS1_readGyro_def xgReadBytes_I2C burst_nth triplet_def Let_def)

lemma only_bus_changedI: "s' = s\<lparr>bus := b\<rparr> \<Longrightarrow> only_bus_changed s s'"
  by (simp add: only_bus_changed_def)

lemma only_bus_changedD: "only_bus_changed s s' \<Longrightarrow> \<exists>b. s' = s\<lparr>bus := b\<rparr>"
  unfolding only_bus_changed_def by (rule exI [of _ "bus s'"])

lemma only_bus_changed_refl: "only_bus_changed s s"
  by (simp add: only_bus_changed_def)

lemma only_bus_changed_trans:
  assumes "only_bus_changed s s'" "only_bus_changed s' s''"
  shows "only_bus_changed s s''"
proof -
  from only_bus_changedD [OF assms(1)] obtain b where b: "s' = s\<lparr>bus := b\<rparr>" ..
  from only_bus_changedD [OF assms(2)] obtain b' where b': "s'' = s'\<lparr>bus := b'\<rparr>" ..
  have "s'' = s\<lparr>bus := b'\<rparr>" by (simp add: b b')
  then show ?thesis by (rule only_bus_changedI)
qed

lemma only_bus_changed_fields:
  assumes "only_bus_changed s s'"
  shows "settings s' = settings s" "gBias s' = gBias s" "aBias s' = aBias s" "mBias s' = mBias s"
    "gBiasRaw s' = gBiasRaw s" "aBiasRaw s' = aBiasRaw s" "mBiasRaw s' = mBiasRaw s"
    "u_mAddress s' = u_mAddress s" "u_xgAddress s' = u_xgAddress s"
    "gRes s' = gRes s" "aRes s' = aRes s" "mRes s' = mRes s" "u_autoCalc s' = u_autoCalc s"
proof -
  from only_bus_changedD [OF assms] obtain b where b: "s' = s\<lparr>bus := b\<rparr>" ..
  show "settings s' = settings s" "gBias s' = gBias s" "aBias s' = aBias s" "mBias s' = mBias s"
    "gBiasRaw s' = gBiasRaw s" "aBiasRaw s' = aBiasRaw s" "mBiasRaw s' = mBiasRaw s"
    "u_mAddress s' = u_mAddress s" "u_xgAddress s' = u_xgAddress s"
    "gRes s' = gRes s" "aRes s' = aRes s" "mRes s' = mRes s" "u_autoCalc s' = u_autoCalc s"
    by (simp_all add: b)
qed

lemma xgWriteByte_frame: "only_bus_changed s (LSM9DS1_xgWriteByte r d s)"
  by (cases "commInterface (device (settings s))")
     (simp_all add: xgWriteByte_I2C xgWriteByte_SPI only_bus_changed_def)

lemma mWriteByte_frame: "only_bus_changed s (LSM9DS1_mWriteByte r d s)"
  by (cases "commInterface (device (settings s))")
     (simp_all add: mWriteByte_I2C mWriteByte_SPI only_bus_changed_def)

lemma xgReadByte_frame: "only_bus_changed s (snd (LSM9DS1_xgReadByte r s))"
  by (cases "commInterface (device (settings s))")
     (simp_all add: xgReadByte_I2C xgReadByte_SPI only_bus_changed_def)

lemma mReadByte_frame: "only_bus_changed s (snd (LSM9DS1_mReadByte r s))"
  by (cases "commInterface (device (settings s))")
     (simp_all add: mReadByte_I2C mReadByte_SPI only_bus_changed_def)

lemma xgReadBytes_frame: "only_bus_changed s (snd (snd (LSM9DS1_xgReadBytes r dest n s)))"
  by (cases "commInterface (device (settings s))")
     (simp_all add: xgReadBytes_I2C xgReadBytes_SPI only_bus_changed_def)

lemma mReadBytes_frame: "only_bus_changed s (snd (snd (LSM9DS1_mReadBytes r dest n s)))"
  by (cases "commInterface (device (settings s))")
     (simp_all add: mReadBytes_I2C mReadBytes_SPI only_bus_changed_def)

lemma initGyro_frame: "only_bus_changed s (LSM9DS1_initGyro rm s)"
  unfolding LSM9DS1_initGyro_def Let_def
  by (intro only_bus_changed_trans [OF _ xgWriteByte_frame] only_bus_changed_refl)

lemma initAccel_frame: "only_bus_changed s (LSM9DS1_initAccel rm s)"
  unfolding LSM9DS1_initAccel_def Let_def
  by (intro only_bus_changed_trans [OF _ xgWriteByte_frame] only_bus_changed_refl)

lemma enableFIFO_frame: "only_bus_changed s (LSM9DS1_enableFIFO rm e s)"
  unfolding LSM9DS1_enableFIFO_def Let_def split_def
  by (intro only_bus_changed_trans [OF _ xgWriteByte_frame] xgReadByte_frame)

lemma setFIFO_frame: "only_bus_changed s (LSM9DS1_setFIFO rm m t s)"
  unfolding setFIFO_eq by (rule xgWriteByte_frame)

lemma magOffset_frame: "only_bus_changed s (LSM9DS1_magOffset rm axis off s)"
  unfolding LSM9DS1_magOffset_def Let_def
  by (auto intro: only_bus_changed_trans [OF _ mWriteByte_frame] mWriteByte_frame only_bus_changed_refl)

lemma calcgRes_settings: "settings (snd (LSM9DS1_calcgRes s)) = settings s"
  "aRes (snd (LSM9DS1_calcgRes s)) = aRes s" "mRes (snd (LSM9DS1_calcgRes s)) = mRes s"
  "bus (snd (LSM9DS1_calcgRes s)) = bus s"
  "gRes (snd (LSM9DS1_calcgRes s)) = fst (LSM9DS1_calcgRes s)"
  by (simp_all add: LSM9DS1_calcgRes_def Let_def)

lemma calcaRes_settings: "settings (snd (LSM9DS1_calcaRes s)) = settings s"
  "gRes (snd (LSM9DS1_calcaRes s)) = gRes s" "mRes (snd (LSM9DS1_calcaRes s)) = mRes s"
  "bus (snd (LSM9DS1_calcaRes s)) = bus s"
  "aRes (snd (LSM9DS1_calcaRes s)) = fst (LSM9DS1_calcaRes s)"
  by (simp_all add: LSM9DS1_calcaRes_def Let_def)

lemma calcmRes_settings: "settings (snd (LSM9DS1_calcmRes s)) = settings s"
  "gRes (snd (LSM9DS1_calcmRes s)) = gRes s" "aRes (snd (LSM9DS1_calcmRes s)) = aRes s"
  "bus (snd (LSM9DS1_calcmRes s)) = bus s"
  "mRes (snd (LSM9DS1_calcmRes s)) = fst (LSM9DS1_calcmRes s)"
  by (simp_all add: LSM9DS1_calcmRes_def Let_def)

lemma calcgRes_table:
  "gyro_scale (gyro (settings s)) = 245 \<Longrightarrow> fst (LSM9DS1_calcgRes s) = 0.00875"
  "gyro_scale (gyro (settings s)) = 500 \<Longrightarrow> fst (LSM9DS1_calcgRes s) = 0.0175"
  "gyro_scale (gyro (settings s)) = 2000 \<Longrightarrow> fst (LSM9DS1_calcgRes s) = 0.07"
  by (simp_all add: LSM9DS1_calcgRes_def SENSITIVITY_GYROSCOPE_245_def
        SENSITIVITY_GYROSCOPE_500_def SENSITIVITY_GYROSCOPE_2000_def)

lemma calcaRes_table:
  "accel_scale (accel (settings s)) = 2 \<Longrightarrow> fst (LSM9DS1_calcaRes s) = 0.000061"
  "accel_scale (accel (settings s)) = 4 \<Longrightarrow> fst (LSM9DS1_calcaRes s) = 0.000122"
  "accel_scale (accel (settings s)) = 8 \<Longrightarrow> fst (LSM9DS1_calcaRes s) = 0.000244"
  "accel_scale (accel (settings s)) = 16 \<Longrightarrow> fst (LSM9DS1_calcaRes s) = 0.000732"
  by (simp_all add: LSM9DS1_calcaRes_def SENSITIVITY_ACCELEROMETER_2_def
        SENSITIVITY_ACCELEROMETER_4_def SENSITIVITY_ACCELEROMETER_8_def
        SENSITIVITY_ACCELEROMETER_16_def)

lemma calcmRes_table:
  "mag_scale (mag (settings s)) = 4 \<Longrightarrow> fst (LSM9DS1_calcmRes s) = 0.00014"
  "mag_scale (mag (settings s)) = 8 \<Longrightarrow> fst (LSM9DS1_calcmRes s) = 0.00029"
  "mag_scale (mag (settings s)) = 12 \<Longrightarrow> fst (LSM9DS1_calcmRes s) = 0.00043"
  "mag_scale (mag (settings s)) = 16 \<Longrightarrow> fst (LSM9DS1_calcmRes s) = 0.00058"
  by (simp_all add: LSM9DS1_calcmRes_def SENSITIVITY_MAGNETOMETER_4_def
        SENSITIVITY_MAGNETOMETER_8_def SENSITIVITY_MAGNETOMETER_12_def
        SENSITIVITY_MAGNETOMETER_16_def)

lemma calcRes_cong:
  "settings t = settings s \<Longrightarrow> gRes t = gRes s \<Longrightarrow> fst (LSM9DS1_calcgRes t) = fst (LSM9DS1_calcgRes s)"
  "settings t = settings s \<Longrightarrow> aRes t = aRes s \<Longrightarrow> fst (LSM9DS1_calcaRes t) = fst (LSM9DS1_calcaRes s)"
  "settings t = settings s \<Longrightarrow> mRes t = mRes s \<Longrightarrow> fst (LSM9DS1_calcmRes t) = fst (LSM9DS1_calcmRes s)"
  by (simp_all add: LSM9DS1_calcgRes_def LSM9DS1_calcaRes_def LSM9DS1_calcmRes_def Let_def)

lemma constrainScales_gyro:
  "gyro_scale (gyro (settings (LSM9DS1_constrainScales s))) =
     (if gyro_scale (gyro (settings s)) = 245 \<or> gyro_scale (gyro (settings s)) = 500 \<or>
         gyro_scale (gyro (settings s)) = 2000
      then gyro_scale (gyro (settings s)) else 245)"
  by (simp add: LSM9DS1_constrainScales_def Let_def)

lemma constrainScales_accel:
  "accel_scale (accel (settings (LSM9DS1_constrainScales s))) =
     (if accel_scale (accel (settings s)) = 2 \<or> accel_scale (accel (settings s)) = 4 \<or>
         accel_scale (accel (settings s)) = 8 \<or> accel_scale (accel (settings s)) = 16
      then accel_scale (accel (settings s)) else 2)"
  by (simp add: LSM9DS1_constrainScales_def Let_def)

lemma constrainScales_mag:
  "mag_scale (mag (settings (LSM9DS1_constrainScales s))) =
     (if mag_scale (mag (settings s)) = 4 \<or> mag_scale (mag (settings s)) = 8 \<or>
         mag_scale (mag (settings s)) = 12 \<or> mag_scale (mag (settings s)) = 16
      then mag_scale (mag (settings s)) else 4)"
  by (simp add: LSM9DS1_constrainScales_def Let_def)

lemma constrainScales_other:
  "gRes (LSM9DS1_constrainScales s) = gRes s" "aRes (LSM9DS1_constrainScales s) = aRes s"
  "mRes (LSM9DS1_constrainScales s) = mRes s" "bus (LSM9DS1_constrainScales s) = bus s"
  "device (settings (LSM9DS1_constrainScales s)) = device (settings s)"
  by (simp_all add: LSM9DS1_constrainScales_def Let_def)

lemma constrainScales_cong:
  "settings t = settings s \<Longrightarrow> settings (LSM9DS1_constrainScales t) = settings (LSM9DS1_constrainScales s)"
  by (simp add: LSM9DS1_constrainScales_def Let_def)

text \<open>The state of \<open>LSM9DS1_begin\<close> before it opens the bus.\<close>

lemma begin_shape:
  assumes "LSM9DS1_begin rm s = Some (w, s')"
  shows "only_bus_changed
           (snd (LSM9DS1_calcaRes (snd (LSM9DS1_calcmRes (snd (LSM9DS1_calcgRes
              (LSM9DS1_constrainScales
                 (s\<lparr>u_xgAddress := agAddress (device (settings s)),
                    u_mAddress := mAddress (device (settings s))\<rparr>)))))))) s'"
proof -
  let ?s5 = "snd (LSM9DS1_calcaRes (snd (LSM9DS1_calcmRes (snd (LSM9DS1_calcgRes
              (LSM9DS1_constrainScales
                 (s\<lparr>u_xgAddress := agAddress (device (settings s)),
                    u_mAddress := mAddress (device (settings s))\<rparr>)))))))"
  from assms obtain s6 where
    s6: "s6 = ?s5" and
    r: "s' = LSM9DS1_initAccel rm (LSM9DS1_initGyro rm
               (snd (LSM9DS1_xgReadByte (WHO_AM_I_XG rm) (snd (LSM9DS1_mReadByte (WHO_AM_I_M rm) s6)))))"
    by (auto simp add: LSM9DS1_begin_def Let_def LSM9DS1_initI2C_def LSM9DS1_initSPI_def split_def
          split: interface_mode.splits option.splits if_splits)
  show ?thesis
    unfolding r s6 [symmetric]
    by (intro only_bus_changed_trans [OF _ initAccel_frame]
              only_bus_changed_trans [OF _ initGyro_frame]
              only_bus_changed_trans [OF _ xgReadByte_frame] mReadByte_frame)
qed

lemma begin_resolved:
  assumes "LSM9DS1_begin rm s = Some (w, s')"
  shows "settings s' = settings (LSM9DS1_constrainScales s)"
    "gRes s' = fst (LSM9DS1_calcgRes (LSM9DS1_constrainScales s))"
    "aRes s' = fst (LSM9DS1_calcaRes (LSM9DS1_constrainScales s))"
    "mRes s' = fst (LSM9DS1_calcmRes (LSM9DS1_constrainScales s))"
proof -
  let ?s1 = "s\<lparr>u_xgAddress := agAddress (device (settings s)),
               u_mAddress := mAddress (device (settings s))\<rparr>"
  note f = only_bus_changed_fields [OF begin_shape [OF assms]]
  have c: "settings (LSM9DS1_constrainScales ?s1) = settings (LSM9DS1_constrainScales s)"
    by (rule constrainScales_cong) simp
  show "settings s' = settings (LSM9DS1_constrainScales s)"
    by (simp add: f calcaRes_settings calcmRes_settings calcgRes_settings c)
  show "gRes s' = fst (LSM9DS1_calcgRes (LSM9DS1_constrainScales s))"
    by (simp add: f calcaRes_settings calcmRes_settings calcgRes_settings
          calcRes_cong(1) [OF c] constrainScales_other)
  show "aRes s' = fst (LSM9DS1_calcaRes (LSM9DS1_constrainScales s))"
    by (simp add: f calcaRes_settings calcmRes_settings calcgRes_settings c
          constrainScales_other
          calcRes_cong(2) [of "snd (LSM9DS1_calcmRes (snd (LSM9DS1_calcgRes (LSM9DS1_constrainScales ?s1))))"
             "LSM9DS1_constrainScales s"])
  show "mRes s' = fst (LSM9DS1_calcmRes (LSM9DS1_constrainScales s))"
    by (simp add: f calcaRes_settings calcmRes_settings calcgRes_settings c
          constrainScales_other
          calcRes_cong(3) [of "snd (LSM9DS1_calcgRes (LSM9DS1_constrainScales ?s1))"
             "LSM9DS1_constrainScales s"])
qed

section \<open>Resolutions\<close>

text \<open>
  C6.  For every supported scale the resolution computation returns the sensitivity
  constant of the source for that scale (gyro 245, 500, 2000; accel 2, 4, 8, 16;
  mag 4, 8, 12, 16).  \<open>LSM9DS1_constrainScales\<close> keeps a supported scale and replaces
  any other value by the default (245, 2, 4), so that the resolution computed after
  it is the constant of the default scale; \<open>LSM9DS1_begin\<close> constrains the scales
  before it computes the three resolutions, and its final state holds them.
\<close>

theorem resolution_for_every_scale:
  "(gyro_scale (gyro (settings s)) = 245 \<longrightarrow> fst (LSM9DS1_calcgRes s) = 0.00875) \<and>
   (gyro_scale (gyro (settings s)) = 500 \<longrightarrow> fst (LSM9DS1_calcgRes s) = 0.0175) \<and>
   (gyro_scale (gyro (settings s)) = 2000 \<longrightarrow> fst (LSM9DS1_calcgRes s) = 0.07) \<and>
   (accel_scale (accel (settings s)) = 2 \<longrightarrow> fst (LSM9DS1_calcaRes s) = 0.000061) \<and>
   (accel_scale (accel (settings s)) = 4 \<longrightarrow> fst (LSM9DS1_calcaRes s) = 0.000122) \<and>
   (accel_scale (accel (settings s)) = 8 \<longrightarrow> fst (LSM9DS1_calcaRes s) = 0.000244) \<and>
   (accel_scale (accel (settings s)) = 16 \<longrightarrow> fst (LSM9DS1_calcaRes s) = 0.000732) \<and>
   (mag_scale (mag (settings s)) = 4 \<longrightarrow> fst (LSM9DS1_calcmRes s) = 0.00014) \<and>
   (mag_scale (mag (settings s)) = 8 \<longrightarrow> fst (LSM9DS1_calcmRes s) = 0.00029) \<and>
   (mag_scale (mag (settings s)) = 12 \<longrightarrow> fst (LSM9DS1_calcmRes s) = 0.00043) \<and>
   (mag_scale (mag (settings s)) = 16 \<longrightarrow> fst (LSM9DS1_calcmRes s) = 0.00058) \<and>
   gyro_scale (gyro (settings (LSM9DS1_constrainScales s))) =
     (if gyro_scale (gyro (settings s)) = 245 \<or> gyro_scale (gyro (settings s)) = 500 \<or>
         gyro_scale (gyro (settings s)) = 2000
      then gyro_scale (gyro (settings s)) else 245) \<and>
   accel_scale (accel (settings (LSM9DS1_constrainScales s))) =
     (if accel_scale (accel (settings s)) = 2 \<or> accel_scale (accel (settings s)) = 4 \<or>
         accel_scale (accel (settings s)) = 8 \<or> accel_scale (accel (settings s)) = 16
      then accel_scale (accel (settings s)) else 2) \<and>
   mag_scale (mag (settings (LSM9DS1_constrainScales s))) =
     (if mag_scale (mag (settings s)) = 4 \<or> mag_scale (mag (settings s)) = 8 \<or>
         mag_scale (mag (settings s)) = 12 \<or> mag_scale (mag (settings s)) = 16
      then mag_scale (mag (settings s)) else 4) \<and>
   (gyro_scale (gyro (settings s)) \<noteq> 245 \<and> gyro_scale (gyro (settings s)) \<noteq> 500 \<and>
    gyro_scale (gyro (settings s)) \<noteq> 2000 \<longrightarrow>
      fst (LSM9DS1_calcgRes (LSM9DS1_constrainScales s)) = 0.00875) \<and>
   (accel_scale (accel (settings s)) \<noteq> 2 \<and> accel_scale (accel (settings s)) \<noteq> 4 \<and>
    accel_scale (accel (settings s)) \<noteq> 8 \<and> accel_scale (accel (settings s)) \<noteq> 16 \<longrightarrow>
      fst (LSM9DS1_calcaRes (LSM9DS1_constrainScales s)) = 0.000061) \<and>
   (mag_scale (mag (settings s)) \<noteq> 4 \<and> mag_scale (mag (settings s)) \<noteq> 8 \<and>
    mag_scale (mag (settings s)) \<noteq> 12 \<and> mag_scale (mag (settings s)) \<noteq> 16 \<longrightarrow>
      fst (LSM9DS1_calcmRes (LSM9DS1_constrainScales s)) = 0.00014) \<and>
   (LSM9DS1_begin rm s = Some (w, s') \<longrightarrow>
      settings s' = settings (LSM9DS1_constrainScales s) \<and>
      gRes s' = fst (LSM9DS1_calcgRes (LSM9DS1_constrainScales s)) \<and>
      aRes s' = fst (LSM9DS1_calcaRes (LSM9DS1_constrainScales s)) \<and>
      mRes s' = fst (LSM9DS1_calcmRes (LSM9DS1_constrainScales s)))"
proof (intro conjI impI)
  show "gyro_scale (gyro (settings (LSM9DS1_constrainScales s))) =
     (if gyro_scale (gyro (settings s)) = 245 \<or> gyro_scale (gyro (settings s)) = 500 \<or>
         gyro_scale (gyro (settings s)) = 2000
      then gyro_scale (gyro (settings s)) else 245)"
    by (rule constrainScales_gyro)
  show "accel_scale (accel (settings (LSM9DS1_constrainScales s))) =
     (if accel_scale (accel (settings s)) = 2 \<or> accel_scale (accel (settings s)) = 4 \<or>
         accel_scale (accel (settings s)) = 8 \<or> accel_scale (accel (settings s)) = 16
      then accel_scale (accel (settings s)) else 2)"
    by (rule constrainScales_accel)
  show "mag_scale (mag (settings (LSM9DS1_constrainScales s))) =
     (if mag_scale (mag (settings s)) = 4 \<or> mag_scale (mag (settings s)) = 8 \<or>
         mag_scale (mag (settings s)) = 12 \<or> mag_scale (mag (settings s)) = 16
      then mag_scale (mag (settings s)) else 4)"
    by (rule constrainScales_mag)
next
  assume "gyro_scale (gyro (settings s)) \<noteq> 245 \<and> gyro_scale (gyro (settings s)) \<noteq> 500 \<and>
    gyro_scale (gyro (settings s)) \<noteq> 2000"
  then have "gyro_scale (gyro (settings (LSM9DS1_constrainScales s))) = 245"
    by (simp add: constrainScales_gyro)
  then show "fst (LSM9DS1_calcgRes (LSM9DS1_constrainScales s)) = 0.00875"
    by (rule calcgRes_table)
next
  assume "accel_scale (accel (settings s)) \<noteq> 2 \<and> accel_scale (accel (settings s)) \<noteq> 4 \<and>
    accel_scale (accel (settings s)) \<noteq> 8 \<and> accel_scale (accel (settings s)) \<noteq> 16"
  then have "accel_scale (accel (settings (LSM9DS1_constrainScales s))) = 2"
    by (simp add: constrainScales_accel)
  then show "fst (LSM9DS1_calcaRes (LSM9DS1_constrainScales s)) = 0.000061"
    by (rule calcaRes_table)
next
  assume "mag_scale (mag (settings s)) \<noteq> 4 \<and> mag_scale (mag (settings s)) \<noteq> 8 \<and>
    mag_scale (mag (settings s)) \<noteq> 12 \<and> mag_scale (mag (settings s)) \<noteq> 16"
  then have "mag_scale (mag (settings (LSM9DS1_constrainScales s))) = 4"
    by (simp add: constrainScales_mag)
  then show "fst (LSM9DS1_calcmRes (LSM9DS1_constrainScales s)) = 0.00014"
    by (rule calcmRes_table)
qed (simp_all add: calcgRes_table calcaRes_table calcmRes_table begin_resolved)

lemma calcRes_addresses:
  "u_xgAddress (snd (LSM9DS1_calcgRes s)) = u_xgAddress s"
  "u_mAddress (snd (LSM9DS1_calcgRes s)) = u_mAddress s"
  "u_xgAddress (snd (LSM9DS1_calcaRes s)) = u_xgAddress s"
  "u_mAddress (snd (LSM9DS1_calcaRes s)) = u_mAddress s"
  "u_xgAddress (snd (LSM9DS1_calcmRes s)) = u_xgAddress s"
  "u_mAddress (snd (LSM9DS1_calcmRes s)) = u_mAddress s"
  "u_xgAddress (LSM9DS1_constrainScales s) = u_xgAddress s"
  "u_mAddress (LSM9DS1_constrainScales s) = u_mAddress s"
  by (simp_all add: LSM9DS1_calcgRes_def LSM9DS1_calcaRes_def LSM9DS1_calcmRes_def
        LSM9DS1_constrainScales_def Let_def)

lemma begin_configured_fields:
  "device (settings (begin_configured s)) = device (settings s)"
  "bus (begin_configured s) = bus s"
  "u_xgAddress (begin_configured s) = agAddress (device (settings s))"
  "u_mAddress (begin_configured s) = mAddress (device (settings s))"
  by (simp_all add: begin_configured_def calcaRes_settings calcmRes_settings calcgRes_settings
        constrainScales_other calcRes_addresses)
  
lemma initGyro_I2C:
  "commInterface (device (settings s)) = IMU_MODE_I2C \<Longrightarrow>
   \<exists>d1 d3 d4 d5. LSM9DS1_initGyro rm s =
      s\<lparr>bus := (bus s)\<lparr>trace := trace (bus s) @
         [Wr (u_xgAddress s) (CTRL_REG1_G rm) d1, Wr (u_xgAddress s) (CTRL_REG2_G rm) 0,
          Wr (u_xgAddress s) (CTRL_REG3_G rm) d3, Wr (u_xgAddress s) (CTRL_REG4 rm) d4,
          Wr (u_xgAddress s) (ORIENT_CFG_G rm) d5]\<rparr>\<rparr>"
  unfolding LSM9DS1_initGyro_def Let_def
  by (intro exI) (simp add: xgWriteByte_I2C)

lemma initAccel_I2C:
  "commInterface (device (settings s)) = IMU_MODE_I2C \<Longrightarrow>
   \<exists>d1 d2 d3. LSM9DS1_initAccel rm s =
      s\<lparr>bus := (bus s)\<lparr>trace := trace (bus s) @
         [Wr (u_xgAddress s) (CTRL_REG5_XL rm) d1, Wr (u_xgAddress s) (CTRL_REG6_XL rm) d2,
          Wr (u_xgAddress s) (CTRL_REG7_XL rm) d3]\<rparr>\<rparr>"
  unfolding LSM9DS1_initAccel_def Let_def
  by (intro exI) (simp add: xgWriteByte_I2C)

lemma begin_eq:
  assumes "commInterface (device (settings s)) = IMU_MODE_I2C \<longrightarrow> open_ok (bus s)"
  shows "LSM9DS1_begin rm s =
     Some (ucast (push_bit 8
                    (ucast (fst (LSM9DS1_xgReadByte (WHO_AM_I_XG rm)
                             (snd (LSM9DS1_mReadByte (WHO_AM_I_M rm) (begin_configured s))))) :: i32)
                  OR ucast (fst (LSM9DS1_mReadByte (WHO_AM_I_M rm) (begin_configured s)))),
           LSM9DS1_initAccel rm (LSM9DS1_initGyro rm
             (snd (LSM9DS1_xgReadByte (WHO_AM_I_XG rm)
                (snd (LSM9DS1_mReadByte (WHO_AM_I_M rm) (begin_configured s)))))))"
proof (cases "commInterface (device (settings s))")
  case IMU_MODE_SPI
  then have "commInterface (device (settings (begin_configured s))) = IMU_MODE_SPI"
    by (simp add: begin_configured_fields)
  then show ?thesis
    unfolding LSM9DS1_begin_def Let_def begin_configured_def [symmetric] split_def
    by (simp add: LSM9DS1_initSPI_def)
next
  case IMU_MODE_I2C
  then have "commInterface (device (settings (begin_configured s))) = IMU_MODE_I2C"
    and "open_ok (bus (begin_configured s))"
    using assms by (simp_all add: begin_configured_fields)
  then show ?thesis
    unfolding LSM9DS1_begin_def Let_def begin_configured_def [symmetric] split_def
    by (simp add: LSM9DS1_initI2C_def)
qed

lemma begin_hangs:
  "commInterface (device (settings s)) = IMU_MODE_I2C \<Longrightarrow> \<not> open_ok (bus s) \<Longrightarrow>
     LSM9DS1_begin rm s = None"
  unfolding LSM9DS1_begin_def Let_def begin_configured_def [symmetric] split_def
  by (simp add: LSM9DS1_initI2C_def begin_configured_fields)

lemma isConnected_eq:
  "fst (LSM9DS1_isConnected rm s) =
     ((ucast (ucast (push_bit 8
                    (ucast (fst (LSM9DS1_xgReadByte (WHO_AM_I_XG rm)
                             (snd (LSM9DS1_mReadByte (WHO_AM_I_M rm) s)))) :: i32)
                  OR ucast (fst (LSM9DS1_mReadByte (WHO_AM_I_M rm) s))) :: u16) :: i32)
       = push_bit 8 (WHO_AM_I_AG_RSP rm) OR WHO_AM_I_M_RSP rm)"
  by (simp add: LSM9DS1_isConnected_def Let_def split_def)

lemma with_scales_fields:
  "gyro_scale (gyro (settings (with_scales g a m s))) = g"
  "accel_scale (accel (settings (with_scales g a m s))) = a"
  "mag_scale (mag (settings (with_scales g a m s))) = m"
  "device (settings (with_scales g a m s)) = device (settings s)"
  "bus (with_scales g a m s) = bus s"
  by (simp_all add: with_scales_def)

lemma example_driver_bus:
  "bus (example_driver m f) = \<lparr>rx = f, reads = 0, trace = [], open_ok = True\<rparr>"
  by (simp add: example_driver_def LSM9DS1_init_def power_on_def)

theorem resolution_for_every_scale_witness:
  "gyro_scale (gyro (settings (with_scales 500 8 12 (example_driver IMU_MODE_I2C (\<lambda>n i. 0))))) = 500 \<and>
   fst (LSM9DS1_calcgRes (with_scales 500 8 12 (example_driver IMU_MODE_I2C (\<lambda>n i. 0)))) = 0.0175 \<and>
   fst (LSM9DS1_calcaRes (with_scales 500 8 12 (example_driver IMU_MODE_I2C (\<lambda>n i. 0)))) = 0.000244 \<and>
   fst (LSM9DS1_calcmRes (with_scales 500 8 12 (example_driver IMU_MODE_I2C (\<lambda>n i. 0)))) = 0.00043 \<and>
   (\<exists>w s'. LSM9DS1_begin example_registers
              (with_scales 300 3 5 (example_driver IMU_MODE_I2C (\<lambda>n i. 0))) = Some (w, s') \<and>
            gyro_scale (gyro (settings s')) = 245 \<and> accel_scale (accel (settings s')) = 2 \<and>
            mag_scale (mag (settings s')) = 4 \<and>
            gRes s' = 0.00875 \<and> aRes s' = 0.000061 \<and> mRes s' = 0.00014)"
proof -
  let ?good = "with_scales 500 8 12 (example_driver IMU_MODE_I2C (\<lambda>n i. 0))"
  let ?bad = "with_scales 300 3 5 (example_driver IMU_MODE_I2C (\<lambda>n i. 0))"
  have g: "gyro_scale (gyro (settings ?good)) = 500" "accel_scale (accel (settings ?good)) = 8"
    "mag_scale (mag (settings ?good)) = 12"
    by (simp_all add: with_scales_fields)
  from resolution_for_every_scale [of ?good] g
  have good: "fst (LSM9DS1_calcgRes ?good) = 0.0175" "fst (LSM9DS1_calcaRes ?good) = 0.000244"
    "fst (LSM9DS1_calcmRes ?good) = 0.00043"
    by blast+
  have "commInterface (device (settings ?bad)) = IMU_MODE_I2C \<longrightarrow> open_ok (bus ?bad)"
    by (simp add: with_scales_fields example_driver_bus)
  from begin_eq [OF this, of example_registers]
  obtain w s' where b: "LSM9DS1_begin example_registers ?bad = Some (w, s')" by blast
  have h: "gyro_scale (gyro (settings ?bad)) \<noteq> 245 \<and> gyro_scale (gyro (settings ?bad)) \<noteq> 500 \<and>
           gyro_scale (gyro (settings ?bad)) \<noteq> 2000"
    "accel_scale (accel (settings ?bad)) \<noteq> 2 \<and> accel_scale (accel (settings ?bad)) \<noteq> 4 \<and>
     accel_scale (accel (settings ?bad)) \<noteq> 8 \<and> accel_scale (accel (settings ?bad)) \<noteq> 16"
    "mag_scale (mag (settings ?bad)) \<noteq> 4 \<and> mag_scale (mag (settings ?bad)) \<noteq> 8 \<and>
     mag_scale (mag (settings ?bad)) \<noteq> 12 \<and> mag_scale (mag (settings ?bad)) \<noteq> 16"
    by (simp_all add: with_scales_fields)
  note t = resolution_for_every_scale [of ?bad example_registers w s']
  from t h b have r: "gRes s' = 0.00875" "aRes s' = 0.000061" "mRes s' = 0.00014"
    "settings s' = settings (LSM9DS1_constrainScales ?bad)"
    by simp_all
  from t h have c: "gyro_scale (gyro (settings (LSM9DS1_constrainScales ?bad))) = 245"
    "accel_scale (accel (settings (LSM9DS1_constrainScales ?bad))) = 2"
    "mag_scale (mag (settings (LSM9DS1_constrainScales ?bad))) = 4"
    by simp_all
  from g good b r c show ?thesis by simp
qed

lemma begin_trace_I2C:
  assumes i2c: "commInterface (device (settings s)) = IMU_MODE_I2C"
  shows "\<exists>d1 d3 d4 d5 d6 d7 d8.
     trace (bus (LSM9DS1_initAccel rm (LSM9DS1_initGyro rm
        (snd (LSM9DS1_xgReadByte (WHO_AM_I_XG rm)
           (snd (LSM9DS1_mReadByte (WHO_AM_I_M rm) (begin_configured s)))))))) =
     trace (bus s) @
       [Rd (mAddress (device (settings s))) (WHO_AM_I_M rm) [rx (bus s) (reads (bus s)) 0],
        Rd (agAddress (device (settings s))) (WHO_AM_I_XG rm) [rx (bus s) (Suc (reads (bus s))) 0],
        Wr (agAddress (device (settings s))) (CTRL_REG1_G rm) d1,
        Wr (agAddress (device (settings s))) (CTRL_REG2_G rm) 0,
        Wr (agAddress (device (settings s))) (CTRL_REG3_G rm) d3,
        Wr (agAddress (device (settings s))) (CTRL_REG4 rm) d4,
        Wr (agAddress (device (settings s))) (ORIENT_CFG_G rm) d5,
        Wr (agAddress (device (settings s))) (CTRL_REG5_XL rm) d6,
        Wr (agAddress (device (settings s))) (CTRL_REG6_XL rm) d7,
        Wr (agAddress (device (settings s))) (CTRL_REG7_XL rm) d8]"
proof -
  let ?c = "begin_configured s"
  let ?s8 = "snd (LSM9DS1_xgReadByte (WHO_AM_I_XG rm) (snd (LSM9DS1_mReadByte (WHO_AM_I_M rm) ?c)))"
  have c: "commInterface (device (settings ?c)) = IMU_MODE_I2C"
    using i2c by (simp add: begin_configured_fields)
  have s8: "?s8 = ?c\<lparr>bus := (bus s)\<lparr>reads := Suc (Suc (reads (bus s))),
                trace := trace (bus s) @
       [Rd (mAddress (device (settings s))) (WHO_AM_I_M rm) [rx (bus s) (reads (bus s)) 0],
        Rd (agAddress (device (settings s))) (WHO_AM_I_XG rm) [rx (bus s) (Suc (reads (bus s))) 0]]\<rparr>\<rparr>"
    using c by (simp add: mReadByte_I2C xgReadByte_I2C begin_configured_fields)
  have m8: "commInterface (device (settings ?s8)) = IMU_MODE_I2C"
    using c by (simp add: s8)
  from initGyro_I2C [OF m8, of rm] obtain d1 d3 d4 d5 where
    g: "LSM9DS1_initGyro rm ?s8 =
      ?s8\<lparr>bus := (bus ?s8)\<lparr>trace := trace (bus ?s8) @
         [Wr (u_xgAddress ?s8) (CTRL_REG1_G rm) d1, Wr (u_xgAddress ?s8) (CTRL_REG2_G rm) 0,
          Wr (u_xgAddress ?s8) (CTRL_REG3_G rm) d3, Wr (u_xgAddress ?s8) (CTRL_REG4 rm) d4,
          Wr (u_xgAddress ?s8) (ORIENT_CFG_G rm) d5]\<rparr>\<rparr>"
    by blast
  let ?s9 = "LSM9DS1_initGyro rm ?s8"
  have m9: "commInterface (device (settings ?s9)) = IMU_MODE_I2C"
    using m8 by (simp add: only_bus_changed_fields [OF initGyro_frame])
  from initAccel_I2C [OF m9, of rm] obtain d6 d7 d8 where
    a: "LSM9DS1_initAccel rm ?s9 =
      ?s9\<lparr>bus := (bus ?s9)\<lparr>trace := trace (bus ?s9) @
         [Wr (u_xgAddress ?s9) (CTRL_REG5_XL rm) d6, Wr (u_xgAddress ?s9) (CTRL_REG6_XL rm) d7,
          Wr (u_xgAddress ?s9) (CTRL_REG7_XL rm) d8]\<rparr>\<rparr>"
    by blast
  have x9: "u_xgAddress ?s9 = agAddress (device (settings s))"
    by (simp add: only_bus_changed_fields [OF initGyro_frame] s8 begin_configured_fields)
  have x8: "u_xgAddress ?s8 = agAddress (device (settings s))"
    by (simp add: s8 begin_configured_fields)
  have t8: "trace (bus ?s8) = trace (bus s) @
       [Rd (mAddress (device (settings s))) (WHO_AM_I_M rm) [rx (bus s) (reads (bus s)) 0],
        Rd (agAddress (device (settings s))) (WHO_AM_I_XG rm) [rx (bus s) (Suc (reads (bus s))) 0]]"
    by (simp add: s8)
  have t9: "trace (bus ?s9) = trace (bus ?s8) @
         [Wr (u_xgAddress ?s8) (CTRL_REG1_G rm) d1, Wr (u_xgAddress ?s8) (CTRL_REG2_G rm) 0,
          Wr (u_xgAddress ?s8) (CTRL_REG3_G rm) d3, Wr (u_xgAddress ?s8) (CTRL_REG4 rm) d4,
          Wr (u_xgAddress ?s8) (ORIENT_CFG_G rm) d5]"
    by (subst g) simp
  have t10: "trace (bus (LSM9DS1_initAccel rm ?s9)) = trace (bus ?s9) @
         [Wr (u_xgAddress ?s9) (CTRL_REG5_XL rm) d6, Wr (u_xgAddress ?s9) (CTRL_REG6_XL rm) d7,
          Wr (u_xgAddress ?s9) (CTRL_REG7_XL rm) d8]"
    by (subst a) simp
  show ?thesis
    unfolding t10 t9 t8 x9 x8 by (intro exI) simp
qed

lemma begin_identity_I2C:
  assumes i2c: "commInterface (device (settings s)) = IMU_MODE_I2C"
  shows "fst (LSM9DS1_mReadByte r (begin_configured s)) = rx (bus s) (reads (bus s)) 0"
    "fst (LSM9DS1_xgReadByte r' (snd (LSM9DS1_mReadByte r (begin_configured s))))
       = rx (bus s) (Suc (reads (bus s))) 0"
  using i2c by (simp_all add: mReadByte_I2C xgReadByte_I2C begin_configured_fields)

section \<open>Bring-up and the identity check\<close>

text \<open>
  C5, as the code has it.  Provided the bus can be opened (in I2C mode
  \<open>LSM9DS1_initI2C\<close> does not return otherwise), \<open>LSM9DS1_begin\<close> reads the identity
  register of the magnetometer and then that of the accelerometer/gyroscope and
  returns the combined 16-bit identity itself, \<open>(xgTest << 8) | mTest\<close>, not a truth
  value: the value equals the expected constant exactly when \<open>LSM9DS1_isConnected\<close>
  reports a match on the same two answers.  Whatever the identity is, the final
  state is that of \<open>LSM9DS1_initGyro\<close> followed by \<open>LSM9DS1_initAccel\<close>; on the I2C
  bus the two identity reads are followed by the five gyroscope and the three
  accelerometer register writes.
\<close>

theorem begin_returns_identity_and_initialises:
  assumes "commInterface (device (settings s)) = IMU_MODE_I2C \<longrightarrow> open_ok (bus s)"
  shows "\<exists>mTest xgTest s7 s8.
     LSM9DS1_mReadByte (WHO_AM_I_M rm) (begin_configured s) = (mTest, s7) \<and>
     LSM9DS1_xgReadByte (WHO_AM_I_XG rm) s7 = (xgTest, s8) \<and>
     LSM9DS1_begin rm s =
       Some (ucast (push_bit 8 (ucast xgTest :: i32) OR ucast mTest),
             LSM9DS1_initAccel rm (LSM9DS1_initGyro rm s8)) \<and>
     (fst (LSM9DS1_isConnected rm (begin_configured s)) \<longleftrightarrow>
        (ucast (ucast (push_bit 8 (ucast xgTest :: i32) OR ucast mTest) :: u16) :: i32)
          = push_bit 8 (WHO_AM_I_AG_RSP rm) OR WHO_AM_I_M_RSP rm) \<and>
     (commInterface (device (settings s)) = IMU_MODE_I2C \<longrightarrow>
        mTest = rx (bus s) (reads (bus s)) 0 \<and>
        xgTest = rx (bus s) (Suc (reads (bus s))) 0 \<and>
        (\<exists>d1 d3 d4 d5 d6 d7 d8.
           trace (bus (LSM9DS1_initAccel rm (LSM9DS1_initGyro rm s8))) =
           trace (bus s) @
             [Rd (mAddress (device (settings s))) (WHO_AM_I_M rm) [mTest],
              Rd (agAddress (device (settings s))) (WHO_AM_I_XG rm) [xgTest],
              Wr (agAddress (device (settings s))) (CTRL_REG1_G rm) d1,
              Wr (agAddress (device (settings s))) (CTRL_REG2_G rm) 0,
              Wr (agAddress (device (settings s))) (CTRL_REG3_G rm) d3,
              Wr (agAddress (device (settings s))) (CTRL_REG4 rm) d4,
              Wr (agAddress (device (settings s))) (ORIENT_CFG_G rm) d5,
              Wr (agAddress (device (settings s))) (CTRL_REG5_XL rm) d6,
              Wr (agAddress (device (settings s))) (CTRL_REG6_XL rm) d7,
              Wr (agAddress (device (settings s))) (CTRL_REG7_XL rm) d8]))"
proof -
  let ?c = "begin_configured s"
  let ?m = "LSM9DS1_mReadByte (WHO_AM_I_M rm) ?c"
  let ?x = "LSM9DS1_xgReadByte (WHO_AM_I_XG rm) (snd ?m)"
  have 1: "?m = (fst ?m, snd ?m)" and 2: "?x = (fst ?x, snd ?x)" by simp_all
  have 3: "LSM9DS1_begin rm s =
       Some (ucast (push_bit 8 (ucast (fst ?x) :: i32) OR ucast (fst ?m)),
             LSM9DS1_initAccel rm (LSM9DS1_initGyro rm (snd ?x)))"
    by (rule begin_eq [OF assms])
  have 4: "fst (LSM9DS1_isConnected rm ?c) \<longleftrightarrow>
        (ucast (ucast (push_bit 8 (ucast (fst ?x) :: i32) OR ucast (fst ?m)) :: u16) :: i32)
          = push_bit 8 (WHO_AM_I_AG_RSP rm) OR WHO_AM_I_M_RSP rm"
    by (rule isConnected_eq)
  have 5: "commInterface (device (settings s)) = IMU_MODE_I2C \<longrightarrow>
        fst ?m = rx (bus s) (reads (bus s)) 0 \<and>
        fst ?x = rx (bus s) (Suc (reads (bus s))) 0 \<and>
        (\<exists>d1 d3 d4 d5 d6 d7 d8.
           trace (bus (LSM9DS1_initAccel rm (LSM9DS1_initGyro rm (snd ?x)))) =
           trace (bus s) @
             [Rd (mAddress (device (settings s))) (WHO_AM_I_M rm) [fst ?m],
              Rd (agAddress (device (settings s))) (WHO_AM_I_XG rm) [fst ?x],
              Wr (agAddress (device (settings s))) (CTRL_REG1_G rm) d1,
              Wr (agAddress (device (settings s))) (CTRL_REG2_G rm) 0,
              Wr (agAddress (device (settings s))) (CTRL_REG3_G rm) d3,
              Wr (agAddress (device (settings s))) (CTRL_REG4 rm) d4,
              Wr (agAddress (device (settings s))) (ORIENT_CFG_G rm) d5,
              Wr (agAddress (device (settings s))) (CTRL_REG5_XL rm) d6,
              Wr (agAddress (device (settings s))) (CTRL_REG6_XL rm) d7,
              Wr (agAddress (device (settings s))) (CTRL_REG7_XL rm) d8])"
  proof
    assume i2c: "commInterface (device (settings s)) = IMU_MODE_I2C"
    from begin_trace_I2C [OF i2c, of rm]
      begin_identity_I2C(1) [OF i2c, where r = "WHO_AM_I_M rm"]
      begin_identity_I2C(2) [OF i2c, where r = "WHO_AM_I_M rm" and r' = "WHO_AM_I_XG rm"]
    show "fst ?m = rx (bus s) (reads (bus s)) 0 \<and>
        fst ?x = rx (bus s) (Suc (reads (bus s))) 0 \<and>
        (\<exists>d1 d3 d4 d5 d6 d7 d8.
           trace (bus (LSM9DS1_initAccel rm (LSM9DS1_initGyro rm (snd ?x)))) =
           trace (bus s) @
             [Rd (mAddress (device (settings s))) (WHO_AM_I_M rm) [fst ?m],
              Rd (agAddress (device (settings s))) (WHO_AM_I_XG rm) [fst ?x],
              Wr (agAddress (device (settings s))) (CTRL_REG1_G rm) d1,
              Wr (agAddress (device (settings s))) (CTRL_REG2_G rm) 0,
              Wr (agAddress (device (settings s))) (CTRL_REG3_G rm) d3,
              Wr (agAddress (device (settings s))) (CTRL_REG4 rm) d4,
              Wr (agAddress (device (settings s))) (ORIENT_CFG_G rm) d5,
              Wr (agAddress (device (settings s))) (CTRL_REG5_XL rm) d6,
              Wr (agAddress (device (settings s))) (CTRL_REG6_XL rm) d7,
              Wr (agAddress (device (settings s))) (CTRL_REG7_XL rm) d8])"
      by simp
  qed
  from 1 2 3 4 5 show ?thesis by blast
qed

lemma example_driver_fields:
  "device (settings (example_driver m f)) = \<lparr>commInterface = m, agAddress = 0x6B, mAddress = 0x1E\<rparr>"
  "u_xgAddress (example_driver m f) = 0x6B" "u_mAddress (example_driver m f) = 0x1E"
  "u_autoCalc (example_driver m f) = False"
  "gBiasRaw (example_driver m f) = [0, 0, 0]" "aBiasRaw (example_driver m f) = [0, 0, 0]"
  "mBiasRaw (example_driver m f) = [0, 0, 0]"
  "gBias (example_driver m f) = [0, 0, 0]" "aBias (example_driver m f) = [0, 0, 0]"
  "mBias (example_driver m f) = [0, 0, 0]"
  "gRes (example_driver m f) = SENSITIVITY_GYROSCOPE_245"
  "aRes (example_driver m f) = SENSITIVITY_ACCELEROMETER_2"
  "mRes (example_driver m f) = SENSITIVITY_MAGNETOMETER_4"
  by (simp_all add: example_driver_def LSM9DS1_init_def power_on_def)

text \<open>
  A device whose accelerometer/gyroscope answers 0x68 and whose magnetometer answers
  0x00: the identity does not match, \<open>LSM9DS1_isConnected\<close> says so, and
  \<open>LSM9DS1_begin\<close> returns 0x6800, which is not zero.
\<close>

theorem begin_return_is_not_a_truth_value:
  "\<not> fst (LSM9DS1_isConnected example_registers
            (begin_configured (example_driver IMU_MODE_I2C (\<lambda>n i. if n = 1 then 0x68 else 0)))) \<and>
   map_option fst (LSM9DS1_begin example_registers
                     (example_driver IMU_MODE_I2C (\<lambda>n i. if n = 1 then 0x68 else 0)))
     = Some 0x6800 \<and>
   (0x6800 :: u16) \<noteq> 0"
proof -
  let ?s = "example_driver IMU_MODE_I2C (\<lambda>n i. if n = 1 then 0x68 else 0)"
  have i2c: "commInterface (device (settings ?s)) = IMU_MODE_I2C"
    by (rule example_driver_mode)
  have ok: "commInterface (device (settings ?s)) = IMU_MODE_I2C \<longrightarrow> open_ok (bus ?s)"
    by (simp add: example_driver_bus)
  note id = begin_identity_I2C [OF i2c]
  have a: "\<not> fst (LSM9DS1_isConnected example_registers (begin_configured ?s))"
    unfolding isConnected_eq id
    by (simp add: example_driver_bus example_registers_def)
  have b: "map_option fst (LSM9DS1_begin example_registers ?s) = Some 0x6800"
    unfolding begin_eq [OF ok] id
    by (simp add: example_driver_bus)
  from a b show ?thesis by simp
qed

theorem begin_returns_identity_and_initialises_witness:
  "commInterface (device (settings (example_driver IMU_MODE_I2C (\<lambda>n i. if n = 0 then 0x3D else 0x68))))
      = IMU_MODE_I2C \<and>
   open_ok (bus (example_driver IMU_MODE_I2C (\<lambda>n i. if n = 0 then 0x3D else 0x68))) \<and>
   map_option fst (LSM9DS1_begin example_registers
                     (example_driver IMU_MODE_I2C (\<lambda>n i. if n = 0 then 0x3D else 0x68)))
     = Some 0x683D \<and>
   fst (LSM9DS1_isConnected example_registers
          (begin_configured (example_driver IMU_MODE_I2C (\<lambda>n i. if n = 0 then 0x3D else 0x68)))) \<and>
   length (trace (bus (snd (the (LSM9DS1_begin example_registers
                     (example_driver IMU_MODE_I2C (\<lambda>n i. if n = 0 then 0x3D else 0x68))))))) = 10"
proof -
  let ?s = "example_driver IMU_MODE_I2C (\<lambda>n i. if n = 0 then 0x3D else 0x68)"
  have i2c: "commInterface (device (settings ?s)) = IMU_MODE_I2C"
    by (rule example_driver_mode)
  have ok: "commInterface (device (settings ?s)) = IMU_MODE_I2C \<longrightarrow> open_ok (bus ?s)"
    by (simp add: example_driver_bus)
  from begin_returns_identity_and_initialises [OF ok, of example_registers]
  obtain mTest xgTest s7 s8 where
    b: "LSM9DS1_begin example_registers ?s =
       Some (ucast (push_bit 8 (ucast xgTest :: i32) OR ucast mTest),
             LSM9DS1_initAccel example_registers (LSM9DS1_initGyro example_registers s8))"
    and c: "fst (LSM9DS1_isConnected example_registers (begin_configured ?s)) \<longleftrightarrow>
        (ucast (ucast (push_bit 8 (ucast xgTest :: i32) OR ucast mTest) :: u16) :: i32)
          = push_bit 8 (WHO_AM_I_AG_RSP example_registers) OR WHO_AM_I_M_RSP example_registers"
    and d: "commInterface (device (settings ?s)) = IMU_MODE_I2C \<longrightarrow>
        mTest = rx (bus ?s) (reads (bus ?s)) 0 \<and>
        xgTest = rx (bus ?s) (Suc (reads (bus ?s))) 0 \<and>
        (\<exists>d1 d3 d4 d5 d6 d7 d8.
           trace (bus (LSM9DS1_initAccel example_registers (LSM9DS1_initGyro example_registers s8))) =
           trace (bus ?s) @
             [Rd (mAddress (device (settings ?s))) (WHO_AM_I_M example_registers) [mTest],
              Rd (agAddress (device (settings ?s))) (WHO_AM_I_XG example_registers) [xgTest],
              Wr (agAddress (device (settings ?s))) (CTRL_REG1_G example_registers) d1,
              Wr (agAddress (device (settings ?s))) (CTRL_REG2_G example_registers) 0,
              Wr (agAddress (device (settings ?s))) (CTRL_REG3_G example_registers) d3,
              Wr (agAddress (device (settings ?s))) (CTRL_REG4 example_registers) d4,
              Wr (agAddress (device (settings ?s))) (ORIENT_CFG_G example_registers) d5,
              Wr (agAddress (device (settings ?s))) (CTRL_REG5_XL example_registers) d6,
              Wr (agAddress (device (settings ?s))) (CTRL_REG6_XL example_registers) d7,
              Wr (agAddress (device (settings ?s))) (CTRL_REG7_XL example_registers) d8])"
    by blast
  from d i2c have m: "mTest = 0x3D" and x: "xgTest = 0x68"
    by (simp_all add: example_driver_bus)
  from d i2c have l: "length (trace (bus (LSM9DS1_initAccel example_registers
                        (LSM9DS1_initGyro example_registers s8)))) = 10"
    by (auto simp add: example_driver_bus)
  have 1: "map_option fst (LSM9DS1_begin example_registers ?s) = Some 0x683D"
    unfolding b m x by simp
  have 2: "fst (LSM9DS1_isConnected example_registers (begin_configured ?s))"
    unfolding c m x by (simp add: example_registers_def)
  have 3: "length (trace (bus (snd (the (LSM9DS1_begin example_registers ?s))))) = 10"
    unfolding b using l by simp
  have o: "open_ok (bus ?s)" by (simp add: example_driver_bus)
  from i2c o 1 2 3 show ?thesis by blast
qed

lemma field_generic:
  fixes v c :: "'a::len word"
  shows "((v AND NOT (push_bit p (mask w))) OR push_bit p (c AND mask w)) AND NOT (push_bit p (mask w))
           = v AND NOT (push_bit p (mask w))"
    and "p + w \<le> LENGTH('a) \<Longrightarrow>
         drop_bit p ((v AND NOT (push_bit p (mask w))) OR push_bit p (c AND mask w)) AND mask w
           = c AND mask w"
   apply (rule bit_word_eqI; auto simp add: bit_simps)
  apply (rule bit_word_eqI; auto simp add: bit_simps)
  done

lemma numerals_u8:
  "NOT (push_bit 3 (mask 2)) = (0xE7::u8)"
  "NOT (push_bit 5 (mask 2)) = (0x9F::u8)"
  "NOT (push_bit 5 (mask 3)) = (0x1F::u8)"
  "NOT (push_bit 2 (mask 3)) = (0xE3::u8)"
  "(0xFF XOR push_bit 5 0x3) = (0x9F::u8)"
  "(0xFF XOR push_bit 5 0x7) = (0x1F::u8)"
  "(0xFF XOR push_bit 2 0x7) = (0xE3::u8)"
  "mask 2 = (3::u8)" "mask 3 = (7::u8)"
  by (simp_all add: mask_eq_exp_minus_1)

lemma numerals_u8_sym:
  "(0xE7::u8) = NOT (push_bit 3 (mask 2))"
  "(0x9F::u8) = NOT (push_bit 5 (mask 2))"
  "(0x1F::u8) = NOT (push_bit 5 (mask 3))"
  "(0xE3::u8) = NOT (push_bit 2 (mask 3))"
  "(3::u8) = mask 2" "(7::u8) = mask 3"
  by (simp_all add: mask_eq_exp_minus_1)

lemma setter_bytes:
  fixes v c :: u8
  shows "((v AND 0xE7) OR push_bit 3 (c AND 3)) AND 0xE7 = v AND 0xE7"
    "drop_bit 3 ((v AND 0xE7) OR push_bit 3 (c AND 3)) AND 3 = c AND 3"
    "((v AND 0x9F) OR push_bit 5 (c AND 3)) AND 0x9F = v AND 0x9F"
    "drop_bit 5 ((v AND 0x9F) OR push_bit 5 (c AND 3)) AND 3 = c AND 3"
    "((v AND 0x1F) OR push_bit 5 (c AND 7)) AND 0x1F = v AND 0x1F"
    "drop_bit 5 ((v AND 0x1F) OR push_bit 5 (c AND 7)) AND 7 = c AND 7"
    "((v AND 0xE3) OR push_bit 2 (c AND 7)) AND 0xE3 = v AND 0xE3"
    "drop_bit 2 ((v AND 0xE3) OR push_bit 2 (c AND 7)) AND 7 = c AND 7"
  unfolding numerals_u8_sym
  by (rule field_generic(1) | (rule field_generic(2), simp))+

lemma setGyroScale_res:
  "gyro_scale (gyro (settings (LSM9DS1_setGyroScale rm gScl s))) =
     (if gScl = 500 then 500 else if gScl = 2000 then 2000 else 245)"
  "gRes (LSM9DS1_setGyroScale rm gScl s) =
     (if gScl = 500 then 0.0175 else if gScl = 2000 then 0.07 else 0.00875)"
  by (cases "commInterface (device (settings s))";
      simp add: LSM9DS1_setGyroScale_def Let_def split_def xgReadByte_I2C xgWriteByte_I2C
        xgReadByte_SPI xgWriteByte_SPI LSM9DS1_calcgRes_def SENSITIVITY_GYROSCOPE_245_def
        SENSITIVITY_GYROSCOPE_500_def SENSITIVITY_GYROSCOPE_2000_def)+

lemma setAccelScale_res:
  "accel_scale (accel (settings (LSM9DS1_setAccelScale rm aScl s))) =
     (if aScl = 4 then 4 else if aScl = 8 then 8 else if aScl = 16 then 16 else 2)"
  "aRes (LSM9DS1_setAccelScale rm aScl s) =
     (if aScl = 4 then 0.000122 else if aScl = 8 then 0.000244
      else if aScl = 16 then 0.000732 else 0.000061)"
  by (cases "commInterface (device (settings s))";
      simp add: LSM9DS1_setAccelScale_def Let_def split_def xgReadByte_I2C xgWriteByte_I2C
        xgReadByte_SPI xgWriteByte_SPI LSM9DS1_calcaRes_def SENSITIVITY_ACCELEROMETER_2_def
        SENSITIVITY_ACCELEROMETER_4_def SENSITIVITY_ACCELEROMETER_8_def
        SENSITIVITY_ACCELEROMETER_16_def)+

lemma setMagScale_res:
  "mag_scale (mag (settings (LSM9DS1_setMagScale rm mScl s))) =
     (if mScl = 8 then 8 else if mScl = 12 then 12 else if mScl = 16 then 16 else 4)"
  "mRes (LSM9DS1_setMagScale rm mScl s) =
     (if mScl = 8 then 0.00029 else if mScl = 12 then 0.00043
      else if mScl = 16 then 0.00058 else 0.00014)"
  by (cases "commInterface (device (settings s))";
      simp add: LSM9DS1_setMagScale_def Let_def split_def mReadByte_I2C mWriteByte_I2C
        mReadByte_SPI mWriteByte_SPI LSM9DS1_calcmRes_def SENSITIVITY_MAGNETOMETER_4_def
        SENSITIVITY_MAGNETOMETER_8_def SENSITIVITY_MAGNETOMETER_12_def
        SENSITIVITY_MAGNETOMETER_16_def)+

lemma setGyroScale_trace:
  "commInterface (device (settings s)) = IMU_MODE_I2C \<Longrightarrow>
   trace (bus (LSM9DS1_setGyroScale rm gScl s)) =
     trace (bus s) @
       [Rd (u_xgAddress s) (CTRL_REG1_G rm) [rx (bus s) (reads (bus s)) 0],
        Wr (u_xgAddress s) (CTRL_REG1_G rm)
          ((rx (bus s) (reads (bus s)) 0 AND 0xE7) OR
           push_bit 3 ((if gScl = 500 then 1 else if gScl = 2000 then 3 else 0) AND 3))]"
  by (simp add: LSM9DS1_setGyroScale_def Let_def split_def xgReadByte_I2C xgWriteByte_I2C
        LSM9DS1_calcgRes_def)

lemma setAccelScale_trace:
  "commInterface (device (settings s)) = IMU_MODE_I2C \<Longrightarrow>
   trace (bus (LSM9DS1_setAccelScale rm aScl s)) =
     trace (bus s) @
       [Rd (u_xgAddress s) (CTRL_REG6_XL rm) [rx (bus s) (reads (bus s)) 0],
        Wr (u_xgAddress s) (CTRL_REG6_XL rm)
          ((rx (bus s) (reads (bus s)) 0 AND 0xE7) OR
           push_bit 3 ((if aScl = 4 then 2 else if aScl = 8 then 3
                        else if aScl = 16 then 1 else 0) AND 3))]"
  by (simp add: LSM9DS1_setAccelScale_def Let_def split_def xgReadByte_I2C xgWriteByte_I2C
        LSM9DS1_calcaRes_def)

lemma setMagScale_trace:
  "commInterface (device (settings s)) = IMU_MODE_I2C \<Longrightarrow>
   trace (bus (LSM9DS1_setMagScale rm mScl s)) =
     trace (bus s) @
       [Rd (u_mAddress s) (CTRL_REG2_M rm) [rx (bus s) (reads (bus s)) 0],
        Wr (u_mAddress s) (CTRL_REG2_M rm)
          ((rx (bus s) (reads (bus s)) 0 AND 0x9F) OR
           push_bit 5 ((if mScl = 8 then 1 else if mScl = 12 then 2
                        else if mScl = 16 then 3 else 0) AND 3))]"
  by (simp add: LSM9DS1_setMagScale_def Let_def split_def mReadByte_I2C mWriteByte_I2C
        LSM9DS1_calcmRes_def)

lemma setGyroODR_trace:
  "commInterface (device (settings s)) = IMU_MODE_I2C \<Longrightarrow> gRate AND 0x07 \<noteq> 0 \<Longrightarrow>
   trace (bus (LSM9DS1_setGyroODR rm gRate s)) =
     trace (bus s) @
       [Rd (u_xgAddress s) (CTRL_REG1_G rm) [rx (bus s) (reads (bus s)) 0],
        Wr (u_xgAddress s) (CTRL_REG1_G rm)
          ((rx (bus s) (reads (bus s)) 0 AND 0x1F) OR push_bit 5 (gRate AND 7))] \<and>
   gyro_sampleRate (gyro (settings (LSM9DS1_setGyroODR rm gRate s))) = gRate AND 7"
  by (simp add: LSM9DS1_setGyroODR_def Let_def split_def xgReadByte_I2C xgWriteByte_I2C)

lemma setAccelODR_trace:
  "commInterface (device (settings s)) = IMU_MODE_I2C \<Longrightarrow> aRate AND 0x07 \<noteq> 0 \<Longrightarrow>
   trace (bus (LSM9DS1_setAccelODR rm aRate s)) =
     trace (bus s) @
       [Rd (u_xgAddress s) (CTRL_REG6_XL rm) [rx (bus s) (reads (bus s)) 0],
        Wr (u_xgAddress s) (CTRL_REG6_XL rm)
          ((rx (bus s) (reads (bus s)) 0 AND 0x1F) OR push_bit 5 (aRate AND 7))] \<and>
   accel_sampleRate (accel (settings (LSM9DS1_setAccelODR rm aRate s))) = aRate AND 7"
  by (simp add: LSM9DS1_setAccelODR_def Let_def split_def xgReadByte_I2C xgWriteByte_I2C)

lemma setMagODR_trace:
  "commInterface (device (settings s)) = IMU_MODE_I2C \<Longrightarrow>
   trace (bus (LSM9DS1_setMagODR rm mRate s)) =
     trace (bus s) @
       [Rd (u_mAddress s) (CTRL_REG1_M rm) [rx (bus s) (reads (bus s)) 0],
        Wr (u_mAddress s) (CTRL_REG1_M rm)
          ((rx (bus s) (reads (bus s)) 0 AND 0xE3) OR push_bit 2 (mRate AND 7))] \<and>
   mag_sampleRate (mag (settings (LSM9DS1_setMagODR rm mRate s))) = mRate AND 7"
  by (simp add: LSM9DS1_setMagODR_def Let_def split_def mReadByte_I2C mWriteByte_I2C)

lemma setODR_guard:
  "gRate AND 0x07 = 0 \<Longrightarrow> LSM9DS1_setGyroODR rm gRate s = s"
  "aRate AND 0x07 = 0 \<Longrightarrow> LSM9DS1_setAccelODR rm aRate s = s"
  by (simp_all add: LSM9DS1_setGyroODR_def LSM9DS1_setAccelODR_def)

section \<open>Scale and output data rate setters\<close>

text \<open>
  C8, as the code has it.  On the I2C bus every scale setter and \<open>LSM9DS1_setMagODR\<close>
  read the control register once and write it back once; the byte written agrees
  with the byte read outside the setter's own field and carries the new field.
  \<open>LSM9DS1_setGyroODR\<close> and \<open>LSM9DS1_setAccelODR\<close> do the same when the low three
  bits of the requested rate are not all zero, and otherwise leave the driver and
  the bus untouched.  After a scale setter the stored scale is the supported value
  selected by the argument (the default for any other argument) and the stored
  resolution is the constant of that scale, whatever the interface.
\<close>

theorem setters_change_only_their_field:
  assumes "commInterface (device (settings s)) = IMU_MODE_I2C"
  shows
   "(\<exists>d. trace (bus (LSM9DS1_setGyroScale rm gScl s)) =
            trace (bus s) @
              [Rd (u_xgAddress s) (CTRL_REG1_G rm) [rx (bus s) (reads (bus s)) 0],
               Wr (u_xgAddress s) (CTRL_REG1_G rm) d] \<and>
         d AND 0xE7 = rx (bus s) (reads (bus s)) 0 AND 0xE7 \<and>
         drop_bit 3 d AND 3 = (if gScl = 500 then 1 else if gScl = 2000 then 3 else 0)) \<and>
    gyro_scale (gyro (settings (LSM9DS1_setGyroScale rm gScl s))) =
      (if gScl = 500 then 500 else if gScl = 2000 then 2000 else 245) \<and>
    gRes (LSM9DS1_setGyroScale rm gScl s) =
      (if gScl = 500 then 0.0175 else if gScl = 2000 then 0.07 else 0.00875) \<and>
    (\<exists>d. trace (bus (LSM9DS1_setAccelScale rm aScl s)) =
            trace (bus s) @
              [Rd (u_xgAddress s) (CTRL_REG6_XL rm) [rx (bus s) (reads (bus s)) 0],
               Wr (u_xgAddress s) (CTRL_REG6_XL rm) d] \<and>
         d AND 0xE7 = rx (bus s) (reads (bus s)) 0 AND 0xE7 \<and>
         drop_bit 3 d AND 3 =
           (if aScl = 4 then 2 else if aScl = 8 then 3 else if aScl = 16 then 1 else 0)) \<and>
    accel_scale (accel (settings (LSM9DS1_setAccelScale rm aScl s))) =
      (if aScl = 4 then 4 else if aScl = 8 then 8 else if aScl = 16 then 16 else 2) \<and>
    aRes (LSM9DS1_setAccelScale rm aScl s) =
      (if aScl = 4 then 0.000122 else if aScl = 8 then 0.000244
       else if aScl = 16 then 0.000732 else 0.000061) \<and>
    (\<exists>d. trace (bus (LSM9DS1_setMagScale rm mScl s)) =
            trace (bus s) @
              [Rd (u_mAddress s) (CTRL_REG2_M rm) [rx (bus s) (reads (bus s)) 0],
               Wr (u_mAddress s) (CTRL_REG2_M rm) d] \<and>
         d AND 0x9F = rx (bus s) (reads (bus s)) 0 AND 0x9F \<and>
         drop_bit 5 d AND 3 =
           (if mScl = 8 then 1 else if mScl = 12 then 2 else if mScl = 16 then 3 else 0)) \<and>
    mag_scale (mag (settings (LSM9DS1_setMagScale rm mScl s))) =
      (if mScl = 8 then 8 else if mScl = 12 then 12 else if mScl = 16 then 16 else 4) \<and>
    mRes (LSM9DS1_setMagScale rm mScl s) =
      (if mScl = 8 then 0.00029 else if mScl = 12 then 0.00043
       else if mScl = 16 then 0.00058 else 0.00014) \<and>
    (gRate AND 0x07 \<noteq> 0 \<longrightarrow>
      (\<exists>d. trace (bus (LSM9DS1_setGyroODR rm gRate s)) =
            trace (bus s) @
              [Rd (u_xgAddress s) (CTRL_REG1_G rm) [rx (bus s) (reads (bus s)) 0],
               Wr (u_xgAddress s) (CTRL_REG1_G rm) d] \<and>
           d AND 0x1F = rx (bus s) (reads (bus s)) 0 AND 0x1F \<and>
           drop_bit 5 d AND 7 = gRate AND 7) \<and>
      gyro_sampleRate (gyro (settings (LSM9DS1_setGyroODR rm gRate s))) = gRate AND 7) \<and>
    (gRate AND 0x07 = 0 \<longrightarrow> LSM9DS1_setGyroODR rm gRate s = s) \<and>
    (aRate AND 0x07 \<noteq> 0 \<longrightarrow>
      (\<exists>d. trace (bus (LSM9DS1_setAccelODR rm aRate s)) =
            trace (bus s) @
              [Rd (u_xgAddress s) (CTRL_REG6_XL rm) [rx (bus s) (reads (bus s)) 0],
               Wr (u_xgAddress s) (CTRL_REG6_XL rm) d] \<and>
           d AND 0x1F = rx (bus s) (reads (bus s)) 0 AND 0x1F \<and>
           drop_bit 5 d AND 7 = aRate AND 7) \<and>
      accel_sampleRate (accel (settings (LSM9DS1_setAccelODR rm aRate s))) = aRate AND 7) \<and>
    (aRate AND 0x07 = 0 \<longrightarrow> LSM9DS1_setAccelODR rm aRate s = s) \<and>
    (\<exists>d. trace (bus (LSM9DS1_setMagODR rm mRate s)) =
            trace (bus s) @
              [Rd (u_mAddress s) (CTRL_REG1_M rm) [rx (bus s) (reads (bus s)) 0],
               Wr (u_mAddress s) (CTRL_REG1_M rm) d] \<and>
         d AND 0xE3 = rx (bus s) (reads (bus s)) 0 AND 0xE3 \<and>
         drop_bit 2 d AND 7 = mRate AND 7) \<and>
    mag_sampleRate (mag (settings (LSM9DS1_setMagODR rm mRate s))) = mRate AND 7"
proof -
  let ?v = "rx (bus s) (reads (bus s)) 0"
  let ?g = "(if gScl = 500 then 1 else if gScl = 2000 then 3 else 0) :: u8"
  let ?a = "(if aScl = 4 then 2 else if aScl = 8 then 3 else if aScl = 16 then 1 else 0) :: u8"
  let ?m = "(if mScl = 8 then 1 else if mScl = 12 then 2 else if mScl = 16 then 3 else 0) :: u8"
  have g3: "?g AND 3 = ?g" and a3: "?a AND 3 = ?a" and m3: "?m AND 3 = ?m" by simp_all
  have 1: "\<exists>d. trace (bus (LSM9DS1_setGyroScale rm gScl s)) =
            trace (bus s) @
              [Rd (u_xgAddress s) (CTRL_REG1_G rm) [?v], Wr (u_xgAddress s) (CTRL_REG1_G rm) d] \<and>
         d AND 0xE7 = ?v AND 0xE7 \<and> drop_bit 3 d AND 3 = ?g"
    using setGyroScale_trace [OF assms, of rm gScl] setter_bytes(1,2) [of ?v ?g]
    unfolding g3 by blast
  have 2: "\<exists>d. trace (bus (LSM9DS1_setAccelScale rm aScl s)) =
            trace (bus s) @
              [Rd (u_xgAddress s) (CTRL_REG6_XL rm) [?v], Wr (u_xgAddress s) (CTRL_REG6_XL rm) d] \<and>
         d AND 0xE7 = ?v AND 0xE7 \<and> drop_bit 3 d AND 3 = ?a"
    using setAccelScale_trace [OF assms, of rm aScl] setter_bytes(1,2) [of ?v ?a]
    unfolding a3 by blast
  have 3: "\<exists>d. trace (bus (LSM9DS1_setMagScale rm mScl s)) =
            trace (bus s) @
              [Rd (u_mAddress s) (CTRL_REG2_M rm) [?v], Wr (u_mAddress s) (CTRL_REG2_M rm) d] \<and>
         d AND 0x9F = ?v AND 0x9F \<and> drop_bit 5 d AND 3 = ?m"
    using setMagScale_trace [OF assms, of rm mScl] setter_bytes(3,4) [of ?v ?m]
    unfolding m3 by blast
  have 4: "gRate AND 0x07 \<noteq> 0 \<longrightarrow>
      (\<exists>d. trace (bus (LSM9DS1_setGyroODR rm gRate s)) =
            trace (bus s) @
              [Rd (u_xgAddress s) (CTRL_REG1_G rm) [?v], Wr (u_xgAddress s) (CTRL_REG1_G rm) d] \<and>
           d AND 0x1F = ?v AND 0x1F \<and> drop_bit 5 d AND 7 = gRate AND 7) \<and>
      gyro_sampleRate (gyro (settings (LSM9DS1_setGyroODR rm gRate s))) = gRate AND 7"
    using setGyroODR_trace [OF assms, of gRate rm] setter_bytes(5,6) [of ?v gRate]
    by blast
  have 5: "aRate AND 0x07 \<noteq> 0 \<longrightarrow>
      (\<exists>d. trace (bus (LSM9DS1_setAccelODR rm aRate s)) =
            trace (bus s) @
              [Rd (u_xgAddress s) (CTRL_REG6_XL rm) [?v], Wr (u_xgAddress s) (CTRL_REG6_XL rm) d] \<and>
           d AND 0x1F = ?v AND 0x1F \<and> drop_bit 5 d AND 7 = aRate AND 7) \<and>
      accel_sampleRate (accel (settings (LSM9DS1_setAccelODR rm aRate s))) = aRate AND 7"
    using setAccelODR_trace [OF assms, of aRate rm] setter_bytes(5,6) [of ?v aRate]
    by blast
  have 6: "(\<exists>d. trace (bus (LSM9DS1_setMagODR rm mRate s)) =
            trace (bus s) @
              [Rd (u_mAddress s) (CTRL_REG1_M rm) [?v], Wr (u_mAddress s) (CTRL_REG1_M rm) d] \<and>
         d AND 0xE3 = ?v AND 0xE3 \<and> drop_bit 2 d AND 7 = mRate AND 7) \<and>
    mag_sampleRate (mag (settings (LSM9DS1_setMagODR rm mRate s))) = mRate AND 7"
    using setMagODR_trace [OF assms, of rm mRate] setter_bytes(7,8) [of ?v mRate]
    by blast
  note r = setGyroScale_res [of rm gScl s] setAccelScale_res [of rm aScl s]
    setMagScale_res [of rm mScl s]
  note g = setODR_guard(1) [of gRate rm s] setODR_guard(2) [of aRate rm s]
  from 1 2 3 4 5 6 r g show ?thesis by (intro conjI impI) blast+
qed

text \<open>
  A request for output data rate 8 (low three bits zero): nothing is read, nothing
  is written and the stored rate stays 6, although the claim promises a rewrite of
  \<open>CTRL_REG1_G\<close> for every call.
\<close>

theorem setGyroODR_guard_skips_the_rewrite:
  "trace (bus (LSM9DS1_setGyroODR example_registers 8 (example_driver IMU_MODE_I2C (\<lambda>n i. 0)))) = [] \<and>
   reads (bus (LSM9DS1_setGyroODR example_registers 8 (example_driver IMU_MODE_I2C (\<lambda>n i. 0)))) = 0 \<and>
   gyro_sampleRate (gyro (settings
      (LSM9DS1_setGyroODR example_registers 8 (example_driver IMU_MODE_I2C (\<lambda>n i. 0))))) = 6"
  by (simp add: LSM9DS1_setGyroODR_def example_driver_bus)
     (simp add: example_driver_def LSM9DS1_init_def)

theorem setters_change_only_their_field_witness:
  "commInterface (device (settings (example_driver IMU_MODE_I2C (\<lambda>n i. 0xC3)))) = IMU_MODE_I2C \<and>
   (\<exists>d. trace (bus (LSM9DS1_setGyroScale example_registers 500
                       (example_driver IMU_MODE_I2C (\<lambda>n i. 0xC3)))) =
           [Rd 0x6B 0x10 [0xC3], Wr 0x6B 0x10 d] \<and>
        d AND 0xE7 = 0xC3 \<and> drop_bit 3 d AND 3 = 1) \<and>
   gRes (LSM9DS1_setGyroScale example_registers 500
           (example_driver IMU_MODE_I2C (\<lambda>n i. 0xC3))) = 0.0175 \<and>
   (3 :: u8) AND 0x07 \<noteq> 0 \<and>
   gyro_sampleRate (gyro (settings (LSM9DS1_setGyroODR example_registers 3
           (example_driver IMU_MODE_I2C (\<lambda>n i. 0xC3))))) = 3 \<and>
   (8 :: u8) AND 0x07 = 0 \<and>
   LSM9DS1_setAccelODR example_registers 8 (example_driver IMU_MODE_I2C (\<lambda>n i. 0xC3))
     = example_driver IMU_MODE_I2C (\<lambda>n i. 0xC3)"
proof -
  let ?s = "example_driver IMU_MODE_I2C (\<lambda>n i. 0xC3)"
  have i2c: "commInterface (device (settings ?s)) = IMU_MODE_I2C"
    by (rule example_driver_mode)
  have n: "(3 :: u8) AND 0x07 \<noteq> 0" and z: "(8 :: u8) AND 0x07 = 0" by simp_all
  note t = setters_change_only_their_field [OF i2c, of example_registers 500 _ _ 3 8]
  from t obtain d where
    d: "trace (bus (LSM9DS1_setGyroScale example_registers 500 ?s)) =
            trace (bus ?s) @
              [Rd (u_xgAddress ?s) (CTRL_REG1_G example_registers) [rx (bus ?s) (reads (bus ?s)) 0],
               Wr (u_xgAddress ?s) (CTRL_REG1_G example_registers) d]"
      "d AND 0xE7 = rx (bus ?s) (reads (bus ?s)) 0 AND 0xE7"
      "drop_bit 3 d AND 3 = (if (500::u16) = 500 then 1 else if (500::u16) = 2000 then 3 else 0)"
    by blast
  have 1: "\<exists>d. trace (bus (LSM9DS1_setGyroScale example_registers 500 ?s)) =
           [Rd 0x6B 0x10 [0xC3], Wr 0x6B 0x10 d] \<and>
        d AND 0xE7 = 0xC3 \<and> drop_bit 3 d AND 3 = 1"
    using d by (intro exI [of _ d])
      (simp add: example_driver_bus example_driver_fields example_registers_def)
  from t have 2: "gRes (LSM9DS1_setGyroScale example_registers 500 ?s) = 0.0175"
    by simp
  from t n have 3: "gyro_sampleRate (gyro (settings (LSM9DS1_setGyroODR example_registers 3 ?s))) = 3"
    by simp
  from t z have 4: "LSM9DS1_setAccelODR example_registers 8 ?s = ?s"
    by blast
  from i2c 1 2 n 3 z 4 show ?thesis by blast
qed

lemma readAccel_I2C:
  "commInterface (device (settings s)) = IMU_MODE_I2C \<Longrightarrow>
     LSM9DS1_readAccel rm out s =
       (let (ax, ay, az) = triplet (rx (bus s) (reads (bus s))) in
        if u_autoCalc s then (ax - aBiasRaw s ! 0, ay - aBiasRaw s ! 1, az - aBiasRaw s ! 2)
        else (ax, ay, az),
        snd (snd (LSM9DS1_xgReadBytes (OUT_X_L_XL rm) (temp_buffer 6) 6 s)))"
  by (simp add: LSM9DS1_readAccel_def xgReadBytes_I2C burst_nth triplet_def Let_def)

lemma readMag_I2C:
  "commInterface (device (settings s)) = IMU_MODE_I2C \<Longrightarrow>
     LSM9DS1_readMag rm out s =
       (triplet (rx (bus s) (reads (bus s))),
        snd (snd (LSM9DS1_mReadBytes (OUT_X_L_M rm) (temp_buffer 6) 6 s)))"
  by (simp add: LSM9DS1_readMag_def mReadBytes_I2C burst_nth triplet_def Let_def)

lemma triplet_readers_short:
  "fst (LSM9DS1_xgReadBytes (OUT_X_L_G rm) (temp_buffer 6) 6 s) \<noteq> 6 \<Longrightarrow>
     fst (LSM9DS1_readGyro rm out s) = out"
  "fst (LSM9DS1_xgReadBytes (OUT_X_L_XL rm) (temp_buffer 6) 6 s) \<noteq> 6 \<Longrightarrow>
     fst (LSM9DS1_readAccel rm out s) = out"
  "fst (LSM9DS1_mReadBytes (OUT_X_L_M rm) (temp_buffer 6) 6 s) \<noteq> 6 \<Longrightarrow>
     fst (LSM9DS1_readMag rm out s) = out"
  by (simp_all add: LSM9DS1_readGyro_def LSM9DS1_readAccel_def LSM9DS1_readMag_def split_def)

lemma axis_readers_short:
  "fst (LSM9DS1_xgReadBytes
          (ucast ((ucast (OUT_X_L_G rm) :: i32) + 2 * of_nat (axis_value rm axis)))
          (temp_buffer 2) 2 s) \<noteq> 2 \<Longrightarrow>
     map_option fst (LSM9DS1_readGyroAxis rm axis s) = Some 0"
  "fst (LSM9DS1_xgReadBytes
          (ucast ((ucast (OUT_X_L_XL rm) :: i32) + 2 * of_nat (axis_value rm axis)))
          (temp_buffer 2) 2 s) \<noteq> 2 \<Longrightarrow>
     map_option fst (LSM9DS1_readAccelAxis rm axis s) = Some 0"
  "fst (LSM9DS1_mReadBytes
          (ucast ((ucast (OUT_X_L_M rm) :: i32) + 2 * of_nat (axis_value rm axis)))
          (temp_buffer 2) 2 s) \<noteq> 2 \<Longrightarrow>
     fst (LSM9DS1_readMagAxis rm axis s) = 0"
  by (simp_all add: LSM9DS1_readGyroAxis_def LSM9DS1_readAccelAxis_def
        LSM9DS1_readMagAxis_def split_def)

lemma readers_SPI:
  assumes "commInterface (device (settings s)) = IMU_MODE_SPI"
  shows "LSM9DS1_readGyro rm out s = (out, s)" "LSM9DS1_readAccel rm out s = (out, s)"
    "LSM9DS1_readMag rm out s = (out, s)"
    "LSM9DS1_readGyroAxis rm axis s = Some (0, s)" "LSM9DS1_readAccelAxis rm axis s = Some (0, s)"
    "LSM9DS1_readMagAxis rm axis s = (0, s)"
  using assms
  by (simp_all add: LSM9DS1_readGyro_def LSM9DS1_readAccel_def LSM9DS1_readMag_def
        LSM9DS1_readGyroAxis_def LSM9DS1_readAccelAxis_def LSM9DS1_readMagAxis_def
        xgReadBytes_SPI mReadBytes_SPI)

section \<open>Short reads\<close>

text \<open>
  C4, as the code has it.  When the burst returns another count than the one
  requested, each triplet reader hands back the three values its output variables
  held before the call: no axis is updated.  Each single-axis reader returns its
  sample by value and then returns 0.  In SPI mode, where every burst is short, no
  reader changes the driver or the bus.
\<close>

theorem short_read_keeps_triplet_and_zeroes_axis:
  "(fst (LSM9DS1_xgReadBytes (OUT_X_L_G rm) (temp_buffer 6) 6 s) \<noteq> 6 \<longrightarrow>
      fst (LSM9DS1_readGyro rm out s) = out) \<and>
   (fst (LSM9DS1_xgReadBytes (OUT_X_L_XL rm) (temp_buffer 6) 6 s) \<noteq> 6 \<longrightarrow>
      fst (LSM9DS1_readAccel rm out s) = out) \<and>
   (fst (LSM9DS1_mReadBytes (OUT_X_L_M rm) (temp_buffer 6) 6 s) \<noteq> 6 \<longrightarrow>
      fst (LSM9DS1_readMag rm out s) = out) \<and>
   (fst (LSM9DS1_xgReadBytes
           (ucast ((ucast (OUT_X_L_G rm) :: i32) + 2 * of_nat (axis_value rm axis)))
           (temp_buffer 2) 2 s) \<noteq> 2 \<longrightarrow>
      map_option fst (LSM9DS1_readGyroAxis rm axis s) = Some 0) \<and>
   (fst (LSM9DS1_xgReadBytes
           (ucast ((ucast (OUT_X_L_XL rm) :: i32) + 2 * of_nat (axis_value rm axis)))
           (temp_buffer 2) 2 s) \<noteq> 2 \<longrightarrow>
      map_option fst (LSM9DS1_readAccelAxis rm axis s) = Some 0) \<and>
   (fst (LSM9DS1_mReadBytes
           (ucast ((ucast (OUT_X_L_M rm) :: i32) + 2 * of_nat (axis_value rm axis)))
           (temp_buffer 2) 2 s) \<noteq> 2 \<longrightarrow>
      fst (LSM9DS1_readMagAxis rm axis s) = 0) \<and>
   (commInterface (device (settings s)) = IMU_MODE_SPI \<longrightarrow>
      LSM9DS1_readGyro rm out s = (out, s) \<and> LSM9DS1_readAccel rm out s = (out, s) \<and>
      LSM9DS1_readMag rm out s = (out, s) \<and>
      LSM9DS1_readGyroAxis rm axis s = Some (0, s) \<and>
      LSM9DS1_readAccelAxis rm axis s = Some (0, s) \<and>
      LSM9DS1_readMagAxis rm axis s = (0, s))"
  by (intro conjI impI) (simp_all add: triplet_readers_short axis_readers_short readers_SPI)

text \<open>
  In SPI mode the two-byte burst of the accelerometer X axis returns the count 0,
  and \<open>LSM9DS1_readAccelAxis\<close> returns the value 0: a zero stands in for the
  reading.
\<close>

theorem readAccelAxis_returns_zero_on_short_read:
  "fst (LSM9DS1_xgReadBytes 0x28 (temp_buffer 2) 2 (example_driver IMU_MODE_SPI (\<lambda>n i. 0x55))) = 0 \<and>
   map_option fst (LSM9DS1_readAccelAxis example_registers X_AXIS
                     (example_driver IMU_MODE_SPI (\<lambda>n i. 0x55))) = Some 0"
  by (simp add: xgReadBytes_SPI readers_SPI example_driver_mode)

theorem short_read_keeps_triplet_and_zeroes_axis_witness:
  "fst (LSM9DS1_xgReadBytes (OUT_X_L_G example_registers) (temp_buffer 6) 6
          (example_driver IMU_MODE_SPI (\<lambda>n i. 0x55))) = 0 \<and>
   commInterface (device (settings (example_driver IMU_MODE_SPI (\<lambda>n i. 0x55)))) = IMU_MODE_SPI \<and>
   fst (LSM9DS1_readGyro example_registers (7, 8, 9) (example_driver IMU_MODE_SPI (\<lambda>n i. 0x55)))
     = (7, 8, 9) \<and>
   fst (LSM9DS1_readAccel example_registers (7, 8, 9) (example_driver IMU_MODE_SPI (\<lambda>n i. 0x55)))
     = (7, 8, 9) \<and>
   fst (LSM9DS1_readMag example_registers (7, 8, 9) (example_driver IMU_MODE_SPI (\<lambda>n i. 0x55)))
     = (7, 8, 9) \<and>
   LSM9DS1_readMagAxis example_registers Y_AXIS (example_driver IMU_MODE_SPI (\<lambda>n i. 0x55))
     = (0, example_driver IMU_MODE_SPI (\<lambda>n i. 0x55))"
proof -
  let ?s = "example_driver IMU_MODE_SPI (\<lambda>n i. 0x55)"
  have spi: "commInterface (device (settings ?s)) = IMU_MODE_SPI"
    by (rule example_driver_mode)
  have g: "fst (LSM9DS1_xgReadBytes (OUT_X_L_G example_registers) (temp_buffer 6) 6 ?s) = 0"
    by (simp add: xgReadBytes_SPI spi)
  then have g': "fst (LSM9DS1_xgReadBytes (OUT_X_L_G example_registers) (temp_buffer 6) 6 ?s) \<noteq> 6"
    by simp
  note t = short_read_keeps_triplet_and_zeroes_axis [of example_registers ?s "(7, 8, 9)" Y_AXIS]
  from t g' have 1: "fst (LSM9DS1_readGyro example_registers (7, 8, 9) ?s) = (7, 8, 9)"
    by blast
  from t spi have 2: "LSM9DS1_readAccel example_registers (7, 8, 9) ?s = ((7, 8, 9), ?s)"
    "LSM9DS1_readMag example_registers (7, 8, 9) ?s = ((7, 8, 9), ?s)"
    "LSM9DS1_readMagAxis example_registers Y_AXIS ?s = (0, ?s)"
    by blast+
  from g spi 1 2 show ?thesis by simp
qed

lemma calibrate_wait_frame:
  assumes "calibrate_wait rm x s = Some y"
  shows "only_bus_changed s (snd y) \<and> \<not> fst y < 0x1F"
proof (rule calibrate_wait.raw_induct
         [where P = "\<lambda>rm x s y. only_bus_changed s (snd y) \<and> \<not> fst y < 0x1F", OF _ assms])
  fix cw :: "registers \<Rightarrow> u8 \<Rightarrow> driver \<Rightarrow> (u8 \<times> driver) option"
    and rm samples s y
  assume IH: "\<And>rm samples s y. cw rm samples s = Some y \<Longrightarrow>
                only_bus_changed s (snd y) \<and> \<not> fst y < 0x1F"
    and step: "(if samples < 0x1F
                then cw rm (fst (LSM9DS1_xgReadByte (FIFO_SRC rm) s) AND 0x3F)
                       (snd (LSM9DS1_xgReadByte (FIFO_SRC rm) s))
                else Some (samples, s)) = Some y"
  show "only_bus_changed s (snd y) \<and> \<not> fst y < 0x1F"
  proof (cases "samples < 0x1F")
    case True
    with step have "cw rm (fst (LSM9DS1_xgReadByte (FIFO_SRC rm) s) AND 0x3F)
             (snd (LSM9DS1_xgReadByte (FIFO_SRC rm) s)) = Some y" by simp
    from IH [OF this] have "only_bus_changed (snd (LSM9DS1_xgReadByte (FIFO_SRC rm) s)) (snd y)"
      and n: "\<not> fst y < 0x1F" by simp_all
    from only_bus_changed_trans [OF xgReadByte_frame this(1)] n show ?thesis by simp
  next
    case False
    with step show ?thesis by (auto simp add: only_bus_changed_refl)
  qed
qed

lemma magAvailable_frame: "only_bus_changed s (snd (LSM9DS1_magAvailable rm axis s))"
  unfolding LSM9DS1_magAvailable_def Let_def split_def snd_conv
  by (rule mReadByte_frame)

lemma calibrateMag_wait_frame:
  assumes "calibrateMag_wait rm s = Some s'"
  shows "only_bus_changed s s'"
proof (rule calibrateMag_wait.raw_induct [where P = "\<lambda>rm s s'. only_bus_changed s s'", OF _ assms])
  fix cw :: "registers \<Rightarrow> driver \<Rightarrow> driver option" and rm s s'
  assume IH: "\<And>rm s s'. cw rm s = Some s' \<Longrightarrow> only_bus_changed s s'"
    and step: "(if fst (LSM9DS1_magAvailable rm ALL_AXIS s) = 0
                then cw rm (snd (LSM9DS1_magAvailable rm ALL_AXIS s))
                else Some (snd (LSM9DS1_magAvailable rm ALL_AXIS s))) = Some s'"
  show "only_bus_changed s s'"
  proof (cases "fst (LSM9DS1_magAvailable rm ALL_AXIS s) = 0")
    case True
    with step have "cw rm (snd (LSM9DS1_magAvailable rm ALL_AXIS s)) = Some s'" by simp
    from only_bus_changed_trans [OF magAvailable_frame IH [OF this]] show ?thesis .
  next
    case False
    with step magAvailable_frame [of s rm ALL_AXIS] show ?thesis by auto
  qed
qed

lemma readGyro_frame: "only_bus_changed s (snd (LSM9DS1_readGyro rm out s))"
proof -
  have "snd (LSM9DS1_readGyro rm out s) =
          snd (snd (LSM9DS1_xgReadBytes (OUT_X_L_G rm) (temp_buffer 6) 6 s))"
    by (simp add: LSM9DS1_readGyro_def split_def Let_def)
  then show ?thesis by (simp add: xgReadBytes_frame)
qed

lemma readAccel_frame: "only_bus_changed s (snd (LSM9DS1_readAccel rm out s))"
proof -
  have "snd (LSM9DS1_readAccel rm out s) =
          snd (snd (LSM9DS1_xgReadBytes (OUT_X_L_XL rm) (temp_buffer 6) 6 s))"
    by (simp add: LSM9DS1_readAccel_def split_def Let_def)
  then show ?thesis by (simp add: xgReadBytes_frame)
qed

lemma readMag_frame: "only_bus_changed s (snd (LSM9DS1_readMag rm out s))"
proof -
  have "snd (LSM9DS1_readMag rm out s) =
          snd (snd (LSM9DS1_mReadBytes (OUT_X_L_M rm) (temp_buffer 6) 6 s))"
    by (simp add: LSM9DS1_readMag_def split_def Let_def)
  then show ?thesis by (simp add: mReadBytes_frame)
qed

lemma calibrate_sample_frame:
  assumes "calibrate_sample rm (a, g, s) = Inr (a', g', s')"
  shows "only_bus_changed s s'"
proof -
  from assms have "s' = snd (LSM9DS1_readAccel rm (0, 0, 0) (snd (LSM9DS1_readGyro rm (0, 0, 0) s)))"
    by (auto simp add: calibrate_sample_def split_def Let_def split: option.splits)
  then show ?thesis
    by (simp add: only_bus_changed_trans [OF readGyro_frame readAccel_frame])
qed

lemma calibrate_accumulate_frame:
  "calibrate_accumulate rm n (a, g, s) = Inr (a', g', s') \<Longrightarrow> only_bus_changed s s'"
proof (induction n arbitrary: a g s)
  case 0
  then show ?case by (simp add: only_bus_changed_refl)
next
  case (Suc n)
  from Suc.prems obtain a1 g1 s1 where c: "calibrate_sample rm (a, g, s) = Inr (a1, g1, s1)"
    by (cases "calibrate_sample rm (a, g, s)") auto
  from Suc.prems c have "calibrate_accumulate rm n (a1, g1, s1) = Inr (a', g', s')" by simp
  from Suc.IH [OF this] have 2: "only_bus_changed s1 s'" .
  from calibrate_sample_frame [OF c] have 1: "only_bus_changed s s1" .
  show ?case by (rule only_bus_changed_trans [OF 1 2])
qed

lemma update3:
  "length xs = 3 \<Longrightarrow> xs[0 := x, 1 := y, 2 := z] = [x, y, z]"
  by (cases xs; cases "tl xs"; cases "tl (tl xs)"; simp)

lemma length3E:
  assumes "length xs = 3"
  obtains a b c where "xs = [a, b, c]"
  using assms by (cases xs; cases "tl xs"; cases "tl (tl xs)"; simp)

lemma calibrate_publish_all:
  assumes "arrays_ok s"
  shows "fold (calibrate_publish aT gT N) [0, 1, 2] s =
     s\<lparr>gBias := [gRes s * real_of_int (sint (bias_of_sum (gT ! 0) N)),
                  gRes s * real_of_int (sint (bias_of_sum (gT ! 1) N)),
                  gRes s * real_of_int (sint (bias_of_sum (gT ! 2) N))],
        aBias := [aRes s * real_of_int (sint (bias_of_sum (aT ! 0) N)),
                  aRes s * real_of_int (sint (bias_of_sum (aT ! 1) N)),
                  aRes s * real_of_int (sint (bias_of_sum (aT ! 2) N))],
        gBiasRaw := [bias_of_sum (gT ! 0) N, bias_of_sum (gT ! 1) N, bias_of_sum (gT ! 2) N],
        aBiasRaw := [bias_of_sum (aT ! 0) N, bias_of_sum (aT ! 1) N, bias_of_sum (aT ! 2) N]\<rparr>"
proof -
  from assms have n: "length (gBias s) = 3" "length (aBias s) = 3"
    "length (gBiasRaw s) = 3" "length (aBiasRaw s) = 3"
    by (simp_all add: arrays_ok_def)
  from n(1) obtain g0 g1 g2 where l1: "gBias s = [g0, g1, g2]" by (rule length3E)
  from n(2) obtain a0 a1 a2 where l2: "aBias s = [a0, a1, a2]" by (rule length3E)
  from n(3) obtain gr0 gr1 gr2 where l3: "gBiasRaw s = [gr0, gr1, gr2]" by (rule length3E)
  from n(4) obtain ar0 ar1 ar2 where l4: "aBiasRaw s = [ar0, ar1, ar2]" by (rule length3E)
  note l = l1 l2 l3 l4
  show ?thesis
    by (simp add: calibrate_publish_def Let_def LSM9DS1_calcGyro_def LSM9DS1_calcAccel_def l
          bias_of_sum_def)
qed

lemma arrays_ok_frame: "only_bus_changed s s' \<Longrightarrow> arrays_ok s' = arrays_ok s"
  by (simp add: arrays_ok_def only_bus_changed_fields)

lemma calibrate_shape:
  assumes "LSM9DS1_calibrate rm autoCalc s = Some (Inr s')"
  obtains N s3 aT gT s4 s6 where
    "calibrate_wait rm 0 (LSM9DS1_setFIFO rm (FIFO_THS rm) 0x1F (LSM9DS1_enableFIFO rm True s))
       = Some (N, s3)"
    "calibrate_accumulate rm (unat N) ([0, 0, 0], [0, 0, 0], s3) = Inr (aT, gT, s4)"
    "only_bus_changed s s4" "\<not> N < 0x1F"
    "only_bus_changed (fold (calibrate_publish aT gT N) [0, 1, 2] s4) s6"
    "s' = (if autoCalc then s6\<lparr>u_autoCalc := True\<rparr> else s6)"
proof -
  let ?s2 = "LSM9DS1_setFIFO rm (FIFO_THS rm) 0x1F (LSM9DS1_enableFIFO rm True s)"
  from assms obtain N s3 where w: "calibrate_wait rm 0 ?s2 = Some (N, s3)"
    by (auto simp add: LSM9DS1_calibrate_def Let_def split: option.splits)
  from assms w obtain aT gT s4 where
    a: "calibrate_accumulate rm (unat N) ([0, 0, 0], [0, 0, 0], s3) = Inr (aT, gT, s4)"
    by (cases "calibrate_accumulate rm (unat N) ([0, 0, 0], [0, 0, 0], s3)")
       (auto simp add: LSM9DS1_calibrate_def Let_def)
  let ?s5 = "fold (calibrate_publish aT gT N) [0, 1, 2] s4"
  let ?s6 = "LSM9DS1_setFIFO rm (FIFO_OFF rm) 0x00 (LSM9DS1_enableFIFO rm False ?s5)"
  from assms w a have r: "s' = (if autoCalc then ?s6\<lparr>u_autoCalc := True\<rparr> else ?s6)"
    by (auto simp add: LSM9DS1_calibrate_def Let_def simp del: fold.simps fold_simps)
  have f2: "only_bus_changed s ?s2"
    by (rule only_bus_changed_trans [OF enableFIFO_frame setFIFO_frame])
  from calibrate_wait_frame [OF w] have f3: "only_bus_changed ?s2 s3" and n: "\<not> N < 0x1F"
    by simp_all
  from calibrate_accumulate_frame [OF a] have f4: "only_bus_changed s3 s4" .
  have f: "only_bus_changed s s4"
    by (rule only_bus_changed_trans [OF only_bus_changed_trans [OF f2 f3] f4])
  have f6: "only_bus_changed ?s5 ?s6"
    by (rule only_bus_changed_trans [OF enableFIFO_frame setFIFO_frame])
  from w a f n f6 r show thesis by (rule that)
qed

lemma calibrate_result:
  assumes c: "LSM9DS1_calibrate rm autoCalc s = Some (Inr s')" and ok: "arrays_ok s"
  obtains N s3 aT gT s4 where
    "calibrate_wait rm 0 (LSM9DS1_setFIFO rm (FIFO_THS rm) 0x1F (LSM9DS1_enableFIFO rm True s))
       = Some (N, s3)"
    "calibrate_accumulate rm (unat N) ([0, 0, 0], [0, 0, 0], s3) = Inr (aT, gT, s4)"
    "\<not> N < 0x1F"
    "gBiasRaw s' = [bias_of_sum (gT ! 0) N, bias_of_sum (gT ! 1) N, bias_of_sum (gT ! 2) N]"
    "aBiasRaw s' = [bias_of_sum (aT ! 0) N, bias_of_sum (aT ! 1) N, bias_of_sum (aT ! 2) N]"
    "gBias s' = [gRes s * real_of_int (sint (bias_of_sum (gT ! 0) N)),
                 gRes s * real_of_int (sint (bias_of_sum (gT ! 1) N)),
                 gRes s * real_of_int (sint (bias_of_sum (gT ! 2) N))]"
    "aBias s' = [aRes s * real_of_int (sint (bias_of_sum (aT ! 0) N)),
                 aRes s * real_of_int (sint (bias_of_sum (aT ! 1) N)),
                 aRes s * real_of_int (sint (bias_of_sum (aT ! 2) N))]"
    "gRes s' = gRes s" "aRes s' = aRes s" "mRes s' = mRes s" "settings s' = settings s"
    "mBias s' = mBias s" "mBiasRaw s' = mBiasRaw s"
    "u_xgAddress s' = u_xgAddress s" "u_mAddress s' = u_mAddress s"
    "u_autoCalc s' = (autoCalc \<or> u_autoCalc s)"
proof -
  from c obtain N s3 aT gT s4 s6 where
    w: "calibrate_wait rm 0 (LSM9DS1_setFIFO rm (FIFO_THS rm) 0x1F (LSM9DS1_enableFIFO rm True s))
       = Some (N, s3)"
    and a: "calibrate_accumulate rm (unat N) ([0, 0, 0], [0, 0, 0], s3) = Inr (aT, gT, s4)"
    and f4: "only_bus_changed s s4" and n: "\<not> N < 0x1F"
    and f6: "only_bus_changed (fold (calibrate_publish aT gT N) [0, 1, 2] s4) s6"
    and r: "s' = (if autoCalc then s6\<lparr>u_autoCalc := True\<rparr> else s6)"
    by (rule calibrate_shape)
  from ok f4 have ok4: "arrays_ok s4" by (simp add: arrays_ok_frame)
  define s5 where "s5 = fold (calibrate_publish aT gT N) [0, 1, 2] s4"
  note p = calibrate_publish_all [OF ok4, of aT gT N, folded s5_def]
  note x4 = only_bus_changed_fields [OF f4]
  note x6 = only_bus_changed_fields [OF f6 [folded s5_def]]
  show thesis
    by (rule that [OF w a n]) (simp_all add: r x6 p x4)
qed

lemma calibrateMag_loop_frame:
  "calibrateMag_loop rm n (mn, mx, s) = Some (mn', mx', s') \<Longrightarrow> only_bus_changed s s'"
proof (induction n arbitrary: mn mx s)
  case 0
  then show ?case by (simp add: only_bus_changed_refl)
next
  case (Suc n)
  from Suc.prems obtain s1 where w: "calibrateMag_wait rm s = Some s1"
    by (auto split: option.splits)
  obtain t s2 where r: "LSM9DS1_readMag rm (0, 0, 0) s1 = (t, s2)"
    by (cases "LSM9DS1_readMag rm (0, 0, 0) s1") auto
  obtain mx0 my0 mz0 where t: "t = (mx0, my0, mz0)" by (cases t) auto
  obtain mn1 mx1 where m: "fold (calibrateMag_minmax [mx0, my0, mz0]) [0, 1, 2] (mn, mx) = (mn1, mx1)"
    by (cases "fold (calibrateMag_minmax [mx0, my0, mz0]) [0, 1, 2] (mn, mx)") auto
  from Suc.prems w r t m have "calibrateMag_loop rm n (mn1, mx1, s2) = Some (mn', mx', s')"
    by (simp del: fold.simps fold_simps)
  from Suc.IH [OF this] have 3: "only_bus_changed s2 s'" .
  from readMag_frame [of s1 rm "(0, 0, 0)"] r have 2: "only_bus_changed s1 s2" by simp
  from calibrateMag_wait_frame [OF w] have 1: "only_bus_changed s s1" .
  show ?case by (rule only_bus_changed_trans [OF only_bus_changed_trans [OF 1 2] 3])
qed

lemma calibrateMag_publish_step:
  "\<exists>b. calibrateMag_publish rm loadIn mn mx j s =
     s\<lparr>mBiasRaw := (mBiasRaw s)[j := offset_of_minmax (mn ! j) (mx ! j)],
       mBias := (mBias s)[j := mRes s * real_of_int
                   (sint ((mBiasRaw s)[j := offset_of_minmax (mn ! j) (mx ! j)] ! j))],
       bus := b\<rparr>"
proof (cases loadIn)
  case False
  then show ?thesis
    by (intro exI [of _ "bus s"])
       (simp add: calibrateMag_publish_def Let_def LSM9DS1_calcMag_def offset_of_minmax_def)
next
  case True
  let ?s2 = "s\<lparr>mBiasRaw := (mBiasRaw s)[j := offset_of_minmax (mn ! j) (mx ! j)],
       mBias := (mBias s)[j := mRes s * real_of_int
                   (sint ((mBiasRaw s)[j := offset_of_minmax (mn ! j) (mx ! j)] ! j))]\<rparr>"
  from only_bus_changedD [OF magOffset_frame [of ?s2 rm "of_nat j" "mBiasRaw ?s2 ! j"]]
  obtain b where "LSM9DS1_magOffset rm (of_nat j) (mBiasRaw ?s2 ! j) ?s2 = ?s2\<lparr>bus := b\<rparr>" ..
  with True show ?thesis
    by (intro exI [of _ b])
       (simp add: calibrateMag_publish_def Let_def LSM9DS1_calcMag_def offset_of_minmax_def)
qed

lemma calibrateMag_publish_all:
  assumes "arrays_ok s"
  shows "\<exists>b. fold (calibrateMag_publish rm loadIn mn mx) [0, 1, 2] s =
     s\<lparr>mBiasRaw := [offset_of_minmax (mn ! 0) (mx ! 0), offset_of_minmax (mn ! 1) (mx ! 1),
                     offset_of_minmax (mn ! 2) (mx ! 2)],
       mBias := [mRes s * real_of_int (sint (offset_of_minmax (mn ! 0) (mx ! 0))),
                 mRes s * real_of_int (sint (offset_of_minmax (mn ! 1) (mx ! 1))),
                 mRes s * real_of_int (sint (offset_of_minmax (mn ! 2) (mx ! 2)))],
       bus := b\<rparr>"
proof -
  from assms have n: "length (mBias s) = 3" "length (mBiasRaw s) = 3"
    by (simp_all add: arrays_ok_def)
  from n(1) obtain m0 m1 m2 where l1: "mBias s = [m0, m1, m2]" by (rule length3E)
  from n(2) obtain r0 r1 r2 where l2: "mBiasRaw s = [r0, r1, r2]" by (rule length3E)
  from calibrateMag_publish_step [of rm loadIn mn mx 0 s]
  obtain b0 where 0: "calibrateMag_publish rm loadIn mn mx 0 s =
     s\<lparr>mBiasRaw := [offset_of_minmax (mn ! 0) (mx ! 0), r1, r2],
       mBias := [mRes s * real_of_int (sint (offset_of_minmax (mn ! 0) (mx ! 0))), m1, m2],
       bus := b0\<rparr>" (is "_ = ?s1")
    by (auto simp add: l1 l2)
  from calibrateMag_publish_step [of rm loadIn mn mx 1 ?s1]
  obtain b1 where 1: "calibrateMag_publish rm loadIn mn mx 1 ?s1 =
     s\<lparr>mBiasRaw := [offset_of_minmax (mn ! 0) (mx ! 0), offset_of_minmax (mn ! 1) (mx ! 1), r2],
       mBias := [mRes s * real_of_int (sint (offset_of_minmax (mn ! 0) (mx ! 0))),
                 mRes s * real_of_int (sint (offset_of_minmax (mn ! 1) (mx ! 1))), m2],
       bus := b1\<rparr>" (is "_ = ?s2")
    by (auto simp add: l1 l2)
  from calibrateMag_publish_step [of rm loadIn mn mx 2 ?s2]
  obtain b2 where 2: "calibrateMag_publish rm loadIn mn mx 2 ?s2 =
     s\<lparr>mBiasRaw := [offset_of_minmax (mn ! 0) (mx ! 0), offset_of_minmax (mn ! 1) (mx ! 1),
                     offset_of_minmax (mn ! 2) (mx ! 2)],
       mBias := [mRes s * real_of_int (sint (offset_of_minmax (mn ! 0) (mx ! 0))),
                 mRes s * real_of_int (sint (offset_of_minmax (mn ! 1) (mx ! 1))),
                 mRes s * real_of_int (sint (offset_of_minmax (mn ! 2) (mx ! 2)))],
       bus := b2\<rparr>"
    by (auto simp add: l1 l2)
  have "fold (calibrateMag_publish rm loadIn mn mx) [0, 1, 2] s =
          calibrateMag_publish rm loadIn mn mx 2
            (calibrateMag_publish rm loadIn mn mx 1 (calibrateMag_publish rm loadIn mn mx 0 s))"
    by simp
  then show ?thesis unfolding 0 1 2 by (intro exI [of _ b2])
qed

lemma calibrateMag_result:
  assumes c: "LSM9DS1_calibrateMag rm loadIn s = Some s'" and ok: "arrays_ok s"
  obtains mn mx s1 where
    "calibrateMag_loop rm 128 ([0, 0, 0], [0, 0, 0], s) = Some (mn, mx, s1)"
    "mBiasRaw s' = [offset_of_minmax (mn ! 0) (mx ! 0), offset_of_minmax (mn ! 1) (mx ! 1),
                    offset_of_minmax (mn ! 2) (mx ! 2)]"
    "mBias s' = [mRes s * real_of_int (sint (offset_of_minmax (mn ! 0) (mx ! 0))),
                 mRes s * real_of_int (sint (offset_of_minmax (mn ! 1) (mx ! 1))),
                 mRes s * real_of_int (sint (offset_of_minmax (mn ! 2) (mx ! 2)))]"
    "mRes s' = mRes s" "gRes s' = gRes s" "aRes s' = aRes s" "settings s' = settings s"
    "gBias s' = gBias s" "aBias s' = aBias s" "gBiasRaw s' = gBiasRaw s"
    "aBiasRaw s' = aBiasRaw s" "u_autoCalc s' = u_autoCalc s"
proof -
  from c obtain mn mx s1 where
    l: "calibrateMag_loop rm 128 ([0, 0, 0], [0, 0, 0], s) = Some (mn, mx, s1)"
    by (auto simp add: LSM9DS1_calibrateMag_def split: option.splits)
  define s2 where "s2 = fold (calibrateMag_publish rm loadIn mn mx) [0, 1, 2] s1"
  from c l have r: "s' = s2"
    by (simp add: LSM9DS1_calibrateMag_def s2_def del: fold.simps fold_simps)
  note f = only_bus_changed_fields [OF calibrateMag_loop_frame [OF l]]
  from ok calibrateMag_loop_frame [OF l] have ok1: "arrays_ok s1" by (simp add: arrays_ok_frame)
  from calibrateMag_publish_all [OF ok1, of rm loadIn mn mx, folded s2_def]
  obtain b where p: "s2 =
     s1\<lparr>mBiasRaw := [offset_of_minmax (mn ! 0) (mx ! 0), offset_of_minmax (mn ! 1) (mx ! 1),
                     offset_of_minmax (mn ! 2) (mx ! 2)],
       mBias := [mRes s1 * real_of_int (sint (offset_of_minmax (mn ! 0) (mx ! 0))),
                 mRes s1 * real_of_int (sint (offset_of_minmax (mn ! 1) (mx ! 1))),
                 mRes s1 * real_of_int (sint (offset_of_minmax (mn ! 2) (mx ! 2)))],
       bus := b\<rparr>" ..
  show thesis
    by (rule that [OF l]) (simp_all add: r p f)
qed


lemma sdiv_pos:
  fixes t n :: int
  assumes "0 < n"
  shows "t sdiv n = (if 0 \<le> t then t div n else - ((- t) div n))"
  using assms by (auto simp add: signed_divide_int_def sgn_if)

lemma sdiv_bounds:
  fixes t n b c :: int
  assumes n: "0 < n" and lo: "- (b * n) \<le> t" and hi: "t \<le> c * n" and b: "0 \<le> b" and c: "0 \<le> c"
  shows "- b \<le> t sdiv n" "t sdiv n \<le> c"
proof -
  show "- b \<le> t sdiv n"
  proof (cases "0 \<le> t")
    case True
    then have "0 \<le> t div n" using n by (simp add: pos_imp_zdiv_nonneg_iff)
    with True b n show ?thesis by (simp add: sdiv_pos)
  next
    case False
    from lo have "- t \<le> b * n" by simp
    then have "(- t) div n \<le> (b * n) div n" by (rule zdiv_mono1) (rule n)
    with n have "(- t) div n \<le> b" by simp
    with False n show ?thesis by (simp add: sdiv_pos)
  qed
  show "t sdiv n \<le> c"
  proof (cases "0 \<le> t")
    case True
    from hi have "t div n \<le> (c * n) div n" by (rule zdiv_mono1) (rule n)
    with n have "t div n \<le> c" by simp
    with True n show ?thesis by (simp add: sdiv_pos)
  next
    case False
    then have "0 \<le> (- t) div n" using n by (simp add: pos_imp_zdiv_nonneg_iff)
    with False c n show ?thesis by (simp add: sdiv_pos)
  qed
qed

lemma sdiv_mult_self:
  fixes x n :: int
  assumes "0 < n"
  shows "(n * x) sdiv n = x"
proof (cases "0 \<le> x")
  case True
  with assms have "0 \<le> n * x" by simp
  with assms show ?thesis by (simp add: sdiv_pos)
next
  case False
  with assms have neg: "n * x < 0" by (simp add: mult_less_0_iff)
  have "(n * (- x)) div n = - x" using assms by (intro nonzero_mult_div_cancel_left) simp
  then have "(- (n * x)) div n = - x" by (simp only: mult_minus_right)
  with assms neg show ?thesis by (simp add: sdiv_pos)
qed

lemma sint_word_of_int_i32:
  "- (2 ^ 31) \<le> k \<Longrightarrow> k < 2 ^ 31 \<Longrightarrow> sint (word_of_int k :: i32) = k"
  by (simp add: sint_sbintrunc' signed_take_bit_int_eq_self)

lemma sint_word_of_int_i16:
  "- (2 ^ 15) \<le> k \<Longrightarrow> k < 2 ^ 15 \<Longrightarrow> sint (word_of_int k :: i16) = k"
  by (simp add: sint_sbintrunc' signed_take_bit_int_eq_self)

lemma sint_i16_bounds: "- 32768 \<le> sint (x :: i16)" "sint (x :: i16) \<le> 32767"
  using sint_ge [of x] sint_lt [of x] by simp_all

lemma advance_fields:
  "settings (advance k tr s) = settings s" "gBias (advance k tr s) = gBias s"
  "aBias (advance k tr s) = aBias s" "mBias (advance k tr s) = mBias s"
  "gBiasRaw (advance k tr s) = gBiasRaw s" "aBiasRaw (advance k tr s) = aBiasRaw s"
  "mBiasRaw (advance k tr s) = mBiasRaw s" "u_mAddress (advance k tr s) = u_mAddress s"
  "u_xgAddress (advance k tr s) = u_xgAddress s" "gRes (advance k tr s) = gRes s"
  "aRes (advance k tr s) = aRes s" "mRes (advance k tr s) = mRes s"
  "u_autoCalc (advance k tr s) = u_autoCalc s"
  "rx (bus (advance k tr s)) = rx (bus s)"
  "reads (bus (advance k tr s)) = reads (bus s) + k"
  "trace (bus (advance k tr s)) = trace (bus s) @ tr"
  "open_ok (bus (advance k tr s)) = open_ok (bus s)"
  by (simp_all add: advance_def)

lemma advance_advance:
  "advance k tr (advance k' tr' s) = advance (k' + k) (tr' @ tr) s"
  by (simp add: advance_def add.assoc)

lemma advance_only_bus: "only_bus_changed s (advance k tr s)"
  by (simp add: advance_def only_bus_changed_def)

lemma advance_readings:
  "gyro_reading (advance k tr s) n = gyro_reading s n"
  "accel_reading (advance k tr s) n = accel_reading s n"
  "gyro_total (advance k tr s) p m i = gyro_total s p m i"
  "accel_total (advance k tr s) g p m i = accel_total s g p m i"
  by (simp_all add: gyro_reading_def accel_reading_def gyro_total_def accel_total_def
        advance_fields split_def Let_def cong: if_cong)

lemma xgReadByte_adv:
  "commInterface (device (settings s)) = IMU_MODE_I2C \<Longrightarrow>
     LSM9DS1_xgReadByte r s =
       (rx (bus s) (reads (bus s)) 0,
        advance 1 [Rd (u_xgAddress s) r [rx (bus s) (reads (bus s)) 0]] s)"
  by (simp add: xgReadByte_I2C advance_def)

lemma mReadByte_adv:
  "commInterface (device (settings s)) = IMU_MODE_I2C \<Longrightarrow>
     LSM9DS1_mReadByte r s =
       (rx (bus s) (reads (bus s)) 0,
        advance 1 [Rd (u_mAddress s) r [rx (bus s) (reads (bus s)) 0]] s)"
  by (simp add: mReadByte_I2C advance_def)

lemma xgWriteByte_adv:
  "commInterface (device (settings s)) = IMU_MODE_I2C \<Longrightarrow>
     LSM9DS1_xgWriteByte r d s = advance 0 [Wr (u_xgAddress s) r d] s"
  by (simp add: xgWriteByte_I2C advance_def)

lemma mWriteByte_adv:
  "commInterface (device (settings s)) = IMU_MODE_I2C \<Longrightarrow>
     LSM9DS1_mWriteByte r d s = advance 0 [Wr (u_mAddress s) r d] s"
  by (simp add: mWriteByte_I2C advance_def)

lemma readGyro_adv:
  "commInterface (device (settings s)) = IMU_MODE_I2C \<Longrightarrow>
     LSM9DS1_readGyro rm out s =
       (gyro_reading s (reads (bus s)),
        advance 1 [Rd (u_xgAddress s) (OUT_X_L_G rm) (map (rx (bus s) (reads (bus s))) [0 ..< 6])] s)"
  by (simp add: readGyro_I2C gyro_reading_def xgReadBytes_I2C advance_def)

lemma readAccel_adv:
  "commInterface (device (settings s)) = IMU_MODE_I2C \<Longrightarrow>
     LSM9DS1_readAccel rm out s =
       (accel_reading s (reads (bus s)),
        advance 1 [Rd (u_xgAddress s) (OUT_X_L_XL rm) (map (rx (bus s) (reads (bus s))) [0 ..< 6])] s)"
  by (simp add: readAccel_I2C accel_reading_def xgReadBytes_I2C advance_def)

lemma readMag_adv:
  "commInterface (device (settings s)) = IMU_MODE_I2C \<Longrightarrow>
     LSM9DS1_readMag rm out s =
       (triplet (rx (bus s) (reads (bus s))),
        advance 1 [Rd (u_mAddress s) (OUT_X_L_M rm) (map (rx (bus s) (reads (bus s))) [0 ..< 6])] s)"
  by (simp add: readMag_I2C mReadBytes_I2C advance_def)

lemma enableFIFO_adv:
  "commInterface (device (settings s)) = IMU_MODE_I2C \<Longrightarrow>
     \<exists>tr. LSM9DS1_enableFIFO rm e s = advance 1 tr s"
  unfolding LSM9DS1_enableFIFO_def Let_def
  by (intro exI) (simp add: xgReadByte_adv xgWriteByte_adv advance_fields advance_advance)

lemma setFIFO_adv:
  "commInterface (device (settings s)) = IMU_MODE_I2C \<Longrightarrow>
     \<exists>tr. LSM9DS1_setFIFO rm m t s = advance 0 tr s"
  unfolding setFIFO_eq
  by (intro exI) (simp add: xgWriteByte_adv)

lemma calibrate_wait_I2C:
  assumes "commInterface (device (settings s)) = IMU_MODE_I2C"
    and "samples < 0x1F"
    and "\<forall>k<m. rx (bus s) (reads (bus s) + k) 0 AND 0x3F < 0x1F"
    and "\<not> rx (bus s) (reads (bus s) + m) 0 AND 0x3F < 0x1F"
  shows "\<exists>tr. calibrate_wait rm samples s =
           Some (rx (bus s) (reads (bus s) + m) 0 AND 0x3F, advance (Suc m) tr s)"
  using assms
proof (induction m arbitrary: s samples)
  case 0
  then show ?case
    by (subst calibrate_wait.simps, subst calibrate_wait.simps)
       (auto simp add: xgReadByte_adv)
next
  case (Suc m)
  let ?s1 = "advance 1 [Rd (u_xgAddress s) (FIFO_SRC rm) [rx (bus s) (reads (bus s)) 0]] s"
  have m1: "commInterface (device (settings ?s1)) = IMU_MODE_I2C"
    using Suc.prems(1) by (simp add: advance_fields)
  have lt: "rx (bus s) (reads (bus s)) 0 AND 0x3F < 0x1F"
    using Suc.prems(3) by (metis add.right_neutral zero_less_Suc)
  have a: "\<forall>k<m. rx (bus ?s1) (reads (bus ?s1) + k) 0 AND 0x3F < 0x1F"
    using Suc.prems(3) by (auto simp add: advance_fields)
  have b: "\<not> rx (bus ?s1) (reads (bus ?s1) + m) 0 AND 0x3F < 0x1F"
    using Suc.prems(4) by (simp add: advance_fields)
  from Suc.IH [OF m1 lt a b] obtain tr where
    "calibrate_wait rm (rx (bus s) (reads (bus s)) 0 AND 0x3F) ?s1 =
       Some (rx (bus ?s1) (reads (bus ?s1) + m) 0 AND 0x3F, advance (Suc m) tr ?s1)"
    by blast
  then have "calibrate_wait rm samples s =
       Some (rx (bus s) (reads (bus s) + Suc m) 0 AND 0x3F,
             advance (Suc (Suc m)) ([Rd (u_xgAddress s) (FIFO_SRC rm) [rx (bus s) (reads (bus s)) 0]] @ tr) s)"
    using Suc.prems(1,2)
    by (subst calibrate_wait.simps)
       (simp add: xgReadByte_adv advance_fields advance_advance)
  then show ?case by blast
qed

lemma nth3_sel: "nth3 p 0 = fst p" "nth3 p 1 = fst (snd p)" "nth3 p 2 = snd (snd p)"
  "nth3 p (Suc 0) = fst (snd p)"
  by (cases p; simp)+

lemma gyro_total_Suc:
  "gyro_total s p (Suc n) i = sint (nth3 (gyro_reading s p) i) + gyro_total s (p + 2) n i"
  by (simp add: gyro_total_def sum.lessThan_Suc_shift add.assoc del: sum.lessThan_Suc)

lemma accel_total_Suc:
  "accel_total s g p (Suc n) i =
     (sint (nth3 (accel_reading s (p + 1)) i) -
      (if i = 2 then sint g else 0)) + accel_total s g (p + 2) n i"
  by (simp add: accel_total_def sum.lessThan_Suc_shift add.assoc add.commute add.left_commute
        del: sum.lessThan_Suc)

lemma totals_0: "gyro_total s p 0 i = 0" "accel_total s g p 0 i = 0"
  by (simp_all add: gyro_total_def accel_total_def)

lemma calibrate_sample_I2C:
  assumes "commInterface (device (settings s)) = IMU_MODE_I2C"
    and "one_g_raw (aRes s) = Some g"
  shows "\<exists>tr. calibrate_sample rm ([a0, a1, a2], [g0, g1, g2], s) =
     Inr ([a0 + scast (nth3 (accel_reading s (reads (bus s) + 1)) 0),
       a1 + scast (nth3 (accel_reading s (reads (bus s) + 1)) 1),
       a2 + (scast (nth3 (accel_reading s (reads (bus s) + 1)) 2) -
             scast g)],
      [g0 + scast (nth3 (gyro_reading s (reads (bus s))) 0),
       g1 + scast (nth3 (gyro_reading s (reads (bus s))) 1),
       g2 + scast (nth3 (gyro_reading s (reads (bus s))) 2)],
      advance 2 tr s)"
  unfolding calibrate_sample_def
  using assms
  by (intro exI [of _ "[Rd (u_xgAddress s) (OUT_X_L_G rm) (map (rx (bus s) (reads (bus s))) [0 ..< 6]),
                       Rd (u_xgAddress s) (OUT_X_L_XL rm) (map (rx (bus s) (Suc (reads (bus s)))) [0 ..< 6])]"])
     (simp add: readGyro_adv readAccel_adv split_def Let_def advance_fields advance_advance
        advance_readings nth3_sel)

lemma calibrate_accumulate_I2C:
  assumes "commInterface (device (settings s)) = IMU_MODE_I2C"
    and "one_g_raw (aRes s) = Some g"
  shows "\<exists>tr. calibrate_accumulate rm n ([a0, a1, a2], [g0, g1, g2], s) =
     Inr ([a0 + word_of_int (accel_total s g (reads (bus s)) n 0),
       a1 + word_of_int (accel_total s g (reads (bus s)) n 1),
       a2 + word_of_int (accel_total s g (reads (bus s)) n 2)],
      [g0 + word_of_int (gyro_total s (reads (bus s)) n 0),
       g1 + word_of_int (gyro_total s (reads (bus s)) n 1),
       g2 + word_of_int (gyro_total s (reads (bus s)) n 2)],
      advance (2 * n) tr s)"
  using assms
proof (induction n arbitrary: a0 a1 a2 g0 g1 g2 s)
  case 0
  show ?case by (intro exI [of _ "[]"]) (simp add: totals_0 advance_def)
next
  case (Suc n)
  from calibrate_sample_I2C [OF Suc.prems, of rm a0 a1 a2 g0 g1 g2]
  obtain tr where c: "calibrate_sample rm ([a0, a1, a2], [g0, g1, g2], s) =
     Inr ([a0 + scast (nth3 (accel_reading s (reads (bus s) + 1)) 0),
       a1 + scast (nth3 (accel_reading s (reads (bus s) + 1)) 1),
       a2 + (scast (nth3 (accel_reading s (reads (bus s) + 1)) 2) -
             scast g)],
      [g0 + scast (nth3 (gyro_reading s (reads (bus s))) 0),
       g1 + scast (nth3 (gyro_reading s (reads (bus s))) 1),
       g2 + scast (nth3 (gyro_reading s (reads (bus s))) 2)],
      advance 2 tr s)" ..
  have m: "commInterface (device (settings (advance 2 tr s))) = IMU_MODE_I2C"
    using Suc.prems by (simp add: advance_fields)
  have og: "one_g_raw (aRes (advance 2 tr s)) = Some g"
    using Suc.prems(2) by (simp add: advance_fields)
  from Suc.IH [OF m og] obtain tr' where
    i: "calibrate_accumulate rm n
         ([a0 + scast (nth3 (accel_reading s (reads (bus s) + 1)) 0),
           a1 + scast (nth3 (accel_reading s (reads (bus s) + 1)) 1),
           a2 + (scast (nth3 (accel_reading s (reads (bus s) + 1)) 2) -
                 scast g)],
          [g0 + scast (nth3 (gyro_reading s (reads (bus s))) 0),
           g1 + scast (nth3 (gyro_reading s (reads (bus s))) 1),
           g2 + scast (nth3 (gyro_reading s (reads (bus s))) 2)],
          advance 2 tr s) =
     Inr ([a0 + scast (nth3 (accel_reading s (reads (bus s) + 1)) 0) +
         word_of_int (accel_total (advance 2 tr s) g (reads (bus (advance 2 tr s))) n 0),
       a1 + scast (nth3 (accel_reading s (reads (bus s) + 1)) 1) +
         word_of_int (accel_total (advance 2 tr s) g (reads (bus (advance 2 tr s))) n 1),
       a2 + (scast (nth3 (accel_reading s (reads (bus s) + 1)) 2) -
                 scast g) +
         word_of_int (accel_total (advance 2 tr s) g (reads (bus (advance 2 tr s))) n 2)],
      [g0 + scast (nth3 (gyro_reading s (reads (bus s))) 0) +
         word_of_int (gyro_total (advance 2 tr s) (reads (bus (advance 2 tr s))) n 0),
       g1 + scast (nth3 (gyro_reading s (reads (bus s))) 1) +
         word_of_int (gyro_total (advance 2 tr s) (reads (bus (advance 2 tr s))) n 1),
       g2 + scast (nth3 (gyro_reading s (reads (bus s))) 2) +
         word_of_int (gyro_total (advance 2 tr s) (reads (bus (advance 2 tr s))) n 2)],
      advance (2 * n) tr' (advance 2 tr s))"
    by blast
  have "calibrate_accumulate rm (Suc n) ([a0, a1, a2], [g0, g1, g2], s) =
          calibrate_accumulate rm n
            ([a0 + scast (nth3 (accel_reading s (reads (bus s) + 1)) 0),
              a1 + scast (nth3 (accel_reading s (reads (bus s) + 1)) 1),
              a2 + (scast (nth3 (accel_reading s (reads (bus s) + 1)) 2) - scast g)],
             [g0 + scast (nth3 (gyro_reading s (reads (bus s))) 0),
              g1 + scast (nth3 (gyro_reading s (reads (bus s))) 1),
              g2 + scast (nth3 (gyro_reading s (reads (bus s))) 2)],
             advance 2 tr s)"
    by (simp only: calibrate_accumulate.simps c sum.case)
  also note i
  finally show ?case
    by (intro exI [of _ "tr @ tr'"])
       (simp add: advance_readings advance_fields advance_advance gyro_total_Suc
          accel_total_Suc add.assoc)
qed

lemma gyro_total_bounds:
  "- (32768 * int n) \<le> gyro_total s p n i" "gyro_total s p n i \<le> 32767 * int n"
proof -
  have "(\<Sum>j<n. - 32768) \<le> gyro_total s p n i"
    unfolding gyro_total_def by (rule sum_mono) (rule sint_i16_bounds)
  then show "- (32768 * int n) \<le> gyro_total s p n i" by simp
  have "gyro_total s p n i \<le> (\<Sum>j<n. 32767)"
    unfolding gyro_total_def by (rule sum_mono) (rule sint_i16_bounds)
  then show "gyro_total s p n i \<le> 32767 * int n" by simp
qed

lemma accel_total_bounds:
  "- (65535 * int n) \<le> accel_total s g p n i" "accel_total s g p n i \<le> 65535 * int n"
proof -
  have t: "- 65535 \<le> sint (a :: i16) - (if i = 2 then sint (k :: i16) else 0) \<and>
           sint a - (if i = 2 then sint k else 0) \<le> 65535" for a k
    using sint_i16_bounds [of a] sint_i16_bounds [of k] by auto
  have "(\<Sum>j<n. - 65535) \<le> accel_total s g p n i"
    unfolding accel_total_def by (rule sum_mono) (simp add: t)
  then show "- (65535 * int n) \<le> accel_total s g p n i" by simp
  have "accel_total s g p n i \<le> (\<Sum>j<n. 65535)"
    unfolding accel_total_def by (rule sum_mono) (simp add: t)
  then show "accel_total s g p n i \<le> 65535 * int n" by simp
qed

lemma accel_total_bounds_xy:
  assumes "i \<noteq> 2"
  shows "- (32768 * int n) \<le> accel_total s g p n i" "accel_total s g p n i \<le> 32767 * int n"
proof -
  have "(\<Sum>j<n. - 32768) \<le> accel_total s g p n i"
    unfolding accel_total_def using assms by (intro sum_mono) (simp add: sint_i16_bounds)
  then show "- (32768 * int n) \<le> accel_total s g p n i" by simp
  have "accel_total s g p n i \<le> (\<Sum>j<n. 32767)"
    unfolding accel_total_def using assms by (intro sum_mono) (simp add: sint_i16_bounds)
  then show "accel_total s g p n i \<le> 32767 * int n" by simp
qed

lemma fifo_count_bounds:
  fixes x :: u8
  shows "unat (x AND 0x3F) \<le> 63"
    and "\<not> x AND 0x3F < 0x1F \<Longrightarrow> 31 \<le> unat (x AND 0x3F)"
proof -
  have "x AND 0x3F \<le> 0x3F" by (rule word_and_le1)
  then show "unat (x AND 0x3F) \<le> 63" by (simp add: word_le_nat_alt)
  show "\<not> x AND 0x3F < 0x1F \<Longrightarrow> 31 \<le> unat (x AND 0x3F)"
    by (simp add: word_less_nat_alt)
qed

lemma bias_of_sum_total:
  assumes "- (65535 * int (unat N)) \<le> T" "T \<le> 65535 * int (unat N)" "unat N \<le> 63"
  shows "bias_of_sum (word_of_int T) N = word_of_int (T sdiv int (unat N))"
proof -
  define u where "u = int (unat N)"
  have u: "u \<le> 63" unfolding u_def using assms(3) by linarith
  from assms(1,2) have "- (65535 * u) \<le> T" "T \<le> 65535 * u" by (simp_all add: u_def)
  with u have "- (2 ^ 31) \<le> T" "T < 2 ^ 31" by simp_all
  then have "sint (word_of_int T :: i32) = T" by (rule sint_word_of_int_i32)
  then show ?thesis unfolding bias_of_sum_def by (simp only: uint_nat)
qed

lemma sint_bias_in_range:
  assumes "- (32768 * int n) \<le> T" "T \<le> 32767 * int n" "0 < n"
  shows "sint (word_of_int (T sdiv int n) :: i16) = T sdiv int n"
proof -
  from assms(3) have n: "0 < int n" by simp
  from sdiv_bounds [OF n assms(1,2)] have "- 32768 \<le> T sdiv int n" "T sdiv int n \<le> 32767"
    by simp_all
  then show ?thesis by (intro sint_word_of_int_i16) simp_all
qed


lemma calibrate_publish_bus:
  "bus (calibrate_publish aT gT N ii s) = bus s"
  "settings (calibrate_publish aT gT N ii s) = settings s"
  by (simp_all add: calibrate_publish_def Let_def)

lemma calibrate_I2C:
  assumes i2c: "commInterface (device (settings s)) = IMU_MODE_I2C"
    and ok: "arrays_ok s"
    and polls: "\<forall>k<m. fifo_level s k < 0x1F"
    and last: "\<not> fifo_level s m < 0x1F"
    and og: "one_g_raw (aRes s) = Some g"
  shows "\<exists>s'. LSM9DS1_calibrate rm autoCalc s = Some (Inr s') \<and>
     gBiasRaw s' =
       map (\<lambda>i. word_of_int (gyro_total s (batch_start s m) (unat (fifo_level s m)) i
                               sdiv int (unat (fifo_level s m)))) [0, 1, 2] \<and>
     aBiasRaw s' =
       map (\<lambda>i. word_of_int (accel_total s g (batch_start s m) (unat (fifo_level s m)) i
                               sdiv int (unat (fifo_level s m)))) [0, 1, 2] \<and>
     rx (bus s') = rx (bus s) \<and>
     reads (bus s') = batch_start s m + 2 * unat (fifo_level s m) + 1"
proof -
  let ?N = "fifo_level s m"
  let ?n = "unat ?N"
  let ?p = "batch_start s m"
  let ?S2 = "LSM9DS1_setFIFO rm (FIFO_THS rm) 0x1F (LSM9DS1_enableFIFO rm True s)"
  from enableFIFO_adv [OF i2c, of rm True] obtain tr1 where
    1: "LSM9DS1_enableFIFO rm True s = advance 1 tr1 s" ..
  have m1: "commInterface (device (settings (advance 1 tr1 s))) = IMU_MODE_I2C"
    using i2c by (simp add: advance_fields)
  from setFIFO_adv [OF m1, of rm "FIFO_THS rm" "0x1F"] obtain tr2 where
    2: "LSM9DS1_setFIFO rm (FIFO_THS rm) 0x1F (advance 1 tr1 s) = advance 0 tr2 (advance 1 tr1 s)" ..
  let ?s2 = "advance 1 (tr1 @ tr2) s"
  have s2: "?S2 = ?s2"
    unfolding 1 2 advance_advance by simp
  have m2: "commInterface (device (settings ?s2)) = IMU_MODE_I2C"
    using i2c by (simp add: advance_fields)
  have p2: "\<forall>k<m. rx (bus ?s2) (reads (bus ?s2) + k) 0 AND 0x3F < 0x1F"
    using polls by (simp add: advance_fields add.assoc fifo_level_def)
  have l2: "\<not> rx (bus ?s2) (reads (bus ?s2) + m) 0 AND 0x3F < 0x1F"
    using last by (simp add: advance_fields add.assoc fifo_level_def)
  have z: "(0::u8) < 0x1F" by simp
  from calibrate_wait_I2C [OF m2 z p2 l2, of rm] obtain tr3 where
    w0: "calibrate_wait rm 0 ?s2 =
       Some (rx (bus ?s2) (reads (bus ?s2) + m) 0 AND 0x3F, advance (Suc m) tr3 ?s2)" ..
  define s3 where "s3 = advance (Suc m) tr3 ?s2"
  have N: "rx (bus ?s2) (reads (bus ?s2) + m) 0 AND 0x3F = ?N"
    by (simp add: advance_fields add.assoc fifo_level_def)
  have w: "calibrate_wait rm 0 ?S2 = Some (?N, s3)"
    unfolding s2 w0 N s3_def ..
  have f3: "rx (bus s3) = rx (bus s)" "reads (bus s3) = ?p" "settings s3 = settings s"
    "aRes s3 = aRes s"
    by (simp_all add: s3_def advance_fields batch_start_def)
  have m3: "commInterface (device (settings s3)) = IMU_MODE_I2C"
    using i2c by (simp add: f3)
  have og3: "one_g_raw (aRes s3) = Some g"
    using og by (simp add: f3)
  have r3: "gyro_total s3 p k i = gyro_total s p k i"
    "accel_total s3 g p k i = accel_total s g p k i" for p k i
    unfolding s3_def by (simp_all add: advance_readings)
  from calibrate_accumulate_I2C [OF m3 og3, of rm ?n 0 0 0 0 0 0] obtain tr4 where
    a0: "calibrate_accumulate rm ?n ([0, 0, 0], [0, 0, 0], s3) =
     Inr ([word_of_int (accel_total s g ?p ?n 0), word_of_int (accel_total s g ?p ?n 1),
           word_of_int (accel_total s g ?p ?n 2)],
          [word_of_int (gyro_total s ?p ?n 0), word_of_int (gyro_total s ?p ?n 1),
           word_of_int (gyro_total s ?p ?n 2)],
          advance (2 * ?n) tr4 s3)"
    by (auto simp add: r3 f3)
  define aT :: "i32 list" where
    "aT = [word_of_int (accel_total s g ?p ?n 0), word_of_int (accel_total s g ?p ?n 1),
           word_of_int (accel_total s g ?p ?n 2)]"
  define gT :: "i32 list" where
    "gT = [word_of_int (gyro_total s ?p ?n 0), word_of_int (gyro_total s ?p ?n 1),
           word_of_int (gyro_total s ?p ?n 2)]"
  define s4 where "s4 = advance (2 * ?n) tr4 s3"
  have a: "calibrate_accumulate rm ?n ([0, 0, 0], [0, 0, 0], s3) = Inr (aT, gT, s4)"
    unfolding a0 aT_def gT_def s4_def ..
  define s5 where "s5 = fold (calibrate_publish aT gT ?N) [0, 1, 2] s4"
  have b5: "bus s5 = bus s4" "settings s5 = settings s4"
    unfolding s5_def by (simp_all add: calibrate_publish_bus)
  have m5: "commInterface (device (settings s5)) = IMU_MODE_I2C"
    using i2c by (simp add: b5 s4_def f3 advance_fields)
  from enableFIFO_adv [OF m5, of rm False] obtain tr5 where
    5: "LSM9DS1_enableFIFO rm False s5 = advance 1 tr5 s5" ..
  have m6: "commInterface (device (settings (advance 1 tr5 s5))) = IMU_MODE_I2C"
    using m5 by (simp add: advance_fields)
  from setFIFO_adv [OF m6, of rm "FIFO_OFF rm" "0x00"] obtain tr6 where
    6: "LSM9DS1_setFIFO rm (FIFO_OFF rm) 0x00 (advance 1 tr5 s5) = advance 0 tr6 (advance 1 tr5 s5)" ..
  define s7 where "s7 = advance 0 tr6 (advance 1 tr5 s5)"
  define s' where "s' = (if autoCalc then s7\<lparr>u_autoCalc := True\<rparr> else s7)"
  have c: "LSM9DS1_calibrate rm autoCalc s = Some (Inr s')"
    by (simp only: LSM9DS1_calibrate_def Let_def w option.case prod.case a sum.case
          s5_def [symmetric] 5 6 s7_def [symmetric] s'_def [symmetric])
  have b7: "rx (bus s') = rx (bus s)" "reads (bus s') = ?p + 2 * ?n + 1"
    by (simp_all add: s'_def s7_def advance_fields b5 s4_def f3)
  from c ok obtain N' s3' aT' gT' s4' where
    w': "calibrate_wait rm 0 ?S2 = Some (N', s3')"
    and a': "calibrate_accumulate rm (unat N') ([0, 0, 0], [0, 0, 0], s3') = Inr (aT', gT', s4')"
    and gr: "gBiasRaw s' = [bias_of_sum (gT' ! 0) N', bias_of_sum (gT' ! 1) N', bias_of_sum (gT' ! 2) N']"
    and ar: "aBiasRaw s' = [bias_of_sum (aT' ! 0) N', bias_of_sum (aT' ! 1) N', bias_of_sum (aT' ! 2) N']"
    by (rule calibrate_result)
  from w' [unfolded w] have N': "N' = ?N" and s3': "s3' = s3" by simp_all
  from a' [unfolded N' s3' a] have aT': "aT' = aT" and gT': "gT' = gT" by simp_all
  have n63: "?n \<le> 63" unfolding fifo_level_def by (rule fifo_count_bounds(1))
  have gb: "bias_of_sum (word_of_int (gyro_total s ?p ?n i)) ?N
              = word_of_int (gyro_total s ?p ?n i sdiv int ?n)" for i
    using gyro_total_bounds [where n = ?n and s = s and p = ?p and i = i]
    by (intro bias_of_sum_total [OF _ _ n63]) linarith+
  have ab: "bias_of_sum (word_of_int (accel_total s g ?p ?n i)) ?N
              = word_of_int (accel_total s g ?p ?n i sdiv int ?n)" for i
    using accel_total_bounds [where n = ?n and s = s and p = ?p and i = i and g = g]
    by (intro bias_of_sum_total [OF _ _ n63])
  have gn: "gT ! 0 = word_of_int (gyro_total s ?p ?n 0)"
    "gT ! 1 = word_of_int (gyro_total s ?p ?n 1)" "gT ! 2 = word_of_int (gyro_total s ?p ?n 2)"
    by (simp_all add: gT_def)
  have an: "aT ! 0 = word_of_int (accel_total s g ?p ?n 0)"
    "aT ! 1 = word_of_int (accel_total s g ?p ?n 1)" "aT ! 2 = word_of_int (accel_total s g ?p ?n 2)"
    by (simp_all add: aT_def)
  have G: "gBiasRaw s' = [word_of_int (gyro_total s ?p ?n 0 sdiv int ?n),
      word_of_int (gyro_total s ?p ?n 1 sdiv int ?n), word_of_int (gyro_total s ?p ?n 2 sdiv int ?n)]"
    unfolding gr N' gT' gn gb ..
  have A: "aBiasRaw s' = [word_of_int (accel_total s g ?p ?n 0 sdiv int ?n),
      word_of_int (accel_total s g ?p ?n 1 sdiv int ?n),
      word_of_int (accel_total s g ?p ?n 2 sdiv int ?n)]"
    unfolding ar N' aT' an ab ..
  from c G A b7 show ?thesis
    by (intro exI [of _ s']) simp
qed


lemma readings_without_autoCalc:
  "\<not> u_autoCalc s \<Longrightarrow> gyro_reading s n = triplet (rx (bus s) n)"
  "\<not> u_autoCalc s \<Longrightarrow> accel_reading s n = triplet (rx (bus s) n)"
  by (simp_all add: gyro_reading_def accel_reading_def split_def)

lemma gyro_total_const:
  assumes "\<forall>j<n. gyro_reading s (p + 2 * j) = t"
  shows "gyro_total s p n i = int n * sint (nth3 t i)"
  unfolding gyro_total_def using assms by simp

lemma accel_total_const:
  assumes "\<forall>j<n. accel_reading s (p + 2 * j + 1) = t"
  shows "accel_total s g p n i =
           int n * (sint (nth3 t i) - (if i = 2 then sint g else 0))"
  unfolding accel_total_def using assms by simp

lemma one_neq_numeral2: "(1::nat) \<noteq> 2"
  by simp

lemma word_of_int_sint_diff: "(word_of_int (sint (a::i16) - sint (b::i16)) :: i16) = a - b"
  by simp


lemma sums_without_autoCalc:
  assumes "\<not> u_autoCalc s"
  shows "gyro_total s p n i = gyro_sum s p n i" "accel_total s g p n i = accel_sum s g p n i"
  unfolding gyro_total_def gyro_sum_def accel_total_def accel_sum_def fifo_gyro_def fifo_accel_def
    readings_without_autoCalc [OF assms]
  by (rule refl)+

lemma gyro_sum_const:
  assumes "\<forall>j<n. fifo_gyro s p j = t"
  shows "gyro_sum s p n i = int n * sint (nth3 t i)"
  unfolding gyro_sum_def using assms by simp

lemma accel_sum_const:
  assumes "\<forall>j<n. fifo_accel s p j = t"
  shows "accel_sum s g p n i = int n * (sint (nth3 t i) - (if i = 2 then sint g else 0))"
  unfolding accel_sum_def using assms by simp

section \<open>Gyroscope and accelerometer bias\<close>

text \<open>
  C1, as the code has it.  Let \<open>LSM9DS1_calibrate\<close> be called on the I2C bus with
  auto-calibration off and with \<open>(int16_t)(1./aRes)\<close> defined, its value being
  \<open>one_g\<close>; let the first \<open>m\<close> polls of \<open>FIFO_SRC\<close> report a level below 31 and the
  next one a level \<open>N\<close> of 31 or more (\<open>N\<close> is at most 63).  Then the call returns, and
  for the \<open>N\<close> gyroscope and \<open>N\<close> accelerometer samples of the FIFO batch: the raw
  gyroscope bias of each axis, and the raw accelerometer bias of X and Y, are the sums
  of the samples divided by \<open>N\<close> with truncation towards zero; the raw accelerometer
  bias of Z is that quotient of the sum of \<open>az - (int16_t)(1./aRes)\<close>, reduced to 16
  bits, and is the quotient itself whenever the quotient fits an \<open>int16_t\<close>.  When all
  samples of the batch are equal to \<open>(gx, gy, gz)\<close> and \<open>(ax, ay, az)\<close>, the published
  raw biases are \<open>(gx, gy, gz)\<close> and \<open>(ax, ay, az - (int16_t)(1./aRes))\<close>, the last
  difference taken in 16 bits.
\<close>

theorem calibrate_publishes_truncated_means:
  assumes "commInterface (device (settings s)) = IMU_MODE_I2C"
    and "arrays_ok s"
    and "\<not> u_autoCalc s"
    and "one_g_raw (aRes s) = Some one_g"
    and "\<forall>k<m. fifo_level s k < 0x1F"
    and "\<not> fifo_level s m < 0x1F"
  shows "\<exists>s'. LSM9DS1_calibrate rm autoCalc s = Some (Inr s') \<and>
     31 \<le> unat (fifo_level s m) \<and> unat (fifo_level s m) \<le> 63 \<and>
     sint (gBiasRaw s' ! 0) =
       gyro_sum s (batch_start s m) (unat (fifo_level s m)) 0 sdiv int (unat (fifo_level s m)) \<and>
     sint (gBiasRaw s' ! 1) =
       gyro_sum s (batch_start s m) (unat (fifo_level s m)) 1 sdiv int (unat (fifo_level s m)) \<and>
     sint (gBiasRaw s' ! 2) =
       gyro_sum s (batch_start s m) (unat (fifo_level s m)) 2 sdiv int (unat (fifo_level s m)) \<and>
     sint (aBiasRaw s' ! 0) =
       accel_sum s one_g (batch_start s m) (unat (fifo_level s m)) 0
         sdiv int (unat (fifo_level s m)) \<and>
     sint (aBiasRaw s' ! 1) =
       accel_sum s one_g (batch_start s m) (unat (fifo_level s m)) 1
         sdiv int (unat (fifo_level s m)) \<and>
     aBiasRaw s' ! 2 =
       word_of_int (accel_sum s one_g (batch_start s m) (unat (fifo_level s m)) 2
                    sdiv int (unat (fifo_level s m))) \<and>
     (- 32768 \<le> accel_sum s one_g (batch_start s m) (unat (fifo_level s m)) 2
                  sdiv int (unat (fifo_level s m)) \<and>
      accel_sum s one_g (batch_start s m) (unat (fifo_level s m)) 2
        sdiv int (unat (fifo_level s m)) \<le> 32767 \<longrightarrow>
      sint (aBiasRaw s' ! 2) =
        accel_sum s one_g (batch_start s m) (unat (fifo_level s m)) 2
          sdiv int (unat (fifo_level s m))) \<and>
     ((\<forall>j<unat (fifo_level s m).
          fifo_gyro s (batch_start s m) j = (gx, gy, gz) \<and>
          fifo_accel s (batch_start s m) j = (ax, ay, az)) \<longrightarrow>
      gBiasRaw s' = [gx, gy, gz] \<and> aBiasRaw s' = [ax, ay, az - one_g])"
proof -
  let ?N = "fifo_level s m"
  let ?n = "unat ?N"
  let ?p = "batch_start s m"
  note na = assms(3)
  from calibrate_I2C [OF assms(1,2,5,6,4), of rm autoCalc]
  obtain s' where c: "LSM9DS1_calibrate rm autoCalc s = Some (Inr s')"
    and G: "gBiasRaw s' = map (\<lambda>i. word_of_int (gyro_sum s ?p ?n i sdiv int ?n)) [0, 1, 2]"
    and A: "aBiasRaw s' = map (\<lambda>i. word_of_int (accel_sum s one_g ?p ?n i sdiv int ?n)) [0, 1, 2]"
    unfolding sums_without_autoCalc [OF na] by blast
  have n31: "31 \<le> ?n"
    using assms(6) unfolding fifo_level_def by (rule fifo_count_bounds(2))
  have n63: "?n \<le> 63" unfolding fifo_level_def by (rule fifo_count_bounds(1))
  from n31 have n0: "0 < ?n" by simp
  have G': "gBiasRaw s' ! 0 = word_of_int (gyro_sum s ?p ?n 0 sdiv int ?n)"
    "gBiasRaw s' ! 1 = word_of_int (gyro_sum s ?p ?n 1 sdiv int ?n)"
    "gBiasRaw s' ! 2 = word_of_int (gyro_sum s ?p ?n 2 sdiv int ?n)"
    unfolding G by simp_all
  have A': "aBiasRaw s' ! 0 = word_of_int (accel_sum s one_g ?p ?n 0 sdiv int ?n)"
    "aBiasRaw s' ! 1 = word_of_int (accel_sum s one_g ?p ?n 1 sdiv int ?n)"
    "aBiasRaw s' ! 2 = word_of_int (accel_sum s one_g ?p ?n 2 sdiv int ?n)"
    unfolding A by simp_all
  note gb = gyro_total_bounds [where n = ?n and s = s and p = ?p,
                unfolded sums_without_autoCalc [OF na]]
  note ab = accel_total_bounds_xy [where n = ?n and s = s and g = one_g and p = ?p,
                unfolded sums_without_autoCalc [OF na]]
  have g: "sint (gBiasRaw s' ! 0) = gyro_sum s ?p ?n 0 sdiv int ?n"
    "sint (gBiasRaw s' ! 1) = gyro_sum s ?p ?n 1 sdiv int ?n"
    "sint (gBiasRaw s' ! 2) = gyro_sum s ?p ?n 2 sdiv int ?n"
    unfolding G' by (rule sint_bias_in_range [OF gb n0])+
  have axy: "sint (aBiasRaw s' ! 0) = accel_sum s one_g ?p ?n 0 sdiv int ?n"
    "sint (aBiasRaw s' ! 1) = accel_sum s one_g ?p ?n 1 sdiv int ?n"
    unfolding A'
    by (rule sint_bias_in_range [OF ab [OF zero_neq_numeral] n0],
        rule sint_bias_in_range [OF ab [OF one_neq_numeral2] n0])
  have az: "sint (aBiasRaw s' ! 2) = accel_sum s one_g ?p ?n 2 sdiv int ?n"
    if "- 32768 \<le> accel_sum s one_g ?p ?n 2 sdiv int ?n \<and>
        accel_sum s one_g ?p ?n 2 sdiv int ?n \<le> 32767"
    unfolding A' using that by (intro sint_word_of_int_i16) simp_all
  have same: "gBiasRaw s' = [gx, gy, gz] \<and> aBiasRaw s' = [ax, ay, az - one_g]"
    if h: "\<forall>j<?n. fifo_gyro s ?p j = (gx, gy, gz) \<and> fifo_accel s ?p j = (ax, ay, az)"
  proof -
    from h have gt: "\<forall>j<?n. fifo_gyro s ?p j = (gx, gy, gz)"
      and at: "\<forall>j<?n. fifo_accel s ?p j = (ax, ay, az)"
      by simp_all
    from n0 have n0': "0 < int ?n" by linarith
    have "gBiasRaw s' = [gx, gy, gz]"
      unfolding G gyro_sum_const [OF gt] sdiv_mult_self [OF n0'] by simp
    moreover have "aBiasRaw s' = [ax, ay, az - one_g]"
      unfolding A accel_sum_const [OF at] sdiv_mult_self [OF n0'] by simp
    ultimately show ?thesis by simp
  qed
  from c n31 n63 g axy A'(3) az same
  show ?thesis by (intro exI [of _ s']) simp
qed


lemma example_driver_arrays_ok: "arrays_ok (example_driver m f)"
  by (simp add: arrays_ok_def example_driver_fields)

lemma fifo_of_identical_triplets:
  "triplet (fifo_of_identical [g0, g1, g2, g3, g4, g5] a (2 + 2 * j)) =
     (int16_of_bytes g1 g0, int16_of_bytes g3 g2, int16_of_bytes g5 g4)"
  "triplet (fifo_of_identical g [a0, a1, a2, a3, a4, a5] (2 + 2 * j + 1)) =
     (int16_of_bytes a1 a0, int16_of_bytes a3 a2, int16_of_bytes a5 a4)"
  by (simp_all add: triplet_def fifo_of_identical_def)

lemma one_g_at_2g: "one_g_raw SENSITIVITY_ACCELEROMETER_2 = Some 16393"
  by (simp add: one_g_raw_def int16_of_double_def SENSITIVITY_ACCELEROMETER_2_def Let_def)

lemma calibrate_identical:
  fixes g0 g1 g2 g3 g4 g5 a0 a1 a2 a3 a4 a5 :: u8
  assumes i2c: "commInterface (device (settings s)) = IMU_MODE_I2C" and ok: "arrays_ok s"
    and rx: "rx (bus s) = fifo_of_identical [g0, g1, g2, g3, g4, g5] [a0, a1, a2, a3, a4, a5]"
    and r0: "reads (bus s) = 0"
    and og: "one_g_raw (aRes s) = Some g"
  shows "\<exists>s'. LSM9DS1_calibrate rm autoCalc s = Some (Inr s') \<and>
     gBiasRaw s' = [nth3 (gyro_reading s 2) 0, nth3 (gyro_reading s 2) 1,
                    nth3 (gyro_reading s 2) 2] \<and>
     aBiasRaw s' = [nth3 (accel_reading s 3) 0, nth3 (accel_reading s 3) 1,
                    nth3 (accel_reading s 3) 2 - g] \<and>
     rx (bus s') = rx (bus s) \<and> reads (bus s') = 65"
proof -
  have l: "fifo_level s 0 = 31" "batch_start s 0 = 2"
    by (simp_all add: fifo_level_def batch_start_def rx r0 fifo_of_identical_def)
  have polls: "\<forall>k<0. fifo_level s k < 0x1F" by simp
  have last: "\<not> fifo_level s 0 < 0x1F" by (simp add: l)
  have n: "unat (31 :: u8) = 31" by simp
  from calibrate_I2C [OF i2c ok polls last og, of rm autoCalc]
  obtain s' where c: "LSM9DS1_calibrate rm autoCalc s = Some (Inr s')"
    and G: "gBiasRaw s' = map (\<lambda>i. word_of_int (gyro_total s 2 31 i sdiv int 31)) [0, 1, 2]"
    and A: "aBiasRaw s' = map (\<lambda>i. word_of_int (accel_total s g 2 31 i sdiv int 31)) [0, 1, 2]"
    and b: "rx (bus s') = rx (bus s)" "reads (bus s') = 2 + 2 * 31 + 1"
    unfolding l n by blast
  have tg: "triplet (rx (bus s) (2 + 2 * j)) = triplet (rx (bus s) 2)" for j
    unfolding rx fifo_of_identical_triplets(1)
    using fifo_of_identical_triplets(1) [of g0 g1 g2 g3 g4 g5 "[a0, a1, a2, a3, a4, a5]" 0]
    by simp
  have ta: "triplet (rx (bus s) (2 + 2 * j + 1)) = triplet (rx (bus s) 3)" for j
    unfolding rx fifo_of_identical_triplets(2)
    using fifo_of_identical_triplets(2) [of "[g0, g1, g2, g3, g4, g5]" a0 a1 a2 a3 a4 a5 0]
    by simp
  have gt: "\<forall>j<31. gyro_reading s (2 + 2 * j) = gyro_reading s 2"
    unfolding gyro_reading_def tg by simp
  have at: "\<forall>j<31. accel_reading s (2 + 2 * j + 1) = accel_reading s 3"
    unfolding accel_reading_def ta by simp
  have p: "0 < int 31" by simp
  have g: "gBiasRaw s' = [nth3 (gyro_reading s 2) 0, nth3 (gyro_reading s 2) 1,
                          nth3 (gyro_reading s 2) 2]"
    unfolding G gyro_total_const [OF gt] sdiv_mult_self [OF p] by simp
  have a: "aBiasRaw s' = [nth3 (accel_reading s 3) 0, nth3 (accel_reading s 3) 1,
                          nth3 (accel_reading s 3) 2 - g]"
    unfolding A accel_total_const [OF at] sdiv_mult_self [OF p] by simp
  from c g a b show ?thesis by (intro exI [of _ s']) simp
qed


lemma example_driver_one_g: "one_g_raw (aRes (example_driver m f)) = Some 16393"
  by (simp add: example_driver_fields one_g_at_2g)

lemma fifo_of_identical_samples:
  "fifo_gyro (example_driver m (fifo_of_identical [g0, g1, g2, g3, g4, g5] a)) 2 j =
     (int16_of_bytes g1 g0, int16_of_bytes g3 g2, int16_of_bytes g5 g4)"
  "fifo_accel (example_driver m (fifo_of_identical g [a0, a1, a2, a3, a4, a5])) 2 j =
     (int16_of_bytes a1 a0, int16_of_bytes a3 a2, int16_of_bytes a5 a4)"
  unfolding fifo_gyro_def fifo_accel_def example_driver_bus i2c_bus.simps
  by (rule fifo_of_identical_triplets)+

lemma fifo_of_identical_level:
  "fifo_level (example_driver m (fifo_of_identical g a)) 0 = 31"
  "batch_start (example_driver m (fifo_of_identical g a)) 0 = 2"
  by (simp_all add: fifo_level_def batch_start_def example_driver_bus fifo_of_identical_def)

lemma calibrated_example_fields:
  "commInterface (device (settings calibrated_example)) = IMU_MODE_I2C"
  "arrays_ok calibrated_example"
  "rx (bus calibrated_example) = fifo_of_identical [1, 0, 2, 0, 3, 0] [10, 0, 20, 0, 0x0E, 0x40]"
  "reads (bus calibrated_example) = 0"
  "one_g_raw (aRes calibrated_example) = Some 16393"
  "u_autoCalc calibrated_example"
  "gBiasRaw calibrated_example = [1, 2, 3]" "aBiasRaw calibrated_example = [10, 20, 5]"
  using example_driver_arrays_ok [of IMU_MODE_I2C
          "fifo_of_identical [1, 0, 2, 0, 3, 0] [10, 0, 20, 0, 0x0E, 0x40]"]
  by (simp_all add: calibrated_example_def example_driver_mode example_driver_bus
        example_driver_one_g arrays_ok_def)

text \<open>
  Two runs at 2 g on a FIFO of 31 identical entries.  With the accelerometer Z sample
  -32768 and auto-calibration off, the quotient of the sum of
  \<open>az - (int16_t)(1./aRes)\<close> by 31 is -49161 and the published raw Z bias is 16375.
  With auto-calibration already on and the raw biases \<open>(1, 2, 3)\<close> and \<open>(10, 20, 5)\<close>
  stored, the gyroscope samples \<open>(1, 2, 3)\<close> have the means 1, 2 and 3 and the published
  raw biases are all zero.
\<close>

theorem calibrate_bias_is_not_always_the_fifo_mean:
  "one_g_raw (aRes (example_driver IMU_MODE_I2C
        (fifo_of_identical [0, 0, 0, 0, 0, 0] [0, 0, 0, 0, 0x00, 0x80]))) = Some 16393 \<and>
   \<not> u_autoCalc (example_driver IMU_MODE_I2C
        (fifo_of_identical [0, 0, 0, 0, 0, 0] [0, 0, 0, 0, 0x00, 0x80])) \<and>
   unat (fifo_level (example_driver IMU_MODE_I2C
        (fifo_of_identical [0, 0, 0, 0, 0, 0] [0, 0, 0, 0, 0x00, 0x80])) 0) = 31 \<and>
   accel_sum (example_driver IMU_MODE_I2C
        (fifo_of_identical [0, 0, 0, 0, 0, 0] [0, 0, 0, 0, 0x00, 0x80])) 16393 2 31 2 sdiv 31
     = - 49161 \<and>
   map_option (map_sum id aBiasRaw)
     (LSM9DS1_calibrate example_registers False
        (example_driver IMU_MODE_I2C
           (fifo_of_identical [0, 0, 0, 0, 0, 0] [0, 0, 0, 0, 0x00, 0x80])))
     = Some (Inr [0, 0, 16375]) \<and>
   u_autoCalc calibrated_example \<and>
   unat (fifo_level calibrated_example 0) = 31 \<and>
   gyro_sum calibrated_example 2 31 0 sdiv 31 = 1 \<and>
   gyro_sum calibrated_example 2 31 1 sdiv 31 = 2 \<and>
   gyro_sum calibrated_example 2 31 2 sdiv 31 = 3 \<and>
   map_option (map_sum id gBiasRaw) (LSM9DS1_calibrate example_registers True calibrated_example)
     = Some (Inr [0, 0, 0]) \<and>
   map_option (map_sum id aBiasRaw) (LSM9DS1_calibrate example_registers True calibrated_example)
     = Some (Inr [0, 0, 0])"
proof -
  let ?f = "fifo_of_identical [0, 0, 0, 0, 0, 0] [0, 0, 0, 0, 0x00, 0x80]"
  let ?s = "example_driver IMU_MODE_I2C ?f"
  have p: "0 < (31 :: int)" by simp
  have i2c: "commInterface (device (settings ?s)) = IMU_MODE_I2C" by (rule example_driver_mode)
  have ok: "arrays_ok ?s" by (rule example_driver_arrays_ok)
  have rx: "rx (bus ?s) = ?f" and r0: "reads (bus ?s) = 0"
    by (simp_all add: example_driver_bus)
  have og: "one_g_raw (aRes ?s) = Some 16393" by (rule example_driver_one_g)
  have na: "\<not> u_autoCalc ?s" by (simp add: example_driver_fields)
  have l: "unat (fifo_level ?s 0) = 31" by (simp add: fifo_of_identical_level)
  have t: "\<forall>j<31. fifo_accel ?s 2 j = (0, 0, - 32768)"
    unfolding fifo_of_identical_samples by (simp add: int16_of_bytes_def)
  have q: "accel_sum ?s 16393 2 31 2 sdiv 31 = - 49161"
  proof -
    have "accel_sum ?s 16393 2 31 2 = 31 * (- 49161)"
      unfolding accel_sum_const [OF t] by simp
    then show ?thesis by (simp only: sdiv_mult_self [OF p])
  qed
  from calibrate_identical [OF i2c ok rx r0 og, of example_registers False]
  obtain s' where c: "LSM9DS1_calibrate example_registers False ?s = Some (Inr s')"
    and A: "aBiasRaw s' = [nth3 (accel_reading ?s 3) 0, nth3 (accel_reading ?s 3) 1,
                           nth3 (accel_reading ?s 3) 2 - 16393]"
    by blast
  have "accel_reading ?s 3 = (0, 0, - 32768)"
    unfolding readings_without_autoCalc [OF na] rx
    using fifo_of_identical_triplets(2) [of "[0, 0, 0, 0, 0, 0]" 0 0 0 0 "0x00" "0x80" 0]
    by (simp add: int16_of_bytes_def)
  with A have a: "aBiasRaw s' = [0, 0, 16375]" by simp
  have z: "map_option (map_sum id aBiasRaw) (LSM9DS1_calibrate example_registers False ?s)
             = Some (Inr [0, 0, 16375])"
    unfolding c using a by simp
  note e = calibrated_example_fields
  have l2: "unat (fifo_level calibrated_example 0) = 31"
    by (simp add: fifo_level_def e fifo_of_identical_def)
  have t2: "\<forall>j<31. fifo_gyro calibrated_example 2 j = (1, 2, 3)"
    unfolding fifo_gyro_def e fifo_of_identical_triplets by (simp add: int16_of_bytes_def)
  have m: "gyro_sum calibrated_example 2 31 0 sdiv 31 = 1"
    "gyro_sum calibrated_example 2 31 1 sdiv 31 = 2"
    "gyro_sum calibrated_example 2 31 2 sdiv 31 = 3"
    unfolding gyro_sum_const [OF t2] using sdiv_mult_self [OF p] by simp_all
  from calibrate_identical [OF e(1,2,3,4,5), of example_registers True]
  obtain s2 where c2: "LSM9DS1_calibrate example_registers True calibrated_example = Some (Inr s2)"
    and G2: "gBiasRaw s2 = [nth3 (gyro_reading calibrated_example 2) 0,
                            nth3 (gyro_reading calibrated_example 2) 1,
                            nth3 (gyro_reading calibrated_example 2) 2]"
    and A2: "aBiasRaw s2 = [nth3 (accel_reading calibrated_example 3) 0,
                            nth3 (accel_reading calibrated_example 3) 1,
                            nth3 (accel_reading calibrated_example 3) 2 - 16393]"
    by blast
  have tg: "triplet (rx (bus calibrated_example) 2) = (1, 2, 3)"
    unfolding e using fifo_of_identical_triplets(1) [of 1 0 2 0 3 0 "[10, 0, 20, 0, 0x0E, 0x40]" 0]
    by (simp add: int16_of_bytes_def)
  have ta: "triplet (rx (bus calibrated_example) 3) = (10, 20, 16398)"
    unfolding e using fifo_of_identical_triplets(2) [of "[1, 0, 2, 0, 3, 0]" 10 0 20 0 "0x0E" "0x40" 0]
    by (simp add: int16_of_bytes_def)
  have "gyro_reading calibrated_example 2 = (0, 0, 0)"
    unfolding gyro_reading_def tg by (simp add: e)
  with G2 have g2: "gBiasRaw s2 = [0, 0, 0]" by simp
  have "accel_reading calibrated_example 3 = (0, 0, 16393)"
    unfolding accel_reading_def ta by (simp add: e)
  with A2 have a2: "aBiasRaw s2 = [0, 0, 0]" by simp
  have z2: "map_option (map_sum id gBiasRaw)
              (LSM9DS1_calibrate example_registers True calibrated_example) = Some (Inr [0, 0, 0])"
    "map_option (map_sum id aBiasRaw)
              (LSM9DS1_calibrate example_registers True calibrated_example) = Some (Inr [0, 0, 0])"
    unfolding c2 using g2 a2 by simp_all
  from og na l q z e(6) l2 m z2 show ?thesis by (intro conjI)
qed

theorem calibrate_publishes_truncated_means_witness:
  "commInterface (device (settings (example_driver IMU_MODE_I2C
      (fifo_of_identical [1, 0, 2, 0, 3, 0] [10, 0, 20, 0, 0x0E, 0x40])))) = IMU_MODE_I2C \<and>
   arrays_ok (example_driver IMU_MODE_I2C
      (fifo_of_identical [1, 0, 2, 0, 3, 0] [10, 0, 20, 0, 0x0E, 0x40])) \<and>
   \<not> u_autoCalc (example_driver IMU_MODE_I2C
      (fifo_of_identical [1, 0, 2, 0, 3, 0] [10, 0, 20, 0, 0x0E, 0x40])) \<and>
   one_g_raw (aRes (example_driver IMU_MODE_I2C
      (fifo_of_identical [1, 0, 2, 0, 3, 0] [10, 0, 20, 0, 0x0E, 0x40]))) = Some 16393 \<and>
   fifo_level (example_driver IMU_MODE_I2C
      (fifo_of_identical [1, 0, 2, 0, 3, 0] [10, 0, 20, 0, 0x0E, 0x40])) 0 = 31 \<and>
   fifo_gyro (example_driver IMU_MODE_I2C
      (fifo_of_identical [1, 0, 2, 0, 3, 0] [10, 0, 20, 0, 0x0E, 0x40])) 2 30 = (1, 2, 3) \<and>
   fifo_accel (example_driver IMU_MODE_I2C
      (fifo_of_identical [1, 0, 2, 0, 3, 0] [10, 0, 20, 0, 0x0E, 0x40])) 2 30 = (10, 20, 16398) \<and>
   map_option (map_sum id gBiasRaw)
     (LSM9DS1_calibrate example_registers True (example_driver IMU_MODE_I2C
        (fifo_of_identical [1, 0, 2, 0, 3, 0] [10, 0, 20, 0, 0x0E, 0x40]))) = Some (Inr [1, 2, 3]) \<and>
   map_option (map_sum id aBiasRaw)
     (LSM9DS1_calibrate example_registers True (example_driver IMU_MODE_I2C
        (fifo_of_identical [1, 0, 2, 0, 3, 0] [10, 0, 20, 0, 0x0E, 0x40]))) = Some (Inr [10, 20, 5])"
proof -
  let ?s = "example_driver IMU_MODE_I2C
              (fifo_of_identical [1, 0, 2, 0, 3, 0] [10, 0, 20, 0, 0x0E, 0x40])"
  have i2c: "commInterface (device (settings ?s)) = IMU_MODE_I2C" by (rule example_driver_mode)
  have ok: "arrays_ok ?s" by (rule example_driver_arrays_ok)
  have na: "\<not> u_autoCalc ?s" by (simp add: example_driver_fields)
  have og: "one_g_raw (aRes ?s) = Some 16393" by (rule example_driver_one_g)
  have l: "fifo_level ?s 0 = 31" by (rule fifo_of_identical_level)
  have polls: "\<forall>k<0. fifo_level ?s k < 0x1F" by simp
  have last: "\<not> fifo_level ?s 0 < 0x1F" by (simp add: l)
  have tg: "fifo_gyro ?s 2 j = (1, 2, 3)" for j
    unfolding fifo_of_identical_samples by (simp add: int16_of_bytes_def)
  have ta: "fifo_accel ?s 2 j = (10, 20, 16398)" for j
    unfolding fifo_of_identical_samples by (simp add: int16_of_bytes_def)
  have t: "\<forall>j<unat (fifo_level ?s 0).
          fifo_gyro ?s (batch_start ?s 0) j = (1, 2, 3) \<and>
          fifo_accel ?s (batch_start ?s 0) j = (10, 20, 16398)"
    unfolding fifo_of_identical_level tg ta by simp
  from calibrate_publishes_truncated_means [OF i2c ok na og polls last,
         of example_registers True 1 2 3 10 20 16398] t
  obtain s' where c: "LSM9DS1_calibrate example_registers True ?s = Some (Inr s')"
    and g: "gBiasRaw s' = [1, 2, 3]"
    and a: "aBiasRaw s' = [10, 20, 16398 - 16393]"
    by blast
  from a have a': "aBiasRaw s' = [10, 20, 5]" by simp
  have r: "map_option (map_sum id gBiasRaw) (LSM9DS1_calibrate example_registers True ?s)
             = Some (Inr [1, 2, 3])"
    "map_option (map_sum id aBiasRaw) (LSM9DS1_calibrate example_registers True ?s)
             = Some (Inr [10, 20, 5])"
    unfolding c using g a' by simp_all
  from i2c ok na og l tg [of 30] ta [of 30] r show ?thesis by (intro conjI)
qed


section \<open>Reads after calibration with auto-calibration\<close>

lemma same_calibration_refl: "same_calibration s s"
  by (simp add: same_calibration_def)

lemma same_calibration_trans:
  "same_calibration s t \<Longrightarrow> same_calibration t u \<Longrightarrow> same_calibration s u"
  by (simp add: same_calibration_def)

lemma bus_only_same_calibration: "only_bus_changed s t \<Longrightarrow> same_calibration s t"
  unfolding same_calibration_def by (simp add: only_bus_changed_fields)

lemma setters_same_calibration:
  "same_calibration s (LSM9DS1_setGyroScale rm gScl s)"
  "same_calibration s (LSM9DS1_setAccelScale rm aScl s)"
  "same_calibration s (LSM9DS1_setMagScale rm mScl s)"
  "same_calibration s (LSM9DS1_setGyroODR rm gRate s)"
  "same_calibration s (LSM9DS1_setAccelODR rm aRate s)"
  "same_calibration s (LSM9DS1_setMagODR rm mRate s)"
proof -
  have x: "same_calibration s (snd (LSM9DS1_xgReadByte r s))" for r
    by (rule bus_only_same_calibration [OF xgReadByte_frame])
  have m: "same_calibration s (snd (LSM9DS1_mReadByte r s))" for r
    by (rule bus_only_same_calibration [OF mReadByte_frame])
  have xw: "same_calibration t (LSM9DS1_xgWriteByte r d t)" for r d t
    by (rule bus_only_same_calibration [OF xgWriteByte_frame])
  have mw: "same_calibration t (LSM9DS1_mWriteByte r d t)" for r d t
    by (rule bus_only_same_calibration [OF mWriteByte_frame])
  have g: "same_calibration t
             (t\<lparr>settings := (settings t)\<lparr>gyro := (gyro (settings t))\<lparr>gyro_scale := v\<rparr>\<rparr>\<rparr>)"
    "same_calibration t
             (t\<lparr>settings := (settings t)\<lparr>gyro := (gyro (settings t))\<lparr>gyro_sampleRate := w\<rparr>\<rparr>\<rparr>)"
    "same_calibration t
             (t\<lparr>settings := (settings t)\<lparr>accel := (accel (settings t))\<lparr>accel_scale := w\<rparr>\<rparr>\<rparr>)"
    "same_calibration t
             (t\<lparr>settings := (settings t)\<lparr>accel := (accel (settings t))\<lparr>accel_sampleRate := w\<rparr>\<rparr>\<rparr>)"
    "same_calibration t
             (t\<lparr>settings := (settings t)\<lparr>mag := (mag (settings t))\<lparr>mag_scale := w\<rparr>\<rparr>\<rparr>)"
    "same_calibration t
             (t\<lparr>settings := (settings t)\<lparr>mag := (mag (settings t))\<lparr>mag_sampleRate := w\<rparr>\<rparr>\<rparr>)"
    for t v w
    by (simp_all add: same_calibration_def)
  have c: "same_calibration t (snd (LSM9DS1_calcgRes t))"
    "same_calibration t (snd (LSM9DS1_calcaRes t))"
    "same_calibration t (snd (LSM9DS1_calcmRes t))" for t
    by (simp_all add: same_calibration_def LSM9DS1_calcgRes_def LSM9DS1_calcaRes_def
          LSM9DS1_calcmRes_def Let_def)
  note tr = same_calibration_trans
  show "same_calibration s (LSM9DS1_setGyroScale rm gScl s)"
    unfolding LSM9DS1_setGyroScale_def Let_def split_def
    by (rule tr [OF tr [OF tr [OF x g(1)] xw] c(1)])
  show "same_calibration s (LSM9DS1_setAccelScale rm aScl s)"
    unfolding LSM9DS1_setAccelScale_def Let_def split_def
    by (rule tr [OF tr [OF tr [OF x g(3)] xw] c(2)])
  show "same_calibration s (LSM9DS1_setMagScale rm mScl s)"
    unfolding LSM9DS1_setMagScale_def Let_def split_def
    by (rule tr [OF tr [OF tr [OF m g(5)] mw] c(3)])
  show "same_calibration s (LSM9DS1_setGyroODR rm gRate s)"
    unfolding LSM9DS1_setGyroODR_def Let_def split_def
    by (auto intro: tr [OF tr [OF x g(2)] xw] same_calibration_refl)
  show "same_calibration s (LSM9DS1_setAccelODR rm aRate s)"
    unfolding LSM9DS1_setAccelODR_def Let_def split_def
    by (auto intro: tr [OF tr [OF x g(4)] xw] same_calibration_refl)
  show "same_calibration s (LSM9DS1_setMagODR rm mRate s)"
    unfolding LSM9DS1_setMagODR_def Let_def split_def
    by (rule tr [OF tr [OF m g(6)] mw])
qed

lemma axis_readers_frame:
  "LSM9DS1_readGyroAxis rm axis s = Some (v, s') \<Longrightarrow> only_bus_changed s s'"
  "LSM9DS1_readAccelAxis rm axis s = Some (v, s') \<Longrightarrow> only_bus_changed s s'"
  "only_bus_changed s (snd (LSM9DS1_readMagAxis rm axis s))"
proof -
  have x: "only_bus_changed s (snd (snd (LSM9DS1_xgReadBytes r (temp_buffer 2) 2 s)))" for r
    by (rule xgReadBytes_frame)
  show "LSM9DS1_readGyroAxis rm axis s = Some (v, s') \<Longrightarrow> only_bus_changed s s'"
    using x unfolding LSM9DS1_readGyroAxis_def Let_def split_def
    by (auto split: if_splits)
  show "LSM9DS1_readAccelAxis rm axis s = Some (v, s') \<Longrightarrow> only_bus_changed s s'"
    using x unfolding LSM9DS1_readAccelAxis_def Let_def split_def
    by (auto split: if_splits)
  have "snd (LSM9DS1_readMagAxis rm axis s) =
          snd (snd (LSM9DS1_mReadBytes
                      (ucast ((ucast (OUT_X_L_M rm) :: i32) + 2 * of_nat (axis_value rm axis)))
                      (temp_buffer 2) 2 s))"
    by (simp add: LSM9DS1_readMagAxis_def Let_def split_def)
  then show "only_bus_changed s (snd (LSM9DS1_readMagAxis rm axis s))"
    by (simp add: mReadBytes_frame)
qed

lemma calibrateMag_same_calibration:
  assumes "LSM9DS1_calibrateMag rm loadIn s = Some s'"
  shows "same_calibration s s'"
proof -
  from assms obtain mn mx s1 where
    l: "calibrateMag_loop rm 128 ([0, 0, 0], [0, 0, 0], s) = Some (mn, mx, s1)"
    and r: "s' = fold (calibrateMag_publish rm loadIn mn mx) [0, 1, 2] s1"
    by (auto simp add: LSM9DS1_calibrateMag_def split: option.splits)
  have p: "same_calibration t (calibrateMag_publish rm loadIn mn mx j t)" for j t
    using calibrateMag_publish_step [of rm loadIn mn mx j t]
    by (auto simp add: same_calibration_def)
  have 1: "same_calibration s s1"
    by (rule bus_only_same_calibration [OF calibrateMag_loop_frame [OF l]])
  have 2: "same_calibration s1 s'"
    unfolding r
    by (simp only: fold_simps id_apply o_apply
          same_calibration_trans [OF same_calibration_trans [OF p p] p])
  from 1 2 show ?thesis by (rule same_calibration_trans)
qed

lemma later_same_calibration: "later rm s t \<Longrightarrow> same_calibration s t"
proof (induction rule: later.induct)
  case later_now
  show ?case by (rule same_calibration_refl)
next
  case (later_readGyro t out)
  show ?case
    by (rule same_calibration_trans [OF later_readGyro.IH bus_only_same_calibration [OF readGyro_frame]])
next
  case (later_readAccel t out)
  show ?case
    by (rule same_calibration_trans [OF later_readAccel.IH bus_only_same_calibration [OF readAccel_frame]])
next
  case (later_readMag t out)
  show ?case
    by (rule same_calibration_trans [OF later_readMag.IH bus_only_same_calibration [OF readMag_frame]])
next
  case (later_readGyroAxis t axis v t')
  from later_readGyroAxis.IH bus_only_same_calibration [OF axis_readers_frame(1) [OF later_readGyroAxis.hyps(2)]]
  show ?case by (rule same_calibration_trans)
next
  case (later_readAccelAxis t axis v t')
  from later_readAccelAxis.IH bus_only_same_calibration [OF axis_readers_frame(2) [OF later_readAccelAxis.hyps(2)]]
  show ?case by (rule same_calibration_trans)
next
  case (later_readMagAxis t axis)
  show ?case
    by (rule same_calibration_trans [OF later_readMagAxis.IH bus_only_same_calibration [OF axis_readers_frame(3)]])
next
  case (later_magAvailable t axis)
  show ?case
    by (rule same_calibration_trans [OF later_magAvailable.IH bus_only_same_calibration [OF magAvailable_frame]])
next
  case (later_setGyroScale t gScl)
  show ?case
    by (rule same_calibration_trans [OF later_setGyroScale.IH setters_same_calibration(1)])
next
  case (later_setAccelScale t aScl)
  show ?case
    by (rule same_calibration_trans [OF later_setAccelScale.IH setters_same_calibration(2)])
next
  case (later_setMagScale t mScl)
  show ?case
    by (rule same_calibration_trans [OF later_setMagScale.IH setters_same_calibration(3)])
next
  case (later_setGyroODR t gRate)
  show ?case
    by (rule same_calibration_trans [OF later_setGyroODR.IH setters_same_calibration(4)])
next
  case (later_setAccelODR t aRate)
  show ?case
    by (rule same_calibration_trans [OF later_setAccelODR.IH setters_same_calibration(5)])
next
  case (later_setMagODR t mRate)
  show ?case
    by (rule same_calibration_trans [OF later_setMagODR.IH setters_same_calibration(6)])
next
  case (later_enableFIFO t enable)
  show ?case
    by (rule same_calibration_trans [OF later_enableFIFO.IH bus_only_same_calibration [OF enableFIFO_frame]])
next
  case (later_setFIFO t fifoMode fifoThs)
  show ?case
    by (rule same_calibration_trans [OF later_setFIFO.IH bus_only_same_calibration [OF setFIFO_frame]])
next
  case (later_magOffset t axis offset)
  show ?case
    by (rule same_calibration_trans [OF later_magOffset.IH bus_only_same_calibration [OF magOffset_frame]])
next
  case (later_calibrateMag t loadIn t')
  from later_calibrateMag.IH calibrateMag_same_calibration [OF later_calibrateMag.hyps(2)]
  show ?case by (rule same_calibration_trans)
qed


lemma axis_readers_I2C:
  assumes "commInterface (device (settings s)) = IMU_MODE_I2C" and "u_autoCalc s"
    and "axis_value rm axis < 3"
  shows "map_option fst (LSM9DS1_readGyroAxis rm axis s) =
           Some (int16_of_bytes (rx (bus s) (reads (bus s)) 1) (rx (bus s) (reads (bus s)) 0)
                 - gBiasRaw s ! axis_value rm axis)"
    "map_option fst (LSM9DS1_readAccelAxis rm axis s) =
           Some (int16_of_bytes (rx (bus s) (reads (bus s)) 1) (rx (bus s) (reads (bus s)) 0)
                 - aBiasRaw s ! axis_value rm axis)"
  using assms
  by (simp_all add: LSM9DS1_readGyroAxis_def LSM9DS1_readAccelAxis_def xgReadBytes_I2C
        burst2_nth Let_def)

lemma autoCalc_reads_I2C:
  assumes i2c: "commInterface (device (settings t)) = IMU_MODE_I2C" and ac: "u_autoCalc t"
    and tr: "triplet (rx (bus t) (reads (bus t))) = (x, y, z)"
  shows "fst (LSM9DS1_readGyro rm out t) =
           (x - gBiasRaw t ! 0, y - gBiasRaw t ! 1, z - gBiasRaw t ! 2)"
    "fst (LSM9DS1_readAccel rm out t) =
           (x - aBiasRaw t ! 0, y - aBiasRaw t ! 1, z - aBiasRaw t ! 2)"
    "gBiasRaw t = [x, y, z] \<longrightarrow> fst (LSM9DS1_readGyro rm out t) = (0, 0, 0)"
    "aBiasRaw t = [x, y, z] \<longrightarrow> fst (LSM9DS1_readAccel rm out t) = (0, 0, 0)"
    "axis_value rm axis < 3 \<longrightarrow>
       map_option fst (LSM9DS1_readGyroAxis rm axis t) =
         Some (int16_of_bytes (rx (bus t) (reads (bus t)) 1) (rx (bus t) (reads (bus t)) 0)
               - gBiasRaw t ! axis_value rm axis) \<and>
       map_option fst (LSM9DS1_readAccelAxis rm axis t) =
         Some (int16_of_bytes (rx (bus t) (reads (bus t)) 1) (rx (bus t) (reads (bus t)) 0)
               - aBiasRaw t ! axis_value rm axis)"
proof -
  show rg: "fst (LSM9DS1_readGyro rm out t) =
           (x - gBiasRaw t ! 0, y - gBiasRaw t ! 1, z - gBiasRaw t ! 2)"
    by (simp add: readGyro_I2C [OF i2c] tr ac)
  show ra: "fst (LSM9DS1_readAccel rm out t) =
           (x - aBiasRaw t ! 0, y - aBiasRaw t ! 1, z - aBiasRaw t ! 2)"
    by (simp add: readAccel_I2C [OF i2c] tr ac)
  show "gBiasRaw t = [x, y, z] \<longrightarrow> fst (LSM9DS1_readGyro rm out t) = (0, 0, 0)"
    unfolding rg by simp
  show "aBiasRaw t = [x, y, z] \<longrightarrow> fst (LSM9DS1_readAccel rm out t) = (0, 0, 0)"
    unfolding ra by simp
  show "axis_value rm axis < 3 \<longrightarrow>
       map_option fst (LSM9DS1_readGyroAxis rm axis t) =
         Some (int16_of_bytes (rx (bus t) (reads (bus t)) 1) (rx (bus t) (reads (bus t)) 0)
               - gBiasRaw t ! axis_value rm axis) \<and>
       map_option fst (LSM9DS1_readAccelAxis rm axis t) =
         Some (int16_of_bytes (rx (bus t) (reads (bus t)) 1) (rx (bus t) (reads (bus t)) 0)
               - aBiasRaw t ! axis_value rm axis)"
    using axis_readers_I2C [OF i2c ac, of rm axis] by simp
qed

lemma autoCalc_reads_conj:
  assumes "commInterface (device (settings t)) = IMU_MODE_I2C" and "u_autoCalc t"
    and "gBiasRaw t = G" and "aBiasRaw t = A"
    and "triplet (rx (bus t) (reads (bus t))) = (x, y, z)"
  shows "fst (LSM9DS1_readGyro rm out t) = (x - G ! 0, y - G ! 1, z - G ! 2) \<and>
     fst (LSM9DS1_readAccel rm out t) = (x - A ! 0, y - A ! 1, z - A ! 2) \<and>
     (G = [x, y, z] \<longrightarrow> fst (LSM9DS1_readGyro rm out t) = (0, 0, 0)) \<and>
     (A = [x, y, z] \<longrightarrow> fst (LSM9DS1_readAccel rm out t) = (0, 0, 0)) \<and>
     (axis_value rm axis < 3 \<longrightarrow>
        map_option fst (LSM9DS1_readGyroAxis rm axis t) =
          Some (int16_of_bytes (rx (bus t) (reads (bus t)) 1) (rx (bus t) (reads (bus t)) 0)
                - G ! axis_value rm axis) \<and>
        map_option fst (LSM9DS1_readAccelAxis rm axis t) =
          Some (int16_of_bytes (rx (bus t) (reads (bus t)) 1) (rx (bus t) (reads (bus t)) 0)
                - A ! axis_value rm axis))"
proof -
  note r = autoCalc_reads_I2C [OF assms(1,2,5), unfolded assms(3,4)]
  show ?thesis by (intro conjI) (rule r)+
qed

text \<open>
  C3.  Let \<open>LSM9DS1_calibrate\<close> be called with \<open>autoCalc\<close> true on the I2C bus, with
  \<open>(int16_t)(1./aRes)\<close> defined, and let the first \<open>m\<close> polls of \<open>FIFO_SRC\<close> report a
  level below 31 and the next one a level of 31 or more.  Then the call returns, in a
  state \<open>s'\<close> where \<open>_autoCalc\<close> is true and the interface is still I2C (on which every
  burst returns the full count).  Every later state \<open>t\<close>, reached by any sequence of
  reader, setter, FIFO, offset and magnetometer-calibration calls, has \<open>_autoCalc\<close>
  true, the I2C interface and the raw biases stored in \<open>s'\<close>, and there a read of the
  triplet \<open>(x, y, z)\<close> by \<open>LSM9DS1_readGyro\<close> or \<open>LSM9DS1_readAccel\<close> returns it less the
  stored raw bias of each axis, in 16-bit arithmetic; a triplet equal to the stored raw
  bias is returned as \<open>(0, 0, 0)\<close>; the single-axis readers subtract the stored raw
  bias of their axis from the sample they read.  The read equations hold in any state
  whatever with \<open>_autoCalc\<close> true and the I2C interface, for the raw bias stored in that
  state.
\<close>

theorem autoCalc_reads_subtract_stored_bias:
  assumes "commInterface (device (settings s)) = IMU_MODE_I2C"
    and "arrays_ok s"
    and "one_g_raw (aRes s) = Some one_g"
    and "\<forall>k<m. fifo_level s k < 0x1F"
    and "\<not> fifo_level s m < 0x1F"
  shows "(\<exists>s'. LSM9DS1_calibrate rm True s = Some (Inr s') \<and> u_autoCalc s' \<and>
       commInterface (device (settings s')) = IMU_MODE_I2C \<and>
       length (gBiasRaw s') = 3 \<and> length (aBiasRaw s') = 3 \<and>
       (\<forall>t. later rm s' t \<longrightarrow>
          u_autoCalc t \<and> commInterface (device (settings t)) = IMU_MODE_I2C \<and>
          gBiasRaw t = gBiasRaw s' \<and> aBiasRaw t = aBiasRaw s' \<and>
          (\<forall>x y z out axis. triplet (rx (bus t) (reads (bus t))) = (x, y, z) \<longrightarrow>
             fst (LSM9DS1_readGyro rm out t) =
               (x - gBiasRaw s' ! 0, y - gBiasRaw s' ! 1, z - gBiasRaw s' ! 2) \<and>
             fst (LSM9DS1_readAccel rm out t) =
               (x - aBiasRaw s' ! 0, y - aBiasRaw s' ! 1, z - aBiasRaw s' ! 2) \<and>
             (gBiasRaw s' = [x, y, z] \<longrightarrow> fst (LSM9DS1_readGyro rm out t) = (0, 0, 0)) \<and>
             (aBiasRaw s' = [x, y, z] \<longrightarrow> fst (LSM9DS1_readAccel rm out t) = (0, 0, 0)) \<and>
             (axis_value rm axis < 3 \<longrightarrow>
                map_option fst (LSM9DS1_readGyroAxis rm axis t) =
                  Some (int16_of_bytes (rx (bus t) (reads (bus t)) 1)
                          (rx (bus t) (reads (bus t)) 0)
                        - gBiasRaw s' ! axis_value rm axis) \<and>
                map_option fst (LSM9DS1_readAccelAxis rm axis t) =
                  Some (int16_of_bytes (rx (bus t) (reads (bus t)) 1)
                          (rx (bus t) (reads (bus t)) 0)
                        - aBiasRaw s' ! axis_value rm axis))))) \<and>
     (\<forall>t x y z out axis.
        commInterface (device (settings t)) = IMU_MODE_I2C \<and> u_autoCalc t \<and>
        triplet (rx (bus t) (reads (bus t))) = (x, y, z) \<longrightarrow>
          fst (LSM9DS1_readGyro rm out t) =
            (x - gBiasRaw t ! 0, y - gBiasRaw t ! 1, z - gBiasRaw t ! 2) \<and>
          fst (LSM9DS1_readAccel rm out t) =
            (x - aBiasRaw t ! 0, y - aBiasRaw t ! 1, z - aBiasRaw t ! 2) \<and>
          (gBiasRaw t = [x, y, z] \<longrightarrow> fst (LSM9DS1_readGyro rm out t) = (0, 0, 0)) \<and>
          (aBiasRaw t = [x, y, z] \<longrightarrow> fst (LSM9DS1_readAccel rm out t) = (0, 0, 0)) \<and>
          (axis_value rm axis < 3 \<longrightarrow>
             map_option fst (LSM9DS1_readGyroAxis rm axis t) =
               Some (int16_of_bytes (rx (bus t) (reads (bus t)) 1)
                       (rx (bus t) (reads (bus t)) 0)
                     - gBiasRaw t ! axis_value rm axis) \<and>
             map_option fst (LSM9DS1_readAccelAxis rm axis t) =
               Some (int16_of_bytes (rx (bus t) (reads (bus t)) 1)
                       (rx (bus t) (reads (bus t)) 0)
                     - aBiasRaw t ! axis_value rm axis)))"
proof (rule conjI)
  from calibrate_I2C [OF assms(1,2,4,5,3), of rm True]
  obtain s' where c: "LSM9DS1_calibrate rm True s = Some (Inr s')" by blast
  from c assms(2) have st: "settings s' = settings s" by (rule calibrate_result)
  from c assms(2) have "u_autoCalc s' = (True \<or> u_autoCalc s)" by (rule calibrate_result)
  then have ac: "u_autoCalc s'" by simp
  from c assms(2) have lg: "length (gBiasRaw s') = 3" by (rule calibrate_result) simp
  from c assms(2) have la: "length (aBiasRaw s') = 3" by (rule calibrate_result) simp
  have i2c: "commInterface (device (settings s')) = IMU_MODE_I2C"
    using assms(1) by (simp add: st)
  have lt: "u_autoCalc t \<and> commInterface (device (settings t)) = IMU_MODE_I2C \<and>
          gBiasRaw t = gBiasRaw s' \<and> aBiasRaw t = aBiasRaw s' \<and>
          (\<forall>x y z out axis. triplet (rx (bus t) (reads (bus t))) = (x, y, z) \<longrightarrow>
             fst (LSM9DS1_readGyro rm out t) =
               (x - gBiasRaw s' ! 0, y - gBiasRaw s' ! 1, z - gBiasRaw s' ! 2) \<and>
             fst (LSM9DS1_readAccel rm out t) =
               (x - aBiasRaw s' ! 0, y - aBiasRaw s' ! 1, z - aBiasRaw s' ! 2) \<and>
             (gBiasRaw s' = [x, y, z] \<longrightarrow> fst (LSM9DS1_readGyro rm out t) = (0, 0, 0)) \<and>
             (aBiasRaw s' = [x, y, z] \<longrightarrow> fst (LSM9DS1_readAccel rm out t) = (0, 0, 0)) \<and>
             (axis_value rm axis < 3 \<longrightarrow>
                map_option fst (LSM9DS1_readGyroAxis rm axis t) =
                  Some (int16_of_bytes (rx (bus t) (reads (bus t)) 1)
                          (rx (bus t) (reads (bus t)) 0)
                        - gBiasRaw s' ! axis_value rm axis) \<and>
                map_option fst (LSM9DS1_readAccelAxis rm axis t) =
                  Some (int16_of_bytes (rx (bus t) (reads (bus t)) 1)
                          (rx (bus t) (reads (bus t)) 0)
                        - aBiasRaw s' ! axis_value rm axis)))"
    if l: "later rm s' t" for t
  proof -
    from later_same_calibration [OF l] have
      k: "commInterface (device (settings t)) = commInterface (device (settings s'))"
        "u_autoCalc t = u_autoCalc s'" "gBiasRaw t = gBiasRaw s'" "aBiasRaw t = aBiasRaw s'"
      by (simp_all add: same_calibration_def)
    have i: "commInterface (device (settings t)) = IMU_MODE_I2C" by (simp add: k i2c)
    have a: "u_autoCalc t" by (simp add: k ac)
    have r: "\<forall>x y z out axis. triplet (rx (bus t) (reads (bus t))) = (x, y, z) \<longrightarrow>
             fst (LSM9DS1_readGyro rm out t) =
               (x - gBiasRaw s' ! 0, y - gBiasRaw s' ! 1, z - gBiasRaw s' ! 2) \<and>
             fst (LSM9DS1_readAccel rm out t) =
               (x - aBiasRaw s' ! 0, y - aBiasRaw s' ! 1, z - aBiasRaw s' ! 2) \<and>
             (gBiasRaw s' = [x, y, z] \<longrightarrow> fst (LSM9DS1_readGyro rm out t) = (0, 0, 0)) \<and>
             (aBiasRaw s' = [x, y, z] \<longrightarrow> fst (LSM9DS1_readAccel rm out t) = (0, 0, 0)) \<and>
             (axis_value rm axis < 3 \<longrightarrow>
                map_option fst (LSM9DS1_readGyroAxis rm axis t) =
                  Some (int16_of_bytes (rx (bus t) (reads (bus t)) 1)
                          (rx (bus t) (reads (bus t)) 0)
                        - gBiasRaw s' ! axis_value rm axis) \<and>
                map_option fst (LSM9DS1_readAccelAxis rm axis t) =
                  Some (int16_of_bytes (rx (bus t) (reads (bus t)) 1)
                          (rx (bus t) (reads (bus t)) 0)
                        - aBiasRaw s' ! axis_value rm axis))"
      by (intro allI impI) (rule autoCalc_reads_conj [OF i a k(3,4)])
    from a i k(3,4) r show ?thesis by (intro conjI)
  qed
  have L: "\<forall>t. later rm s' t \<longrightarrow>
          u_autoCalc t \<and> commInterface (device (settings t)) = IMU_MODE_I2C \<and>
          gBiasRaw t = gBiasRaw s' \<and> aBiasRaw t = aBiasRaw s' \<and>
          (\<forall>x y z out axis. triplet (rx (bus t) (reads (bus t))) = (x, y, z) \<longrightarrow>
             fst (LSM9DS1_readGyro rm out t) =
               (x - gBiasRaw s' ! 0, y - gBiasRaw s' ! 1, z - gBiasRaw s' ! 2) \<and>
             fst (LSM9DS1_readAccel rm out t) =
               (x - aBiasRaw s' ! 0, y - aBiasRaw s' ! 1, z - aBiasRaw s' ! 2) \<and>
             (gBiasRaw s' = [x, y, z] \<longrightarrow> fst (LSM9DS1_readGyro rm out t) = (0, 0, 0)) \<and>
             (aBiasRaw s' = [x, y, z] \<longrightarrow> fst (LSM9DS1_readAccel rm out t) = (0, 0, 0)) \<and>
             (axis_value rm axis < 3 \<longrightarrow>
                map_option fst (LSM9DS1_readGyroAxis rm axis t) =
                  Some (int16_of_bytes (rx (bus t) (reads (bus t)) 1)
                          (rx (bus t) (reads (bus t)) 0)
                        - gBiasRaw s' ! axis_value rm axis) \<and>
                map_option fst (LSM9DS1_readAccelAxis rm axis t) =
                  Some (int16_of_bytes (rx (bus t) (reads (bus t)) 1)
                          (rx (bus t) (reads (bus t)) 0)
                        - aBiasRaw s' ! axis_value rm axis)))"
    by (intro allI impI) (rule lt)
  from c ac i2c lg la L
  show "\<exists>s'. LSM9DS1_calibrate rm True s = Some (Inr s') \<and> u_autoCalc s' \<and>
       commInterface (device (settings s')) = IMU_MODE_I2C \<and>
       length (gBiasRaw s') = 3 \<and> length (aBiasRaw s') = 3 \<and>
       (\<forall>t. later rm s' t \<longrightarrow>
          u_autoCalc t \<and> commInterface (device (settings t)) = IMU_MODE_I2C \<and>
          gBiasRaw t = gBiasRaw s' \<and> aBiasRaw t = aBiasRaw s' \<and>
          (\<forall>x y z out axis. triplet (rx (bus t) (reads (bus t))) = (x, y, z) \<longrightarrow>
             fst (LSM9DS1_readGyro rm out t) =
               (x - gBiasRaw s' ! 0, y - gBiasRaw s' ! 1, z - gBiasRaw s' ! 2) \<and>
             fst (LSM9DS1_readAccel rm out t) =
               (x - aBiasRaw s' ! 0, y - aBiasRaw s' ! 1, z - aBiasRaw s' ! 2) \<and>
             (gBiasRaw s' = [x, y, z] \<longrightarrow> fst (LSM9DS1_readGyro rm out t) = (0, 0, 0)) \<and>
             (aBiasRaw s' = [x, y, z] \<longrightarrow> fst (LSM9DS1_readAccel rm out t) = (0, 0, 0)) \<and>
             (axis_value rm axis < 3 \<longrightarrow>
                map_option fst (LSM9DS1_readGyroAxis rm axis t) =
                  Some (int16_of_bytes (rx (bus t) (reads (bus t)) 1)
                          (rx (bus t) (reads (bus t)) 0)
                        - gBiasRaw s' ! axis_value rm axis) \<and>
                map_option fst (LSM9DS1_readAccelAxis rm axis t) =
                  Some (int16_of_bytes (rx (bus t) (reads (bus t)) 1)
                          (rx (bus t) (reads (bus t)) 0)
                        - aBiasRaw s' ! axis_value rm axis))))"
    by (intro exI [of _ s'] conjI)
next
  show "\<forall>t x y z out axis.
        commInterface (device (settings t)) = IMU_MODE_I2C \<and> u_autoCalc t \<and>
        triplet (rx (bus t) (reads (bus t))) = (x, y, z) \<longrightarrow>
          fst (LSM9DS1_readGyro rm out t) =
            (x - gBiasRaw t ! 0, y - gBiasRaw t ! 1, z - gBiasRaw t ! 2) \<and>
          fst (LSM9DS1_readAccel rm out t) =
            (x - aBiasRaw t ! 0, y - aBiasRaw t ! 1, z - aBiasRaw t ! 2) \<and>
          (gBiasRaw t = [x, y, z] \<longrightarrow> fst (LSM9DS1_readGyro rm out t) = (0, 0, 0)) \<and>
          (aBiasRaw t = [x, y, z] \<longrightarrow> fst (LSM9DS1_readAccel rm out t) = (0, 0, 0)) \<and>
          (axis_value rm axis < 3 \<longrightarrow>
             map_option fst (LSM9DS1_readGyroAxis rm axis t) =
               Some (int16_of_bytes (rx (bus t) (reads (bus t)) 1)
                       (rx (bus t) (reads (bus t)) 0)
                     - gBiasRaw t ! axis_value rm axis) \<and>
             map_option fst (LSM9DS1_readAccelAxis rm axis t) =
               Some (int16_of_bytes (rx (bus t) (reads (bus t)) 1)
                       (rx (bus t) (reads (bus t)) 0)
                     - aBiasRaw t ! axis_value rm axis))"
  proof (intro allI impI)
    fix t :: driver and x y z :: i16 and out :: "i16 \<times> i16 \<times> i16" and axis :: lsm9ds1_axis
    assume h: "commInterface (device (settings t)) = IMU_MODE_I2C \<and> u_autoCalc t \<and>
        triplet (rx (bus t) (reads (bus t))) = (x, y, z)"
    then have i: "commInterface (device (settings t)) = IMU_MODE_I2C" and a: "u_autoCalc t"
      and tr: "triplet (rx (bus t) (reads (bus t))) = (x, y, z)"
      by simp_all
    show "fst (LSM9DS1_readGyro rm out t) =
            (x - gBiasRaw t ! 0, y - gBiasRaw t ! 1, z - gBiasRaw t ! 2) \<and>
          fst (LSM9DS1_readAccel rm out t) =
            (x - aBiasRaw t ! 0, y - aBiasRaw t ! 1, z - aBiasRaw t ! 2) \<and>
          (gBiasRaw t = [x, y, z] \<longrightarrow> fst (LSM9DS1_readGyro rm out t) = (0, 0, 0)) \<and>
          (aBiasRaw t = [x, y, z] \<longrightarrow> fst (LSM9DS1_readAccel rm out t) = (0, 0, 0)) \<and>
          (axis_value rm axis < 3 \<longrightarrow>
             map_option fst (LSM9DS1_readGyroAxis rm axis t) =
               Some (int16_of_bytes (rx (bus t) (reads (bus t)) 1)
                       (rx (bus t) (reads (bus t)) 0)
                     - gBiasRaw t ! axis_value rm axis) \<and>
             map_option fst (LSM9DS1_readAccelAxis rm axis t) =
               Some (int16_of_bytes (rx (bus t) (reads (bus t)) 1)
                       (rx (bus t) (reads (bus t)) 0)
                     - aBiasRaw t ! axis_value rm axis))"
      by (rule autoCalc_reads_conj [OF i a refl refl tr])
  qed
qed


lemma setGyroScale_bus:
  assumes "commInterface (device (settings s)) = IMU_MODE_I2C"
  shows "rx (bus (LSM9DS1_setGyroScale rm gScl s)) = rx (bus s)"
    "reads (bus (LSM9DS1_setGyroScale rm gScl s)) = Suc (reads (bus s))"
  using assms
  by (simp_all add: LSM9DS1_setGyroScale_def Let_def split_def xgReadByte_I2C xgWriteByte_I2C
        LSM9DS1_calcgRes_def)

theorem autoCalc_reads_subtract_stored_bias_witness:
  "commInterface (device (settings (example_driver IMU_MODE_I2C
      (fifo_of_identical [1, 0, 2, 0, 3, 0] [1, 0, 2, 0, 0x0C, 0x40])))) = IMU_MODE_I2C \<and>
   arrays_ok (example_driver IMU_MODE_I2C
      (fifo_of_identical [1, 0, 2, 0, 3, 0] [1, 0, 2, 0, 0x0C, 0x40])) \<and>
   one_g_raw (aRes (example_driver IMU_MODE_I2C
      (fifo_of_identical [1, 0, 2, 0, 3, 0] [1, 0, 2, 0, 0x0C, 0x40]))) = Some 16393 \<and>
   fifo_level (example_driver IMU_MODE_I2C
      (fifo_of_identical [1, 0, 2, 0, 3, 0] [1, 0, 2, 0, 0x0C, 0x40])) 0 = 31 \<and>
   (\<exists>s'. LSM9DS1_calibrate example_registers True
           (example_driver IMU_MODE_I2C
              (fifo_of_identical [1, 0, 2, 0, 3, 0] [1, 0, 2, 0, 0x0C, 0x40])) = Some (Inr s') \<and>
         u_autoCalc s' \<and> gBiasRaw s' = [1, 2, 3] \<and> aBiasRaw s' = [1, 2, 3] \<and>
         later example_registers s' (LSM9DS1_setGyroScale example_registers 500 s') \<and>
         u_autoCalc (LSM9DS1_setGyroScale example_registers 500 s') \<and>
         triplet (rx (bus (LSM9DS1_setGyroScale example_registers 500 s'))
                    (reads (bus (LSM9DS1_setGyroScale example_registers 500 s')))) = (1, 2, 3) \<and>
         fst (LSM9DS1_readGyro example_registers (7, 7, 7)
                (LSM9DS1_setGyroScale example_registers 500 s')) = (0, 0, 0) \<and>
         fst (LSM9DS1_readAccel example_registers (7, 7, 7)
                (LSM9DS1_setGyroScale example_registers 500 s')) = (0, 0, 0) \<and>
         axis_value example_registers Z_AXIS = 2 \<and>
         map_option fst (LSM9DS1_readGyroAxis example_registers Z_AXIS
                (LSM9DS1_setGyroScale example_registers 500 s')) = Some (- 2) \<and>
         map_option fst (LSM9DS1_readAccelAxis example_registers Z_AXIS
                (LSM9DS1_setGyroScale example_registers 500 s')) = Some (- 2))"
proof -
  let ?f = "fifo_of_identical [1, 0, 2, 0, 3, 0] [1, 0, 2, 0, 0x0C, 0x40]"
  let ?s = "example_driver IMU_MODE_I2C ?f"
  have i2c: "commInterface (device (settings ?s)) = IMU_MODE_I2C" by (rule example_driver_mode)
  have ok: "arrays_ok ?s" by (rule example_driver_arrays_ok)
  have og: "one_g_raw (aRes ?s) = Some 16393" by (rule example_driver_one_g)
  have l: "fifo_level ?s 0 = 31" by (rule fifo_of_identical_level)
  have polls: "\<forall>k<0. fifo_level ?s k < 0x1F" by simp
  have last: "\<not> fifo_level ?s 0 < 0x1F" by (simp add: l)
  have rx: "rx (bus ?s) = ?f" and r0: "reads (bus ?s) = 0"
    by (simp_all add: example_driver_bus)
  have na: "\<not> u_autoCalc ?s" by (simp add: example_driver_fields)
  note th = autoCalc_reads_subtract_stored_bias [OF i2c ok og polls last, of example_registers]
  from th [THEN conjunct1] obtain s' where
    c: "LSM9DS1_calibrate example_registers True ?s = Some (Inr s')"
    and ac: "u_autoCalc s'"
    and m: "commInterface (device (settings s')) = IMU_MODE_I2C"
    and L: "\<forall>t. later example_registers s' t \<longrightarrow>
          u_autoCalc t \<and> commInterface (device (settings t)) = IMU_MODE_I2C \<and>
          gBiasRaw t = gBiasRaw s' \<and> aBiasRaw t = aBiasRaw s' \<and>
          (\<forall>x y z out axis. triplet (rx (bus t) (reads (bus t))) = (x, y, z) \<longrightarrow>
             fst (LSM9DS1_readGyro example_registers out t) =
               (x - gBiasRaw s' ! 0, y - gBiasRaw s' ! 1, z - gBiasRaw s' ! 2) \<and>
             fst (LSM9DS1_readAccel example_registers out t) =
               (x - aBiasRaw s' ! 0, y - aBiasRaw s' ! 1, z - aBiasRaw s' ! 2) \<and>
             (gBiasRaw s' = [x, y, z] \<longrightarrow>
                fst (LSM9DS1_readGyro example_registers out t) = (0, 0, 0)) \<and>
             (aBiasRaw s' = [x, y, z] \<longrightarrow>
                fst (LSM9DS1_readAccel example_registers out t) = (0, 0, 0)) \<and>
             (axis_value example_registers axis < 3 \<longrightarrow>
                map_option fst (LSM9DS1_readGyroAxis example_registers axis t) =
                  Some (int16_of_bytes (rx (bus t) (reads (bus t)) 1)
                          (rx (bus t) (reads (bus t)) 0)
                        - gBiasRaw s' ! axis_value example_registers axis) \<and>
                map_option fst (LSM9DS1_readAccelAxis example_registers axis t) =
                  Some (int16_of_bytes (rx (bus t) (reads (bus t)) 1)
                          (rx (bus t) (reads (bus t)) 0)
                        - aBiasRaw s' ! axis_value example_registers axis)))"
    by (elim exE conjE)
  from calibrate_identical [OF i2c ok rx r0 og, of example_registers True]
  obtain s2 where c2: "LSM9DS1_calibrate example_registers True ?s = Some (Inr s2)"
    and G2: "gBiasRaw s2 = [nth3 (gyro_reading ?s 2) 0, nth3 (gyro_reading ?s 2) 1,
                            nth3 (gyro_reading ?s 2) 2]"
    and A2: "aBiasRaw s2 = [nth3 (accel_reading ?s 3) 0, nth3 (accel_reading ?s 3) 1,
                            nth3 (accel_reading ?s 3) 2 - 16393]"
    and b2: "rx (bus s2) = rx (bus ?s)" "reads (bus s2) = 65"
    by blast
  from c c2 have e: "s2 = s'" by simp
  have tg: "gyro_reading ?s 2 = (1, 2, 3)"
    unfolding readings_without_autoCalc [OF na] rx
    using fifo_of_identical_triplets(1) [of 1 0 2 0 3 0 "[1, 0, 2, 0, 0x0C, 0x40]" 0]
    by (simp add: int16_of_bytes_def)
  have ta: "accel_reading ?s 3 = (1, 2, 16396)"
    unfolding readings_without_autoCalc [OF na] rx
    using fifo_of_identical_triplets(2) [of "[1, 0, 2, 0, 3, 0]" 1 0 2 0 "0x0C" "0x40" 0]
    by (simp add: int16_of_bytes_def)
  have g: "gBiasRaw s' = [1, 2, 3]" using G2 unfolding e tg by simp
  have a: "aBiasRaw s' = [1, 2, 3]" using A2 unfolding e ta by simp
  have b: "rx (bus s') = ?f" "reads (bus s') = 65" using b2 unfolding e rx by simp_all
  let ?t = "LSM9DS1_setGyroScale example_registers 500 s'"
  have lt: "later example_registers s' ?t"
    by (rule later_setGyroScale [OF later_now])
  have "triplet (rx (bus ?t) (reads (bus ?t))) = triplet (?f (2 + 2 * 32))"
    by (simp add: setGyroScale_bus [OF m] b)
  also have "\<dots> = (int16_of_bytes 0 1, int16_of_bytes 0 2, int16_of_bytes 0 3)"
    by (rule fifo_of_identical_triplets)
  also have "\<dots> = (1, 2, 3)" by (simp add: int16_of_bytes_def)
  finally have tr: "triplet (rx (bus ?t) (reads (bus ?t))) = (1, 2, 3)" .
  have lo: "int16_of_bytes (rx (bus ?t) (reads (bus ?t)) 1) (rx (bus ?t) (reads (bus ?t)) 0) = 1"
    using tr by (simp add: triplet_def)
  have ax: "axis_value example_registers Z_AXIS = 2" by simp
  note Lt = L [rule_format, OF lt]
  note act = Lt [THEN conjunct1]
  note R = Lt [THEN conjunct2, THEN conjunct2, THEN conjunct2, THEN conjunct2]
  from R [rule_format, OF tr, of "(7, 7, 7)" Z_AXIS]
  have r: "fst (LSM9DS1_readGyro example_registers (7, 7, 7) ?t) = (0, 0, 0)"
    "fst (LSM9DS1_readAccel example_registers (7, 7, 7) ?t) = (0, 0, 0)"
    "map_option fst (LSM9DS1_readGyroAxis example_registers Z_AXIS ?t) = Some (- 2)"
    "map_option fst (LSM9DS1_readAccelAxis example_registers Z_AXIS ?t) = Some (- 2)"
    unfolding lo by (simp_all add: g a)
  have "\<exists>s'. LSM9DS1_calibrate example_registers True ?s = Some (Inr s') \<and>
         u_autoCalc s' \<and> gBiasRaw s' = [1, 2, 3] \<and> aBiasRaw s' = [1, 2, 3] \<and>
         later example_registers s' (LSM9DS1_setGyroScale example_registers 500 s') \<and>
         u_autoCalc (LSM9DS1_setGyroScale example_registers 500 s') \<and>
         triplet (rx (bus (LSM9DS1_setGyroScale example_registers 500 s'))
                    (reads (bus (LSM9DS1_setGyroScale example_registers 500 s')))) = (1, 2, 3) \<and>
         fst (LSM9DS1_readGyro example_registers (7, 7, 7)
                (LSM9DS1_setGyroScale example_registers 500 s')) = (0, 0, 0) \<and>
         fst (LSM9DS1_readAccel example_registers (7, 7, 7)
                (LSM9DS1_setGyroScale example_registers 500 s')) = (0, 0, 0) \<and>
         axis_value example_registers Z_AXIS = 2 \<and>
         map_option fst (LSM9DS1_readGyroAxis example_registers Z_AXIS
                (LSM9DS1_setGyroScale example_registers 500 s')) = Some (- 2) \<and>
         map_option fst (LSM9DS1_readAccelAxis example_registers Z_AXIS
                (LSM9DS1_setGyroScale example_registers 500 s')) = Some (- 2)"
    using c ac g a lt act tr r ax by (intro exI [of _ s'] conjI)
  with i2c ok og l show ?thesis by (intro conjI)
qed


text \<open>
  On the SPI interface, whose transfers are not implemented, the level read from
  \<open>FIFO_SRC\<close> is always 0 and \<open>LSM9DS1_calibrate\<close> never leaves the wait for the FIFO.
\<close>

lemma calibrate_wait_SPI:
  assumes "calibrate_wait rm x s = Some y"
  shows "commInterface (device (settings s)) = IMU_MODE_SPI \<longrightarrow> \<not> x < 0x1F"
proof (rule calibrate_wait.raw_induct
         [where P = "\<lambda>rm x s y. commInterface (device (settings s)) = IMU_MODE_SPI \<longrightarrow> \<not> x < 0x1F",
          OF _ assms])
  fix cw :: "registers \<Rightarrow> u8 \<Rightarrow> driver \<Rightarrow> (u8 \<times> driver) option"
    and rm samples s y
  assume IH: "\<And>rm samples s y. cw rm samples s = Some y \<Longrightarrow>
                commInterface (device (settings s)) = IMU_MODE_SPI \<longrightarrow> \<not> samples < 0x1F"
    and step: "(if samples < 0x1F
                then cw rm (fst (LSM9DS1_xgReadByte (FIFO_SRC rm) s) AND 0x3F)
                       (snd (LSM9DS1_xgReadByte (FIFO_SRC rm) s))
                else Some (samples, s)) = Some y"
  show "commInterface (device (settings s)) = IMU_MODE_SPI \<longrightarrow> \<not> samples < 0x1F"
  proof (intro impI notI)
    assume spi: "commInterface (device (settings s)) = IMU_MODE_SPI" and lt: "samples < 0x1F"
    from step lt spi have "cw rm 0 s = Some y" by (simp add: xgReadByte_SPI)
    from IH [OF this] spi show False by simp
  qed
qed

lemma calibrate_SPI:
  assumes "commInterface (device (settings s)) = IMU_MODE_SPI"
  shows "LSM9DS1_calibrate rm autoCalc s = None"
proof (rule ccontr)
  let ?s2 = "LSM9DS1_setFIFO rm (FIFO_THS rm) 0x1F (LSM9DS1_enableFIFO rm True s)"
  assume "LSM9DS1_calibrate rm autoCalc s \<noteq> None"
  then obtain N s3 where w: "calibrate_wait rm 0 ?s2 = Some (N, s3)"
    by (auto simp add: LSM9DS1_calibrate_def Let_def split: option.splits)
  have "only_bus_changed s ?s2"
    by (rule only_bus_changed_trans [OF enableFIFO_frame setFIFO_frame])
  with assms have "commInterface (device (settings ?s2)) = IMU_MODE_SPI"
    by (simp add: only_bus_changed_fields)
  with calibrate_wait_SPI [OF w] show False by simp
qed


section \<open>Hard-iron offset of the magnetometer\<close>


lemma magAvailable_adv:
  "commInterface (device (settings s)) = IMU_MODE_I2C \<Longrightarrow>
     LSM9DS1_magAvailable rm ALL_AXIS s =
       (ucast (drop_bit (ALL_AXIS_value rm)
                 ((ucast (rx (bus s) (reads (bus s)) 0) :: i32) AND push_bit (ALL_AXIS_value rm) 1)),
        advance 1 [Rd (u_mAddress s) (STATUS_REG_M rm) [rx (bus s) (reads (bus s)) 0]] s)"
  by (simp add: LSM9DS1_magAvailable_def mReadByte_adv)

lemma magAvailable_ready:
  "commInterface (device (settings s)) = IMU_MODE_I2C \<Longrightarrow>
     (fst (LSM9DS1_magAvailable rm ALL_AXIS s) = 0) = (\<not> mag_ready rm (rx (bus s) (reads (bus s)) 0))"
  by (simp add: magAvailable_adv mag_ready_def)

lemma calibrateMag_wait_I2C:
  assumes "commInterface (device (settings s)) = IMU_MODE_I2C"
    and "\<forall>k<m. \<not> mag_ready rm (rx (bus s) (reads (bus s) + k) 0)"
    and "mag_ready rm (rx (bus s) (reads (bus s) + m) 0)"
  shows "calibrateMag_wait rm s =
           Some (advance (Suc m)
                   (map (\<lambda>k. Rd (u_mAddress s) (STATUS_REG_M rm) [rx (bus s) (reads (bus s) + k) 0])
                      [0 ..< Suc m]) s)"
  using assms
proof (induction m arbitrary: s)
  case 0
  from 0(3) have c: "fst (LSM9DS1_magAvailable rm ALL_AXIS s) \<noteq> 0"
    using magAvailable_ready [OF 0(1), of rm] by simp
  have e: "snd (LSM9DS1_magAvailable rm ALL_AXIS s) =
             advance 1 [Rd (u_mAddress s) (STATUS_REG_M rm) [rx (bus s) (reads (bus s)) 0]] s"
    by (simp add: magAvailable_adv [OF 0(1)])
  show ?case
    by (subst calibrateMag_wait.simps) (simp add: c e)
next
  case (Suc m)
  let ?s1 = "advance 1 [Rd (u_mAddress s) (STATUS_REG_M rm) [rx (bus s) (reads (bus s)) 0]] s"
  have m1: "commInterface (device (settings ?s1)) = IMU_MODE_I2C"
    using Suc.prems(1) by (simp add: advance_fields)
  from Suc.prems(2) have n0: "\<not> mag_ready rm (rx (bus s) (reads (bus s)) 0)"
    by (drule_tac x = 0 in spec) simp
  have p1: "\<forall>k<m. \<not> mag_ready rm (rx (bus ?s1) (reads (bus ?s1) + k) 0)"
  proof (intro allI impI)
    fix k assume "k < m"
    then have "Suc k < Suc m" by simp
    with Suc.prems(2) have "\<not> mag_ready rm (rx (bus s) (reads (bus s) + Suc k) 0)" by blast
    then show "\<not> mag_ready rm (rx (bus ?s1) (reads (bus ?s1) + k) 0)"
      by (simp add: advance_fields)
  qed
  have l1: "mag_ready rm (rx (bus ?s1) (reads (bus ?s1) + m) 0)"
    using Suc.prems(3) by (simp add: advance_fields)
  from n0 have c: "fst (LSM9DS1_magAvailable rm ALL_AXIS s) = 0"
    using magAvailable_ready [OF Suc.prems(1), of rm] by simp
  have e: "snd (LSM9DS1_magAvailable rm ALL_AXIS s) = ?s1"
    by (simp add: magAvailable_adv [OF Suc.prems(1)])
  have "calibrateMag_wait rm s = calibrateMag_wait rm ?s1"
    by (subst calibrateMag_wait.simps) (simp only: c e refl if_True)
  also note Suc.IH [OF m1 p1 l1]
  also have "advance (Suc m)
       (map (\<lambda>k. Rd (u_mAddress ?s1) (STATUS_REG_M rm) [rx (bus ?s1) (reads (bus ?s1) + k) 0])
          [0 ..< Suc m]) ?s1 =
     advance (Suc (Suc m))
       (map (\<lambda>k. Rd (u_mAddress s) (STATUS_REG_M rm) [rx (bus s) (reads (bus s) + k) 0])
          [0 ..< Suc (Suc m)]) s"
    unfolding advance_advance map_upt_Suc [where n = "Suc m"]
    by (simp add: advance_fields del: upt_Suc)
  finally show ?case .
qed

lemma round_start_shift:
  "round_start (\<lambda>i. w (Suc i)) (p + w 0 + 2) i = round_start w p (Suc i)"
  by (induction i) simp_all

lemma minmax_round:
  assumes "length mn = 3" "length mx = 3"
  shows "\<exists>mn1 mx1. fold (calibrateMag_minmax [t0, t1, t2]) [0, 1, 2] (mn, mx) = (mn1, mx1) \<and>
     length mn1 = 3 \<and> length mx1 = 3 \<and>
     (\<forall>j<3. sint (mn1 ! j) = min (sint (mn ! j)) (sint (nth3 (t0, t1, t2) j)) \<and>
            sint (mx1 ! j) = max (sint (mx ! j)) (sint (nth3 (t0, t1, t2) j)))"
proof -
  from assms(1) obtain a b c where mn: "mn = [a, b, c]" by (rule length3E)
  from assms(2) obtain d e f where mx: "mx = [d, e, f]" by (rule length3E)
  have all3: "\<And>P. (\<forall>j<3. P (j::nat)) = (P 0 \<and> P 1 \<and> P 2)"
    by (auto simp add: numeral_3_eq_3 numeral_2_eq_2 less_Suc_eq)
  show ?thesis
    unfolding mn mx all3
    by (simp add: calibrateMag_minmax_def Let_def min_def max_def)
qed

lemma round_start_add: "round_start w p n = p + round_start w 0 n"
  by (induction n) simp_all

lemma advance_0: "advance 0 [] s = s"
  by (simp add: advance_def)

lemma Min_insert_min:
  fixes a b :: int
  assumes "finite S"
  shows "Min (insert (min a b) S) = Min (insert a (insert b S))"
  using assms by (cases "S = {}") (simp_all add: min.assoc)

lemma Max_insert_max:
  fixes a b :: int
  assumes "finite S"
  shows "Max (insert (max a b) S) = Max (insert a (insert b S))"
  using assms by (cases "S = {}") (simp_all add: max.assoc)

lemma image_lessThan_Suc:
  "f ` {..<Suc n} = insert (f 0) ((\<lambda>i. f (Suc i)) ` {..<n})"
  by (simp only: lessThan_Suc_eq_insert_0 image_insert image_image)

lemma shifted_round:
  assumes "reads (bus s2) = reads (bus s) + w 0 + 2" and "rx (bus s2) = rx (bus s)"
    and "u_mAddress s2 = u_mAddress s"
  shows "mag_sample s2 (\<lambda>i. w (Suc i)) i = mag_sample s w (Suc i)"
    "round_events rm s2 (\<lambda>i. w (Suc i)) i = round_events rm s w (Suc i)"
    "polls_ok rm s w (Suc n) \<Longrightarrow> polls_ok rm s2 (\<lambda>i. w (Suc i)) n"
proof -
  have r: "\<And>i. round_start (\<lambda>i. w (Suc i)) (reads (bus s2)) i = round_start w (reads (bus s)) (Suc i)"
    unfolding assms(1) by (rule round_start_shift)
  show "mag_sample s2 (\<lambda>i. w (Suc i)) i = mag_sample s w (Suc i)"
    unfolding mag_sample_def r assms(2) ..
  show "round_events rm s2 (\<lambda>i. w (Suc i)) i = round_events rm s w (Suc i)"
    unfolding round_events_def r assms(2,3) ..
  show "polls_ok rm s2 (\<lambda>i. w (Suc i)) n" if "polls_ok rm s w (Suc n)"
    using that unfolding polls_ok_def r assms(2) by auto
qed

lemma calibrateMag_loop_I2C:
  assumes "commInterface (device (settings s)) = IMU_MODE_I2C"
    and "length mn = 3" and "length mx = 3" and "polls_ok rm s w n"
  shows "\<exists>mn' mx'. calibrateMag_loop rm n (mn, mx, s) =
           Some (mn', mx',
                 advance (round_start w 0 n) (concat (map (round_events rm s w) [0 ..< n])) s) \<and>
     length mn' = 3 \<and> length mx' = 3 \<and>
     (\<forall>j<3. sint (mn' ! j) =
               Min (insert (sint (mn ! j)) ((\<lambda>i. sint (nth3 (mag_sample s w i) j)) ` {..<n})) \<and>
            sint (mx' ! j) =
               Max (insert (sint (mx ! j)) ((\<lambda>i. sint (nth3 (mag_sample s w i) j)) ` {..<n})))"
  using assms
proof (induction n arbitrary: s w mn mx)
  case 0
  then show ?case by (simp add: advance_0)
next
  case (Suc n)
  note i2c = Suc.prems(1) and lmn = Suc.prems(2) and lmx = Suc.prems(3) and po = Suc.prems(4)
  let ?p = "reads (bus s)"
  let ?w' = "\<lambda>i. w (Suc i)"
  from po have p0: "\<forall>k<w 0. \<not> mag_ready rm (rx (bus s) (?p + k) 0)"
    and l0: "mag_ready rm (rx (bus s) (?p + w 0) 0)"
    unfolding polls_ok_def by (drule_tac x = 0 in spec, simp)+
  define s1 where "s1 = advance (Suc (w 0))
        (map (\<lambda>k. Rd (u_mAddress s) (STATUS_REG_M rm) [rx (bus s) (?p + k) 0]) [0 ..< Suc (w 0)]) s"
  have wt: "calibrateMag_wait rm s = Some s1"
    unfolding s1_def by (rule calibrateMag_wait_I2C [OF i2c p0 l0])
  have m1: "commInterface (device (settings s1)) = IMU_MODE_I2C"
    using i2c by (simp add: s1_def advance_fields)
  define s2 where "s2 = advance (w 0 + 2) (round_events rm s w 0) s"
  obtain t0 t1 t2 where t: "mag_sample s w 0 = (t0, t1, t2)"
    by (cases "mag_sample s w 0") auto
  have rd: "LSM9DS1_readMag rm (0, 0, 0) s1 = ((t0, t1, t2), s2)"
    unfolding readMag_adv [OF m1] t [symmetric] s2_def
    by (simp add: s1_def advance_fields advance_advance mag_sample_def round_events_def)
  from minmax_round [OF lmn lmx, of t0 t1 t2] obtain mn1 mx1 where
    mm: "fold (calibrateMag_minmax [t0, t1, t2]) [0, 1, 2] (mn, mx) = (mn1, mx1)"
    and l1: "length mn1 = 3" "length mx1 = 3"
    and v1: "\<forall>j<3. sint (mn1 ! j) = min (sint (mn ! j)) (sint (nth3 (t0, t1, t2) j)) \<and>
                   sint (mx1 ! j) = max (sint (mx ! j)) (sint (nth3 (t0, t1, t2) j))"
    by blast
  have step: "calibrateMag_loop rm (Suc n) (mn, mx, s) = calibrateMag_loop rm n (mn1, mx1, s2)"
    by (simp only: calibrateMag_loop.simps wt option.case rd prod.case mm Let_def)
  have b2: "reads (bus s2) = ?p + w 0 + 2" "rx (bus s2) = rx (bus s)" "u_mAddress s2 = u_mAddress s"
    by (simp_all add: s2_def advance_fields)
  have m2: "commInterface (device (settings s2)) = IMU_MODE_I2C"
    using i2c by (simp add: s2_def advance_fields)
  note sh = shifted_round [where w = w and s = s and ?s2.0 = s2, OF b2]
  from Suc.IH [OF m2 l1 sh(3) [OF po]] obtain mn' mx' where
    lp: "calibrateMag_loop rm n (mn1, mx1, s2) =
           Some (mn', mx', advance (round_start ?w' 0 n)
                             (concat (map (round_events rm s2 ?w') [0 ..< n])) s2)"
    and l': "length mn' = 3" "length mx' = 3"
    and v': "\<forall>j<3. sint (mn' ! j) =
               Min (insert (sint (mn1 ! j)) ((\<lambda>i. sint (nth3 (mag_sample s2 ?w' i) j)) ` {..<n})) \<and>
            sint (mx' ! j) =
               Max (insert (sint (mx1 ! j)) ((\<lambda>i. sint (nth3 (mag_sample s2 ?w' i) j)) ` {..<n}))"
    by blast
  have rs: "round_start w 0 (Suc n) = w 0 + 2 + round_start ?w' 0 n"
    using round_start_shift [of w 0 n] round_start_add [of ?w' "0 + w 0 + 2" n] by simp
  have ev: "concat (map (round_events rm s w) [0 ..< Suc n]) =
              round_events rm s w 0 @ concat (map (round_events rm s2 ?w') [0 ..< n])"
    unfolding map_upt_Suc sh(2) by simp
  have fin: "advance (round_start ?w' 0 n) (concat (map (round_events rm s2 ?w') [0 ..< n])) s2 =
             advance (round_start w 0 (Suc n)) (concat (map (round_events rm s w) [0 ..< Suc n])) s"
    unfolding s2_def advance_advance rs ev ..
  have vals: "\<forall>j<3. sint (mn' ! j) =
               Min (insert (sint (mn ! j)) ((\<lambda>i. sint (nth3 (mag_sample s w i) j)) ` {..<Suc n})) \<and>
            sint (mx' ! j) =
               Max (insert (sint (mx ! j)) ((\<lambda>i. sint (nth3 (mag_sample s w i) j)) ` {..<Suc n}))"
  proof (intro allI impI)
    fix j :: nat assume j: "j < 3"
    let ?S = "(\<lambda>i. sint (nth3 (mag_sample s w (Suc i)) j)) ` {..<n}"
    have f: "finite ?S" by simp
    from v1 j have a: "sint (mn1 ! j) = min (sint (mn ! j)) (sint (nth3 (mag_sample s w 0) j))"
      and b: "sint (mx1 ! j) = max (sint (mx ! j)) (sint (nth3 (mag_sample s w 0) j))"
      unfolding t by blast+
    from v' j have "sint (mn' ! j) = Min (insert (sint (mn1 ! j)) ?S)"
      and "sint (mx' ! j) = Max (insert (sint (mx1 ! j)) ?S)"
      unfolding sh(1) by blast+
    then show "sint (mn' ! j) =
               Min (insert (sint (mn ! j)) ((\<lambda>i. sint (nth3 (mag_sample s w i) j)) ` {..<Suc n})) \<and>
            sint (mx' ! j) =
               Max (insert (sint (mx ! j)) ((\<lambda>i. sint (nth3 (mag_sample s w i) j)) ` {..<Suc n}))"
      unfolding a b Min_insert_min [OF f] Max_insert_max [OF f]
        image_lessThan_Suc [where f = "\<lambda>i. sint (nth3 (mag_sample s w i) j)"]
      by simp
  qed
  from lp l' vals show ?case
    unfolding step fin by blast
qed


lemma axis_le_2: "j < 3 \<Longrightarrow> (of_nat j :: u8) \<le> 2"
  by (auto simp add: numeral_3_eq_3 less_Suc_eq)

lemma calibrateMag_publish_step_I2C:
  assumes "commInterface (device (settings s)) = IMU_MODE_I2C" and "j < 3"
    and "j < length (mBiasRaw s)"
  shows "calibrateMag_publish rm loadIn mn mx j s =
     advance 0
       (if loadIn
        then [Wr (u_mAddress s) (OFFSET_X_REG_L_M rm + 2 * of_nat j)
                 (ucast (offset_of_minmax (mn ! j) (mx ! j))),
              Wr (u_mAddress s) (OFFSET_X_REG_H_M rm + 2 * of_nat j)
                 (ucast (drop_bit 8 (offset_of_minmax (mn ! j) (mx ! j))))]
        else [])
       (s\<lparr>mBiasRaw := (mBiasRaw s)[j := offset_of_minmax (mn ! j) (mx ! j)],
          mBias := (mBias s)[j := mRes s * real_of_int (sint (offset_of_minmax (mn ! j) (mx ! j)))]\<rparr>)"
proof -
  let ?o = "offset_of_minmax (mn ! j) (mx ! j)"
  let ?s2 = "s\<lparr>mBiasRaw := (mBiasRaw s)[j := ?o],
          mBias := (mBias s)[j := mRes s * real_of_int (sint ?o)]\<rparr>"
  have p: "calibrateMag_publish rm loadIn mn mx j s =
             (if loadIn then LSM9DS1_magOffset rm (of_nat j) ?o ?s2 else ?s2)"
    using assms(3)
    by (simp add: calibrateMag_publish_def Let_def LSM9DS1_calcMag_def offset_of_minmax_def)
  have m2: "commInterface (device (settings ?s2)) = IMU_MODE_I2C"
    using assms(1) by simp
  let ?s3 = "advance 0 [Wr (u_mAddress s) (OFFSET_X_REG_L_M rm + 2 * of_nat j) (ucast ?o)] ?s2"
  have w1: "LSM9DS1_mWriteByte (OFFSET_X_REG_L_M rm + 2 * of_nat j) (ucast ?o) ?s2 = ?s3"
    unfolding mWriteByte_adv [OF m2] by simp
  have m3: "commInterface (device (settings ?s3)) = IMU_MODE_I2C"
    using assms(1) by (simp add: advance_fields)
  have "LSM9DS1_magOffset rm (of_nat j) ?o ?s2 =
          advance 0 [Wr (u_mAddress s) (OFFSET_X_REG_L_M rm + 2 * of_nat j) (ucast ?o),
                     Wr (u_mAddress s) (OFFSET_X_REG_H_M rm + 2 * of_nat j) (ucast (drop_bit 8 ?o))] ?s2"
    unfolding magOffset_eq [OF axis_le_2 [OF assms(2)]] w1 mWriteByte_adv [OF m3] advance_advance
    by (simp add: advance_fields)
  then show ?thesis
    unfolding p by (simp add: advance_0)
qed

lemma calibrateMag_publish_I2C:
  assumes i2c: "commInterface (device (settings s)) = IMU_MODE_I2C" and ok: "arrays_ok s"
  shows "fold (calibrateMag_publish rm loadIn mn mx) [0, 1, 2] s =
     advance 0
       (if loadIn
        then [Wr (u_mAddress s) (OFFSET_X_REG_L_M rm) (ucast (offset_of_minmax (mn ! 0) (mx ! 0))),
              Wr (u_mAddress s) (OFFSET_X_REG_H_M rm)
                 (ucast (drop_bit 8 (offset_of_minmax (mn ! 0) (mx ! 0)))),
              Wr (u_mAddress s) (OFFSET_X_REG_L_M rm + 2) (ucast (offset_of_minmax (mn ! 1) (mx ! 1))),
              Wr (u_mAddress s) (OFFSET_X_REG_H_M rm + 2)
                 (ucast (drop_bit 8 (offset_of_minmax (mn ! 1) (mx ! 1)))),
              Wr (u_mAddress s) (OFFSET_X_REG_L_M rm + 4) (ucast (offset_of_minmax (mn ! 2) (mx ! 2))),
              Wr (u_mAddress s) (OFFSET_X_REG_H_M rm + 4)
                 (ucast (drop_bit 8 (offset_of_minmax (mn ! 2) (mx ! 2))))]
        else [])
       (s\<lparr>mBiasRaw := [offset_of_minmax (mn ! 0) (mx ! 0), offset_of_minmax (mn ! 1) (mx ! 1),
                        offset_of_minmax (mn ! 2) (mx ! 2)],
          mBias := [mRes s * real_of_int (sint (offset_of_minmax (mn ! 0) (mx ! 0))),
                    mRes s * real_of_int (sint (offset_of_minmax (mn ! 1) (mx ! 1))),
                    mRes s * real_of_int (sint (offset_of_minmax (mn ! 2) (mx ! 2)))]\<rparr>)"
proof -
  from ok have n: "length (mBias s) = 3" "length (mBiasRaw s) = 3"
    by (simp_all add: arrays_ok_def)
  from n(1) obtain m0 m1 m2 where l1: "mBias s = [m0, m1, m2]" by (rule length3E)
  from n(2) obtain r0 r1 r2 where l2: "mBiasRaw s = [r0, r1, r2]" by (rule length3E)
  define s1 where "s1 = calibrateMag_publish rm loadIn mn mx 0 s"
  define s2 where "s2 = calibrateMag_publish rm loadIn mn mx 1 s1"
  have f: "fold (calibrateMag_publish rm loadIn mn mx) [0, 1, 2] s =
             calibrateMag_publish rm loadIn mn mx 2 s2"
    by (simp add: s1_def s2_def)
  have e1: "s1 = advance 0
       (if loadIn
        then [Wr (u_mAddress s) (OFFSET_X_REG_L_M rm) (ucast (offset_of_minmax (mn ! 0) (mx ! 0))),
              Wr (u_mAddress s) (OFFSET_X_REG_H_M rm)
                 (ucast (drop_bit 8 (offset_of_minmax (mn ! 0) (mx ! 0))))]
        else [])
       (s\<lparr>mBiasRaw := [offset_of_minmax (mn ! 0) (mx ! 0), r1, r2],
          mBias := [mRes s * real_of_int (sint (offset_of_minmax (mn ! 0) (mx ! 0))), m1, m2]\<rparr>)"
    unfolding s1_def
    by (subst calibrateMag_publish_step_I2C [OF i2c]) (simp_all add: l1 l2)
  have i1: "commInterface (device (settings s1)) = IMU_MODE_I2C"
    using i2c by (simp add: e1 advance_fields)
  have e2: "s2 = advance 0
       (if loadIn
        then [Wr (u_mAddress s) (OFFSET_X_REG_L_M rm) (ucast (offset_of_minmax (mn ! 0) (mx ! 0))),
              Wr (u_mAddress s) (OFFSET_X_REG_H_M rm)
                 (ucast (drop_bit 8 (offset_of_minmax (mn ! 0) (mx ! 0)))),
              Wr (u_mAddress s) (OFFSET_X_REG_L_M rm + 2) (ucast (offset_of_minmax (mn ! 1) (mx ! 1))),
              Wr (u_mAddress s) (OFFSET_X_REG_H_M rm + 2)
                 (ucast (drop_bit 8 (offset_of_minmax (mn ! 1) (mx ! 1))))]
        else [])
       (s\<lparr>mBiasRaw := [offset_of_minmax (mn ! 0) (mx ! 0), offset_of_minmax (mn ! 1) (mx ! 1), r2],
          mBias := [mRes s * real_of_int (sint (offset_of_minmax (mn ! 0) (mx ! 0))),
                    mRes s * real_of_int (sint (offset_of_minmax (mn ! 1) (mx ! 1))), m2]\<rparr>)"
    unfolding s2_def
    by (subst calibrateMag_publish_step_I2C [OF i1]) (simp_all add: e1 advance_def)
  have i2: "commInterface (device (settings s2)) = IMU_MODE_I2C"
    using i2c by (simp add: e2 advance_fields)
  show ?thesis
    unfolding f
    by (subst calibrateMag_publish_step_I2C [OF i2]) (simp_all add: e2 advance_def)
qed


lemma sint_offset_of_minmax:
  "sint (offset_of_minmax lo hi) = (sint hi + sint lo) sdiv 2"
proof -
  have b: "- (32768 * 2) \<le> sint hi + sint lo" "sint hi + sint lo \<le> 32767 * 2"
    using sint_i16_bounds [of hi] sint_i16_bounds [of lo] by simp_all
  have "- 32768 \<le> (sint hi + sint lo) sdiv 2" "(sint hi + sint lo) sdiv 2 \<le> 32767"
    using sdiv_bounds [where n = 2 and b = 32768 and c = 32767 and t = "sint hi + sint lo"] b
    by simp_all
  then show ?thesis
    unfolding offset_of_minmax_def by (intro sint_word_of_int_i16) simp_all
qed

lemma round_events_bursts:
  "length (filter is_burst (concat (map (round_events rm s w) [0 ..< n]))) = n"
proof (induction n)
  case 0
  show ?case by simp
next
  case (Suc n)
  have "filter is_burst (round_events rm s w n) =
          [Rd (u_mAddress s) (OUT_X_L_M rm)
             (map (rx (bus s) (round_start w (reads (bus s)) n + w n + 1)) [0 ..< 6])]"
    unfolding round_events_def by (simp add: filter_empty_conv del: upt_Suc)
  with Suc show ?case by simp
qed

lemma zero3: "j < 3 \<Longrightarrow> sint ([0, 0, 0 :: i16] ! j) = 0"
  by (auto simp add: numeral_3_eq_3 less_Suc_eq)

lemma calibrateMag_I2C:
  assumes i2c: "commInterface (device (settings s)) = IMU_MODE_I2C" and ok: "arrays_ok s"
    and po: "polls_ok rm s w 128"
  shows "\<exists>s'. LSM9DS1_calibrateMag rm loadIn s = Some s' \<and>
     s' = s\<lparr>mBias := mBias s', mBiasRaw := mBiasRaw s', bus := bus s'\<rparr> \<and>
     rx (bus s') = rx (bus s) \<and>
     reads (bus s') = round_start w (reads (bus s)) 128 \<and>
     trace (bus s') =
       trace (bus s) @ concat (map (round_events rm s w) [0 ..< 128]) @
       (if loadIn
        then [Wr (u_mAddress s) (OFFSET_X_REG_L_M rm) (ucast (mBiasRaw s' ! 0)),
              Wr (u_mAddress s) (OFFSET_X_REG_H_M rm) (ucast (drop_bit 8 (mBiasRaw s' ! 0))),
              Wr (u_mAddress s) (OFFSET_X_REG_L_M rm + 2) (ucast (mBiasRaw s' ! 1)),
              Wr (u_mAddress s) (OFFSET_X_REG_H_M rm + 2) (ucast (drop_bit 8 (mBiasRaw s' ! 1))),
              Wr (u_mAddress s) (OFFSET_X_REG_L_M rm + 4) (ucast (mBiasRaw s' ! 2)),
              Wr (u_mAddress s) (OFFSET_X_REG_H_M rm + 4) (ucast (drop_bit 8 (mBiasRaw s' ! 2)))]
        else []) \<and>
     length (mBiasRaw s') = 3 \<and> length (mBias s') = 3 \<and>
     (\<forall>j<3. sint (mBiasRaw s' ! j) = (running_max s w 128 j + running_min s w 128 j) sdiv 2 \<and>
            mBias s' ! j = mRes s * real_of_int (sint (mBiasRaw s' ! j)))"
proof -
  have l0: "length [0, 0, 0 :: i16] = 3" by simp
  from calibrateMag_loop_I2C [OF i2c l0 l0 po] obtain mn mx where
    lp: "calibrateMag_loop rm 128 ([0, 0, 0], [0, 0, 0], s) =
           Some (mn, mx, advance (round_start w 0 128)
                           (concat (map (round_events rm s w) [0 ..< 128])) s)"
    and v: "\<forall>j<3. sint (mn ! j) =
               Min (insert (sint ([0, 0, 0 :: i16] ! j))
                      ((\<lambda>i. sint (nth3 (mag_sample s w i) j)) ` {..<128})) \<and>
            sint (mx ! j) =
               Max (insert (sint ([0, 0, 0 :: i16] ! j))
                      ((\<lambda>i. sint (nth3 (mag_sample s w i) j)) ` {..<128}))"
    by blast
  define ev where "ev = concat (map (round_events rm s w) [0 ..< 128])"
  define s1 where "s1 = advance (round_start w 0 128) ev s"
  have f1: "mRes s1 = mRes s" "u_mAddress s1 = u_mAddress s" "rx (bus s1) = rx (bus s)"
    "reads (bus s1) = reads (bus s) + round_start w 0 128"
    "trace (bus s1) = trace (bus s) @ ev"
    unfolding s1_def by (simp_all only: advance_fields)
  from only_bus_changedD [OF advance_only_bus [of s "round_start w 0 128" ev], folded s1_def]
  obtain b1 where s1s: "s1 = s\<lparr>bus := b1\<rparr>" ..
  have i1: "commInterface (device (settings s1)) = IMU_MODE_I2C"
    using i2c unfolding s1_def by (simp only: advance_fields)
  have ok1: "arrays_ok s1"
    using ok unfolding s1_def arrays_ok_def by (simp only: advance_fields)
  define s' where "s' = fold (calibrateMag_publish rm loadIn mn mx) [0, 1, 2] s1"
  have c: "LSM9DS1_calibrateMag rm loadIn s = Some s'"
    by (simp only: LSM9DS1_calibrateMag_def lp ev_def [symmetric] s1_def [symmetric]
          option.case prod.case s'_def [symmetric])
  note e = calibrateMag_publish_I2C [OF i1 ok1, of rm loadIn mn mx, folded s'_def]
  have raw: "mBiasRaw s' = [offset_of_minmax (mn ! 0) (mx ! 0), offset_of_minmax (mn ! 1) (mx ! 1),
                            offset_of_minmax (mn ! 2) (mx ! 2)]"
    and phys: "mBias s' = [mRes s * real_of_int (sint (offset_of_minmax (mn ! 0) (mx ! 0))),
                    mRes s * real_of_int (sint (offset_of_minmax (mn ! 1) (mx ! 1))),
                    mRes s * real_of_int (sint (offset_of_minmax (mn ! 2) (mx ! 2)))]"
    unfolding e f1 [symmetric] by (simp_all add: advance_fields)
  have shape1: "s' = s1\<lparr>mBias := mBias s', mBiasRaw := mBiasRaw s', bus := bus s'\<rparr>"
    unfolding e by (simp add: advance_def)
  have shape: "s' = s\<lparr>mBias := mBias s', mBiasRaw := mBiasRaw s', bus := bus s'\<rparr>"
    by (subst shape1, subst s1s) simp
  have b: "rx (bus s') = rx (bus s)" "reads (bus s') = round_start w (reads (bus s)) 128"
    unfolding e round_start_add [of w "reads (bus s)" 128]
    by (simp_all add: advance_fields f1)
  have nth: "[offset_of_minmax (mn ! 0) (mx ! 0), offset_of_minmax (mn ! 1) (mx ! 1),
              offset_of_minmax (mn ! 2) (mx ! 2)] ! 0 = offset_of_minmax (mn ! 0) (mx ! 0)"
    "[offset_of_minmax (mn ! 0) (mx ! 0), offset_of_minmax (mn ! 1) (mx ! 1),
              offset_of_minmax (mn ! 2) (mx ! 2)] ! 1 = offset_of_minmax (mn ! 1) (mx ! 1)"
    "[offset_of_minmax (mn ! 0) (mx ! 0), offset_of_minmax (mn ! 1) (mx ! 1),
              offset_of_minmax (mn ! 2) (mx ! 2)] ! 2 = offset_of_minmax (mn ! 2) (mx ! 2)"
    by simp_all
  have tr: "trace (bus s') =
       trace (bus s) @ ev @
       (if loadIn
        then [Wr (u_mAddress s) (OFFSET_X_REG_L_M rm) (ucast (mBiasRaw s' ! 0)),
              Wr (u_mAddress s) (OFFSET_X_REG_H_M rm) (ucast (drop_bit 8 (mBiasRaw s' ! 0))),
              Wr (u_mAddress s) (OFFSET_X_REG_L_M rm + 2) (ucast (mBiasRaw s' ! 1)),
              Wr (u_mAddress s) (OFFSET_X_REG_H_M rm + 2) (ucast (drop_bit 8 (mBiasRaw s' ! 1))),
              Wr (u_mAddress s) (OFFSET_X_REG_L_M rm + 4) (ucast (mBiasRaw s' ! 2)),
              Wr (u_mAddress s) (OFFSET_X_REG_H_M rm + 4) (ucast (drop_bit 8 (mBiasRaw s' ! 2)))]
        else [])"
    unfolding raw nth unfolding e by (simp add: advance_fields f1)
  have vals: "\<forall>j<3. sint (mBiasRaw s' ! j) = (running_max s w 128 j + running_min s w 128 j) sdiv 2 \<and>
            mBias s' ! j = mRes s * real_of_int (sint (mBiasRaw s' ! j))"
  proof (intro allI impI)
    fix j :: nat assume j: "j < 3"
    note vj = v [rule_format, OF j, unfolded zero3 [OF j], folded running_min_def running_max_def]
    from vj have mn: "sint (mn ! j) = running_min s w 128 j" by (rule conjunct1)
    from vj have mx: "sint (mx ! j) = running_max s w 128 j" by (rule conjunct2)
    from j have j3: "j = 0 \<or> j = 1 \<or> j = 2" by auto
    have r: "mBiasRaw s' ! j = offset_of_minmax (mn ! j) (mx ! j)"
      using j3 unfolding raw by auto
    have p: "mBias s' ! j = mRes s * real_of_int (sint (offset_of_minmax (mn ! j) (mx ! j)))"
      using j3 unfolding phys by auto
    show "sint (mBiasRaw s' ! j) = (running_max s w 128 j + running_min s w 128 j) sdiv 2 \<and>
            mBias s' ! j = mRes s * real_of_int (sint (mBiasRaw s' ! j))"
      unfolding p r sint_offset_of_minmax mn mx by simp
  qed
  have len: "length (mBiasRaw s') = 3" "length (mBias s') = 3"
    unfolding raw phys by simp_all
  from c shape b tr [unfolded ev_def] len vals show ?thesis
    by (intro exI [of _ s'] conjI)
qed


lemma mag_ready_bit:
  "mag_ready rm status = (ALL_AXIS_value rm < 8 \<and> bit status (ALL_AXIS_value rm))"
proof -
  let ?a = "ALL_AXIS_value rm"
  have "(ucast (drop_bit ?a ((ucast status :: i32) AND push_bit ?a 1)) :: u8) =
          (if ?a < 8 \<and> bit status ?a then 1 else 0)"
    by (rule bit_word_eqI) (auto simp add: bit_simps dest: bit_imp_le_length intro!: gr0I)
  then show ?thesis by (simp add: mag_ready_def)
qed

lemma filter_bursts_of_trace:
  assumes "tr' = tr @ ev @ (if loadIn then [Wr a0 r0 d0, Wr a1 r1 d1, Wr a2 r2 d2,
                                            Wr a3 r3 d3, Wr a4 r4 d4, Wr a5 r5 d5] else [])"
  shows "filter is_burst (drop (length tr) tr') = filter is_burst ev"
  unfolding assms by simp


text \<open>
  C2.  Let \<open>LSM9DS1_calibrateMag\<close> be called on the I2C bus and let the device answer
  the polls of the 128 passes as \<open>w\<close> says: in pass \<open>i\<close> the status byte fails the
  any-axis data-ready test \<open>w i\<close> times and then passes it (the test reads bit
  \<open>ALL_AXIS\<close> of the status byte).  Then the call returns.
  Its bus traffic is, for each pass in turn, the \<open>w i + 1\<close> polls of \<open>STATUS_REG_M\<close>
  followed by one burst of six bytes from \<open>OUT_X_L_M\<close>, 128 bursts in all, and, when
  \<open>loadIn\<close> is set, the six writes that store each raw offset, low byte and then high
  byte, at \<open>OFFSET_X_REG_L_M + 2 j\<close> and \<open>OFFSET_X_REG_H_M + 2 j\<close> for \<open>j = 0, 1, 2\<close>;
  nothing is written otherwise.  The raw offset of each axis is half the sum of the
  greatest and the least of zero and the 128 samples, truncated towards zero, and
  the physical offset is \<open>mRes\<close> times the raw offset; nothing but \<open>mBiasRaw\<close>, \<open>mBias\<close>
  and the bus changes.
\<close>

theorem calibrateMag_publishes_half_range:
  assumes "commInterface (device (settings s)) = IMU_MODE_I2C"
    and "arrays_ok s"
    and "polls_ok rm s w 128"
  shows "\<exists>s'. LSM9DS1_calibrateMag rm loadIn s = Some s' \<and>
     s' = s\<lparr>mBias := mBias s', mBiasRaw := mBiasRaw s', bus := bus s'\<rparr> \<and>
     rx (bus s') = rx (bus s) \<and>
     reads (bus s') = round_start w (reads (bus s)) 128 \<and>
     trace (bus s') =
       trace (bus s) @ concat (map (round_events rm s w) [0 ..< 128]) @
       (if loadIn
        then [Wr (u_mAddress s) (OFFSET_X_REG_L_M rm) (ucast (mBiasRaw s' ! 0)),
              Wr (u_mAddress s) (OFFSET_X_REG_H_M rm) (ucast (drop_bit 8 (mBiasRaw s' ! 0))),
              Wr (u_mAddress s) (OFFSET_X_REG_L_M rm + 2) (ucast (mBiasRaw s' ! 1)),
              Wr (u_mAddress s) (OFFSET_X_REG_H_M rm + 2) (ucast (drop_bit 8 (mBiasRaw s' ! 1))),
              Wr (u_mAddress s) (OFFSET_X_REG_L_M rm + 4) (ucast (mBiasRaw s' ! 2)),
              Wr (u_mAddress s) (OFFSET_X_REG_H_M rm + 4) (ucast (drop_bit 8 (mBiasRaw s' ! 2)))]
        else []) \<and>
     length (filter is_burst (drop (length (trace (bus s))) (trace (bus s')))) = 128 \<and>
     length (mBiasRaw s') = 3 \<and> length (mBias s') = 3 \<and>
     (\<forall>j<3. sint (mBiasRaw s' ! j) = (running_max s w 128 j + running_min s w 128 j) sdiv 2 \<and>
            mBias s' ! j = mRes s * real_of_int (sint (mBiasRaw s' ! j))) \<and>
     (\<forall>status. mag_ready rm status =
        (ALL_AXIS_value rm < 8 \<and> bit status (ALL_AXIS_value rm)))"
proof -
  from calibrateMag_I2C [OF assms, of loadIn] obtain s' where
    1: "LSM9DS1_calibrateMag rm loadIn s = Some s'"
    and 2: "s' = s\<lparr>mBias := mBias s', mBiasRaw := mBiasRaw s', bus := bus s'\<rparr>"
    and 3: "rx (bus s') = rx (bus s)"
    and 4: "reads (bus s') = round_start w (reads (bus s)) 128"
    and 5: "trace (bus s') =
       trace (bus s) @ concat (map (round_events rm s w) [0 ..< 128]) @
       (if loadIn
        then [Wr (u_mAddress s) (OFFSET_X_REG_L_M rm) (ucast (mBiasRaw s' ! 0)),
              Wr (u_mAddress s) (OFFSET_X_REG_H_M rm) (ucast (drop_bit 8 (mBiasRaw s' ! 0))),
              Wr (u_mAddress s) (OFFSET_X_REG_L_M rm + 2) (ucast (mBiasRaw s' ! 1)),
              Wr (u_mAddress s) (OFFSET_X_REG_H_M rm + 2) (ucast (drop_bit 8 (mBiasRaw s' ! 1))),
              Wr (u_mAddress s) (OFFSET_X_REG_L_M rm + 4) (ucast (mBiasRaw s' ! 2)),
              Wr (u_mAddress s) (OFFSET_X_REG_H_M rm + 4) (ucast (drop_bit 8 (mBiasRaw s' ! 2)))]
        else [])"
    and 6: "length (mBiasRaw s') = 3" "length (mBias s') = 3"
    and 7: "\<forall>j<3. sint (mBiasRaw s' ! j) = (running_max s w 128 j + running_min s w 128 j) sdiv 2 \<and>
            mBias s' ! j = mRes s * real_of_int (sint (mBiasRaw s' ! j))"
    by (elim exE conjE)
  have 8: "length (filter is_burst (drop (length (trace (bus s))) (trace (bus s')))) = 128"
    unfolding filter_bursts_of_trace [OF 5] by (rule round_events_bursts)
  have 9: "\<forall>status. mag_ready rm status =
        (ALL_AXIS_value rm < 8 \<and> bit status (ALL_AXIS_value rm))"
    by (intro allI) (rule mag_ready_bit)
  from 1 2 3 4 5 8 6 7 9 show ?thesis
    by (intro exI [of _ s'] conjI)
qed


lemma round_start_no_wait: "round_start (\<lambda>i. 0) p i = p + 2 * i"
  by (induction i) simp_all

lemma mag_ready_example: "mag_ready example_registers 0x08"
  by (simp add: mag_ready_def example_registers_def)

lemma mag_of_two_polls:
  "polls_ok example_registers (example_driver m (mag_of_two a b)) (\<lambda>i. 0) n"
  by (simp add: polls_ok_def round_start_no_wait example_driver_bus mag_of_two_def
        mag_ready_example)

lemma mag_of_two_sample:
  "mag_sample (example_driver m (mag_of_two [a0, a1, a2, a3, a4, a5] [b0, b1, b2, b3, b4, b5]))
     (\<lambda>i. 0) i =
     (if even i
      then (int16_of_bytes a1 a0, int16_of_bytes a3 a2, int16_of_bytes a5 a4)
      else (int16_of_bytes b1 b0, int16_of_bytes b3 b2, int16_of_bytes b5 b4))"
proof -
  have "(2 * i + 1) mod 4 = 1 \<longleftrightarrow> even i" by presburger
  then show ?thesis
    by (simp add: mag_sample_def round_start_no_wait example_driver_bus triplet_def
          mag_of_two_def)
qed

lemma image_of_two:
  fixes f :: "nat \<Rightarrow> 'a" and n :: nat
  assumes "\<forall>i<n. f i = (if even i then a else b)" and "1 < n"
  shows "f ` {..<n} = {a, b}"
proof (intro equalityI subsetI)
  fix x assume "x \<in> f ` {..<n}"
  then obtain i where "i < n" "x = f i" by auto
  with assms(1) show "x \<in> {a, b}" by auto
next
  fix x assume x: "x \<in> {a, b}"
  from assms(2) have n: "0 < n" by simp
  from assms(1) [rule_format, OF n] have 0: "f 0 = a" by simp
  from assms(1) [rule_format, OF assms(2)] have 1: "f 1 = b" by simp
  from x consider "x = a" | "x = b" by auto
  then show "x \<in> f ` {..<n}"
  proof cases
    case 1
    with 0 assms(2) show ?thesis by (intro image_eqI [of _ _ 0]) auto
  next
    case 2
    with 1 assms(2) show ?thesis by (intro image_eqI [of _ _ 1]) auto
  qed
qed

lemma round_events_no_wait_length:
  "length (concat (map (round_events rm s (\<lambda>i. 0)) [0 ..< n])) = 2 * n"
  by (induction n) (simp_all add: round_events_def)

lemma sint_word_eq: "sint (x :: i16) = k \<Longrightarrow> x = word_of_int k"
  by auto

lemma mag_example_samples:
  "mag_sample (example_driver m
      (mag_of_two [100, 0, 0xCD, 0xFF, 7, 0] [0xE2, 0xFF, 20, 0, 0xF9, 0xFF])) (\<lambda>i. 0) i =
     (if even i then (100, - 51, 7) else (- 30, 20, - 7))"
  unfolding mag_of_two_sample by (simp add: int16_of_bytes_def)

lemma mag_example_range:
  fixes m :: interface_mode
  defines "s \<equiv> example_driver m
      (mag_of_two [100, 0, 0xCD, 0xFF, 7, 0] [0xE2, 0xFF, 20, 0, 0xF9, 0xFF])"
  shows "running_max s (\<lambda>i. 0) 128 0 = 100" "running_max s (\<lambda>i. 0) 128 1 = 20"
    "running_max s (\<lambda>i. 0) 128 2 = 7"
    "running_min s (\<lambda>i. 0) 128 0 = - 30" "running_min s (\<lambda>i. 0) 128 1 = - 51"
    "running_min s (\<lambda>i. 0) 128 2 = - 7"
proof -
  have im: "(\<lambda>i. sint (nth3 (mag_sample s (\<lambda>i. 0) i) j)) ` {..<128} =
              {sint (nth3 (100, - 51, 7 :: i16) j), sint (nth3 (- 30, 20, - 7 :: i16) j)}" for j
    unfolding s_def by (rule image_of_two) (simp_all add: mag_example_samples)
  show "running_max s (\<lambda>i. 0) 128 0 = 100" "running_max s (\<lambda>i. 0) 128 1 = 20"
    "running_max s (\<lambda>i. 0) 128 2 = 7"
    unfolding running_max_def im by simp_all
  show "running_min s (\<lambda>i. 0) 128 0 = - 30" "running_min s (\<lambda>i. 0) 128 1 = - 51"
    "running_min s (\<lambda>i. 0) 128 2 = - 7"
    unfolding running_min_def im by simp_all
qed

lemma offsets_of_example:
  assumes lr: "length (raw :: i16 list) = 3" and lp: "length (phys :: real list) = 3"
    and v: "\<forall>j<3. sint (raw ! j) =
              (running_max (example_driver m
                 (mag_of_two [100, 0, 0xCD, 0xFF, 7, 0] [0xE2, 0xFF, 20, 0, 0xF9, 0xFF]))
                 (\<lambda>i. 0) 128 j +
               running_min (example_driver m
                 (mag_of_two [100, 0, 0xCD, 0xFF, 7, 0] [0xE2, 0xFF, 20, 0, 0xF9, 0xFF]))
                 (\<lambda>i. 0) 128 j) sdiv 2 \<and>
            phys ! j = r * real_of_int (sint (raw ! j))"
  shows "raw = [35, - 15, 0]" "phys = [r * 35, r * (- 15), r * 0]"
proof -
  from lr obtain x0 x1 x2 where raw: "raw = [x0, x1, x2]" by (rule length3E)
  from lp obtain p0 p1 p2 where phys: "phys = [p0, p1, p2]" by (rule length3E)
  have e: "raw ! 0 = x0" "raw ! 1 = x1" "raw ! 2 = x2"
    "phys ! 0 = p0" "phys ! 1 = p1" "phys ! 2 = p2"
    by (simp_all add: raw phys)
  have j: "(0::nat) < 3" "(1::nat) < 3" "(2::nat) < 3" by simp_all
  note a0 = v [rule_format, OF j(1), unfolded e mag_example_range]
  note a1 = v [rule_format, OF j(2), unfolded e mag_example_range]
  note a2 = v [rule_format, OF j(3), unfolded e mag_example_range]
  have v0: "sint x0 = 35" using a0 [THEN conjunct1] by simp
  have v1: "sint x1 = - 15" using a1 [THEN conjunct1] by simp
  have v2: "sint x2 = 0" using a2 [THEN conjunct1] by simp
  note w0 = a0 [THEN conjunct2, unfolded v0]
  note w1 = a1 [THEN conjunct2, unfolded v1]
  note w2 = a2 [THEN conjunct2, unfolded v2]
  have x: "x0 = 35" "x1 = - 15" "x2 = 0"
    using sint_word_eq [OF v0] sint_word_eq [OF v1] sint_word_eq [OF v2] by simp_all
  show "raw = [35, - 15, 0]" unfolding raw x ..
  show "phys = [r * 35, r * (- 15), r * 0]" unfolding phys w0 w1 w2 by simp
qed

theorem calibrateMag_publishes_half_range_witness:
  "commInterface (device (settings (example_driver IMU_MODE_I2C
      (mag_of_two [100, 0, 0xCD, 0xFF, 7, 0] [0xE2, 0xFF, 20, 0, 0xF9, 0xFF])))) = IMU_MODE_I2C \<and>
   arrays_ok (example_driver IMU_MODE_I2C
      (mag_of_two [100, 0, 0xCD, 0xFF, 7, 0] [0xE2, 0xFF, 20, 0, 0xF9, 0xFF])) \<and>
   polls_ok example_registers (example_driver IMU_MODE_I2C
      (mag_of_two [100, 0, 0xCD, 0xFF, 7, 0] [0xE2, 0xFF, 20, 0, 0xF9, 0xFF])) (\<lambda>i. 0) 128 \<and>
   mag_sample (example_driver IMU_MODE_I2C
      (mag_of_two [100, 0, 0xCD, 0xFF, 7, 0] [0xE2, 0xFF, 20, 0, 0xF9, 0xFF])) (\<lambda>i. 0) 0
     = (100, - 51, 7) \<and>
   mag_sample (example_driver IMU_MODE_I2C
      (mag_of_two [100, 0, 0xCD, 0xFF, 7, 0] [0xE2, 0xFF, 20, 0, 0xF9, 0xFF])) (\<lambda>i. 0) 1
     = (- 30, 20, - 7) \<and>
   (\<exists>s'. LSM9DS1_calibrateMag example_registers True
           (example_driver IMU_MODE_I2C
              (mag_of_two [100, 0, 0xCD, 0xFF, 7, 0] [0xE2, 0xFF, 20, 0, 0xF9, 0xFF])) = Some s' \<and>
         mBiasRaw s' = [35, - 15, 0] \<and>
         mBias s' = [0.0049, - 0.0021, 0] \<and>
         reads (bus s') = 256 \<and>
         length (trace (bus s')) = 262 \<and>
         drop 256 (trace (bus s')) =
           [Wr 0x1E 0x05 0x23, Wr 0x1E 0x06 0x00, Wr 0x1E 0x07 0xF1, Wr 0x1E 0x08 0xFF,
            Wr 0x1E 0x09 0x00, Wr 0x1E 0x0A 0x00])"
proof -
  let ?f = "mag_of_two [100, 0, 0xCD, 0xFF, 7, 0] [0xE2, 0xFF, 20, 0, 0xF9, 0xFF]"
  let ?s = "example_driver IMU_MODE_I2C ?f"
  let ?w = "\<lambda>i::nat. 0::nat"
  have i2c: "commInterface (device (settings ?s)) = IMU_MODE_I2C" by (rule example_driver_mode)
  have ok: "arrays_ok ?s" by (rule example_driver_arrays_ok)
  have po: "polls_ok example_registers ?s ?w 128" by (rule mag_of_two_polls)
  have s0: "mag_sample ?s ?w 0 = (100, - 51, 7)" and s1: "mag_sample ?s ?w 1 = (- 30, 20, - 7)"
    by (simp_all add: mag_example_samples)
  from calibrateMag_publishes_half_range [OF i2c ok po, of True] obtain s' where
    c: "LSM9DS1_calibrateMag example_registers True ?s = Some s'"
    and r: "reads (bus s') = round_start ?w (reads (bus ?s)) 128"
    and t: "trace (bus s') =
       trace (bus ?s) @ concat (map (round_events example_registers ?s ?w) [0 ..< 128]) @
       (if True
        then [Wr (u_mAddress ?s) (OFFSET_X_REG_L_M example_registers) (ucast (mBiasRaw s' ! 0)),
              Wr (u_mAddress ?s) (OFFSET_X_REG_H_M example_registers)
                 (ucast (drop_bit 8 (mBiasRaw s' ! 0))),
              Wr (u_mAddress ?s) (OFFSET_X_REG_L_M example_registers + 2) (ucast (mBiasRaw s' ! 1)),
              Wr (u_mAddress ?s) (OFFSET_X_REG_H_M example_registers + 2)
                 (ucast (drop_bit 8 (mBiasRaw s' ! 1))),
              Wr (u_mAddress ?s) (OFFSET_X_REG_L_M example_registers + 4) (ucast (mBiasRaw s' ! 2)),
              Wr (u_mAddress ?s) (OFFSET_X_REG_H_M example_registers + 4)
                 (ucast (drop_bit 8 (mBiasRaw s' ! 2)))]
        else [])"
    and lr: "length (mBiasRaw s') = 3" and lp: "length (mBias s') = 3"
    and v: "\<forall>j<3. sint (mBiasRaw s' ! j) =
                     (running_max ?s ?w 128 j + running_min ?s ?w 128 j) sdiv 2 \<and>
                   mBias s' ! j = mRes ?s * real_of_int (sint (mBiasRaw s' ! j))"
    by (elim exE conjE)
  have mr: "mRes ?s = 0.00014"
    by (simp add: example_driver_fields SENSITIVITY_MAGNETOMETER_4_def)
  note o = offsets_of_example [OF lr lp v [unfolded mr]]
  have raw': "mBiasRaw s' = [35, - 15, 0]" by (rule o(1))
  have phys': "mBias s' = [0.0049, - 0.0021, 0]" unfolding o(2) by simp
  have r': "reads (bus s') = 256"
    unfolding r round_start_no_wait by (simp add: example_driver_bus)
  define ev where "ev = concat (map (round_events example_registers ?s ?w) [0 ..< 128])"
  have le: "length ev = 256" unfolding ev_def round_events_no_wait_length by simp
  have t': "trace (bus s') = ev @
           [Wr 0x1E 0x05 0x23, Wr 0x1E 0x06 0x00, Wr 0x1E 0x07 0xF1, Wr 0x1E 0x08 0xFF,
            Wr 0x1E 0x09 0x00, Wr 0x1E 0x0A 0x00]"
    unfolding t ev_def [symmetric] raw'
    by (simp add: example_driver_bus example_driver_fields example_registers_def)
  have lt: "length (trace (bus s')) = 262" unfolding t' by (simp add: le)
  have dt: "drop 256 (trace (bus s')) =
           [Wr 0x1E 0x05 0x23, Wr 0x1E 0x06 0x00, Wr 0x1E 0x07 0xF1, Wr 0x1E 0x08 0xFF,
            Wr 0x1E 0x09 0x00, Wr 0x1E 0x0A 0x00]"
    unfolding t' using le by simp
  have "\<exists>s'. LSM9DS1_calibrateMag example_registers True ?s = Some s' \<and>
         mBiasRaw s' = [35, - 15, 0] \<and>
         mBias s' = [0.0049, - 0.0021, 0] \<and>
         reads (bus s') = 256 \<and>
         length (trace (bus s')) = 262 \<and>
         drop 256 (trace (bus s')) =
           [Wr 0x1E 0x05 0x23, Wr 0x1E 0x06 0x00, Wr 0x1E 0x07 0xF1, Wr 0x1E 0x08 0xFF,
            Wr 0x1E 0x09 0x00, Wr 0x1E 0x0A 0x00]"
    using c raw' phys' r' lt dt by (intro exI [of _ s'] conjI)
  with i2c ok po s0 s1 show ?thesis by (intro conjI)
qed


section \<open>Raw and physical bias\<close>

text \<open>
  C7.  On the I2C bus, with \<open>(int16_t)(1./aRes)\<close> defined and a FIFO that reaches the
  level 31 after \<open>m\<close> polls, \<open>LSM9DS1_calibrate\<close> returns, and in the state it returns
  each element of \<open>gBias\<close> is \<open>gRes\<close> times the element of \<open>gBiasRaw\<close> at the same index
  and each element of \<open>aBias\<close> is \<open>aRes\<close> times the element of \<open>aBiasRaw\<close>.  On the I2C
  bus, with a magnetometer that answers the polls of the 128 passes as \<open>w\<close> says,
  \<open>LSM9DS1_calibrateMag\<close> returns, and in the state it returns each element of \<open>mBias\<close>
  is \<open>mRes\<close> times the element of \<open>mBiasRaw\<close>.  The same equations hold in the state
  returned by any run of either function that returns at all.  (Floating-point products
  are products of reals in this model.)
\<close>

theorem published_bias_is_resolution_times_raw:
  "(commInterface (device (settings s)) = IMU_MODE_I2C \<and> arrays_ok s \<and>
    one_g_raw (aRes s) = Some one_g \<and>
    (\<forall>k<m. fifo_level s k < 0x1F) \<and> \<not> fifo_level s m < 0x1F \<longrightarrow>
      (\<exists>t. LSM9DS1_calibrate rm autoCalc s = Some (Inr t) \<and>
           gBias t = map (\<lambda>r. gRes t * real_of_int (sint r)) (gBiasRaw t) \<and>
           aBias t = map (\<lambda>r. aRes t * real_of_int (sint r)) (aBiasRaw t) \<and>
           length (gBiasRaw t) = 3 \<and> length (aBiasRaw t) = 3)) \<and>
   (commInterface (device (settings s)) = IMU_MODE_I2C \<and> arrays_ok s \<and>
    polls_ok rm s w 128 \<longrightarrow>
      (\<exists>t. LSM9DS1_calibrateMag rm loadIn s = Some t \<and>
           mBias t = map (\<lambda>r. mRes t * real_of_int (sint r)) (mBiasRaw t) \<and>
           length (mBiasRaw t) = 3)) \<and>
   (LSM9DS1_calibrate rm autoCalc s = Some (Inr s') \<and> arrays_ok s \<longrightarrow>
      gBias s' = map (\<lambda>r. gRes s' * real_of_int (sint r)) (gBiasRaw s') \<and>
      aBias s' = map (\<lambda>r. aRes s' * real_of_int (sint r)) (aBiasRaw s') \<and>
      length (gBiasRaw s') = 3 \<and> length (aBiasRaw s') = 3) \<and>
   (LSM9DS1_calibrateMag rm loadIn s = Some s'' \<and> arrays_ok s \<longrightarrow>
      mBias s'' = map (\<lambda>r. mRes s'' * real_of_int (sint r)) (mBiasRaw s'') \<and>
      length (mBiasRaw s'') = 3)"
proof -
  have cal: "gBias t = map (\<lambda>r. gRes t * real_of_int (sint r)) (gBiasRaw t) \<and>
      aBias t = map (\<lambda>r. aRes t * real_of_int (sint r)) (aBiasRaw t) \<and>
      length (gBiasRaw t) = 3 \<and> length (aBiasRaw t) = 3"
    if c: "LSM9DS1_calibrate rm autoCalc s = Some (Inr t)" and ok: "arrays_ok s" for t
  proof (intro conjI)
    from c ok show "gBias t = map (\<lambda>r. gRes t * real_of_int (sint r)) (gBiasRaw t)"
      by (rule calibrate_result) simp
    from c ok show "aBias t = map (\<lambda>r. aRes t * real_of_int (sint r)) (aBiasRaw t)"
      by (rule calibrate_result) simp
    from c ok show "length (gBiasRaw t) = 3" by (rule calibrate_result) simp
    from c ok show "length (aBiasRaw t) = 3" by (rule calibrate_result) simp
  qed
  have mag: "mBias t = map (\<lambda>r. mRes t * real_of_int (sint r)) (mBiasRaw t) \<and>
      length (mBiasRaw t) = 3"
    if c: "LSM9DS1_calibrateMag rm loadIn s = Some t" and ok: "arrays_ok s" for t
  proof (intro conjI)
    from c ok show "mBias t = map (\<lambda>r. mRes t * real_of_int (sint r)) (mBiasRaw t)"
      by (rule calibrateMag_result) simp
    from c ok show "length (mBiasRaw t) = 3" by (rule calibrateMag_result) simp
  qed
  have 1: "\<exists>t. LSM9DS1_calibrate rm autoCalc s = Some (Inr t) \<and>
           gBias t = map (\<lambda>r. gRes t * real_of_int (sint r)) (gBiasRaw t) \<and>
           aBias t = map (\<lambda>r. aRes t * real_of_int (sint r)) (aBiasRaw t) \<and>
           length (gBiasRaw t) = 3 \<and> length (aBiasRaw t) = 3"
    if h: "commInterface (device (settings s)) = IMU_MODE_I2C \<and> arrays_ok s \<and>
      one_g_raw (aRes s) = Some one_g \<and>
      (\<forall>k<m. fifo_level s k < 0x1F) \<and> \<not> fifo_level s m < 0x1F"
  proof -
    from h have i2c: "commInterface (device (settings s)) = IMU_MODE_I2C" and ok: "arrays_ok s"
      and og: "one_g_raw (aRes s) = Some one_g"
      and po: "\<forall>k<m. fifo_level s k < 0x1F" and la: "\<not> fifo_level s m < 0x1F"
      by simp_all
    from calibrate_I2C [OF i2c ok po la og, of rm autoCalc]
    obtain t where c: "LSM9DS1_calibrate rm autoCalc s = Some (Inr t)" by blast
    from c cal [OF c ok] show ?thesis by (intro exI [of _ t] conjI) simp_all
  qed
  have 2: "\<exists>t. LSM9DS1_calibrateMag rm loadIn s = Some t \<and>
           mBias t = map (\<lambda>r. mRes t * real_of_int (sint r)) (mBiasRaw t) \<and>
           length (mBiasRaw t) = 3"
    if h: "commInterface (device (settings s)) = IMU_MODE_I2C \<and> arrays_ok s \<and>
      polls_ok rm s w 128"
  proof -
    from h have i2c: "commInterface (device (settings s)) = IMU_MODE_I2C" and ok: "arrays_ok s"
      and po: "polls_ok rm s w 128"
      by simp_all
    from calibrateMag_I2C [OF i2c ok po, of loadIn]
    obtain t where c: "LSM9DS1_calibrateMag rm loadIn s = Some t" by blast
    from c mag [OF c ok] show ?thesis by (intro exI [of _ t] conjI) simp_all
  qed
  have 3: "gBias s' = map (\<lambda>r. gRes s' * real_of_int (sint r)) (gBiasRaw s') \<and>
      aBias s' = map (\<lambda>r. aRes s' * real_of_int (sint r)) (aBiasRaw s') \<and>
      length (gBiasRaw s') = 3 \<and> length (aBiasRaw s') = 3"
    if "LSM9DS1_calibrate rm autoCalc s = Some (Inr s') \<and> arrays_ok s"
    using that cal by blast
  have 4: "mBias s'' = map (\<lambda>r. mRes s'' * real_of_int (sint r)) (mBiasRaw s'') \<and>
      length (mBiasRaw s'') = 3"
    if "LSM9DS1_calibrateMag rm loadIn s = Some s'' \<and> arrays_ok s"
    using that mag by blast
  show ?thesis
    apply (rule conjI, rule impI, erule 1)
    apply (rule conjI, rule impI, erule 2)
    apply (rule conjI, rule impI, erule 3)
    apply (rule impI, erule 4)
    done
qed

theorem published_bias_is_resolution_times_raw_witness:
  "commInterface (device (settings (example_driver IMU_MODE_I2C
      (fifo_of_identical [1, 0, 2, 0, 3, 0] [10, 0, 20, 0, 0x0E, 0x40])))) = IMU_MODE_I2C \<and>
   arrays_ok (example_driver IMU_MODE_I2C
      (fifo_of_identical [1, 0, 2, 0, 3, 0] [10, 0, 20, 0, 0x0E, 0x40])) \<and>
   one_g_raw (aRes (example_driver IMU_MODE_I2C
      (fifo_of_identical [1, 0, 2, 0, 3, 0] [10, 0, 20, 0, 0x0E, 0x40]))) = Some 16393 \<and>
   fifo_level (example_driver IMU_MODE_I2C
      (fifo_of_identical [1, 0, 2, 0, 3, 0] [10, 0, 20, 0, 0x0E, 0x40])) 0 = 31 \<and>
   (\<exists>t. LSM9DS1_calibrate example_registers False
          (example_driver IMU_MODE_I2C
             (fifo_of_identical [1, 0, 2, 0, 3, 0] [10, 0, 20, 0, 0x0E, 0x40])) = Some (Inr t) \<and>
        gRes t = 0.00875 \<and> gBiasRaw t = [1, 2, 3] \<and> gBias t = [0.00875, 0.0175, 0.02625] \<and>
        aRes t = 0.000061 \<and> aBiasRaw t = [10, 20, 5] \<and>
        aBias t = [0.00061, 0.00122, 0.000305]) \<and>
   commInterface (device (settings (example_driver IMU_MODE_I2C
      (mag_of_two [100, 0, 0xCD, 0xFF, 7, 0] [0xE2, 0xFF, 20, 0, 0xF9, 0xFF])))) = IMU_MODE_I2C \<and>
   arrays_ok (example_driver IMU_MODE_I2C
      (mag_of_two [100, 0, 0xCD, 0xFF, 7, 0] [0xE2, 0xFF, 20, 0, 0xF9, 0xFF])) \<and>
   polls_ok example_registers (example_driver IMU_MODE_I2C
      (mag_of_two [100, 0, 0xCD, 0xFF, 7, 0] [0xE2, 0xFF, 20, 0, 0xF9, 0xFF])) (\<lambda>i. 0) 128 \<and>
   (\<exists>t. LSM9DS1_calibrateMag example_registers False
          (example_driver IMU_MODE_I2C
             (mag_of_two [100, 0, 0xCD, 0xFF, 7, 0] [0xE2, 0xFF, 20, 0, 0xF9, 0xFF])) = Some t \<and>
        mRes t = 0.00014 \<and> mBiasRaw t = [35, - 15, 0] \<and> mBias t = [0.0049, - 0.0021, 0])"
proof -
  let ?s = "example_driver IMU_MODE_I2C
              (fifo_of_identical [1, 0, 2, 0, 3, 0] [10, 0, 20, 0, 0x0E, 0x40])"
  let ?u = "example_driver IMU_MODE_I2C
              (mag_of_two [100, 0, 0xCD, 0xFF, 7, 0] [0xE2, 0xFF, 20, 0, 0xF9, 0xFF])"
  let ?w = "\<lambda>i::nat. 0::nat"
  have i2c: "commInterface (device (settings ?s)) = IMU_MODE_I2C" by (rule example_driver_mode)
  have ok: "arrays_ok ?s" by (rule example_driver_arrays_ok)
  have og: "one_g_raw (aRes ?s) = Some 16393" by (rule example_driver_one_g)
  have l: "fifo_level ?s 0 = 31" by (rule fifo_of_identical_level)
  have polls: "\<forall>k<0. fifo_level ?s k < 0x1F" by simp
  have last: "\<not> fifo_level ?s 0 < 0x1F" by (simp add: l)
  have rx: "rx (bus ?s) = fifo_of_identical [1, 0, 2, 0, 3, 0] [10, 0, 20, 0, 0x0E, 0x40]"
    and r0: "reads (bus ?s) = 0"
    by (simp_all add: example_driver_bus)
  have na: "\<not> u_autoCalc ?s" by (simp add: example_driver_fields)
  note th = published_bias_is_resolution_times_raw
              [where s = ?s and rm = example_registers and autoCalc = False and m = 0
                 and one_g = 16393]
  from th [THEN conjunct1, rule_format, OF conjI [OF i2c conjI [OF ok conjI [OF og conjI [OF polls last]]]]]
  obtain t where c: "LSM9DS1_calibrate example_registers False ?s = Some (Inr t)"
    and gb: "gBias t = map (\<lambda>r. gRes t * real_of_int (sint r)) (gBiasRaw t)"
    and ab: "aBias t = map (\<lambda>r. aRes t * real_of_int (sint r)) (aBiasRaw t)"
    by (elim exE conjE)
  from calibrate_identical [OF i2c ok rx r0 og, of example_registers False]
  obtain t2 where c2: "LSM9DS1_calibrate example_registers False ?s = Some (Inr t2)"
    and G2: "gBiasRaw t2 = [nth3 (gyro_reading ?s 2) 0, nth3 (gyro_reading ?s 2) 1,
                            nth3 (gyro_reading ?s 2) 2]"
    and A2: "aBiasRaw t2 = [nth3 (accel_reading ?s 3) 0, nth3 (accel_reading ?s 3) 1,
                            nth3 (accel_reading ?s 3) 2 - 16393]"
    by blast
  from c c2 have e: "t2 = t" by simp
  have tg: "gyro_reading ?s 2 = (1, 2, 3)"
    unfolding readings_without_autoCalc [OF na] rx
    using fifo_of_identical_triplets(1) [of 1 0 2 0 3 0 "[10, 0, 20, 0, 0x0E, 0x40]" 0]
    by (simp add: int16_of_bytes_def)
  have ta: "accel_reading ?s 3 = (10, 20, 16398)"
    unfolding readings_without_autoCalc [OF na] rx
    using fifo_of_identical_triplets(2) [of "[1, 0, 2, 0, 3, 0]" 10 0 20 0 "0x0E" "0x40" 0]
    by (simp add: int16_of_bytes_def)
  have g: "gBiasRaw t = [1, 2, 3]" using G2 unfolding e tg by simp
  have a: "aBiasRaw t = [10, 20, 5]" using A2 unfolding e ta by simp
  from c ok have "gRes t = gRes ?s" by (rule calibrate_result)
  then have gr: "gRes t = 0.00875"
    by (simp add: example_driver_fields SENSITIVITY_GYROSCOPE_245_def)
  from c ok have "aRes t = aRes ?s" by (rule calibrate_result)
  then have ar: "aRes t = 0.000061"
    by (simp add: example_driver_fields SENSITIVITY_ACCELEROMETER_2_def)
  have gb': "gBias t = [0.00875, 0.0175, 0.02625]" unfolding gb g gr by simp
  have ab': "aBias t = [0.00061, 0.00122, 0.000305]" unfolding ab a ar by simp
  have 1: "\<exists>t. LSM9DS1_calibrate example_registers False ?s = Some (Inr t) \<and>
        gRes t = 0.00875 \<and> gBiasRaw t = [1, 2, 3] \<and> gBias t = [0.00875, 0.0175, 0.02625] \<and>
        aRes t = 0.000061 \<and> aBiasRaw t = [10, 20, 5] \<and>
        aBias t = [0.00061, 0.00122, 0.000305]"
    using c gr g gb' ar a ab' by (intro exI [of _ t] conjI)
  have i2cu: "commInterface (device (settings ?u)) = IMU_MODE_I2C" by (rule example_driver_mode)
  have oku: "arrays_ok ?u" by (rule example_driver_arrays_ok)
  have po: "polls_ok example_registers ?u ?w 128" by (rule mag_of_two_polls)
  note tu = published_bias_is_resolution_times_raw
              [where s = ?u and rm = example_registers and loadIn = False and w = ?w]
  from tu [THEN conjunct2, THEN conjunct1, rule_format, OF conjI [OF i2cu conjI [OF oku po]]]
  obtain u where cu: "LSM9DS1_calibrateMag example_registers False ?u = Some u"
    and mb: "mBias u = map (\<lambda>r. mRes u * real_of_int (sint r)) (mBiasRaw u)"
    by (elim exE conjE)
  from calibrateMag_I2C [OF i2cu oku po, of False]
  obtain u2 where cu2: "LSM9DS1_calibrateMag example_registers False ?u = Some u2"
    and lr: "length (mBiasRaw u2) = 3" and lp: "length (mBias u2) = 3"
    and v: "\<forall>j<3. sint (mBiasRaw u2 ! j) =
                     (running_max ?u ?w 128 j + running_min ?u ?w 128 j) sdiv 2 \<and>
                   mBias u2 ! j = mRes ?u * real_of_int (sint (mBiasRaw u2 ! j))"
    by (elim exE conjE)
  from cu cu2 have eu: "u2 = u" by simp
  note o = offsets_of_example [OF lr lp v, unfolded eu]
  from cu oku have "mRes u = mRes ?u" by (rule calibrateMag_result)
  then have mr: "mRes u = 0.00014"
    by (simp add: example_driver_fields SENSITIVITY_MAGNETOMETER_4_def)
  have mb': "mBias u = [0.0049, - 0.0021, 0]" unfolding mb o(1) mr by simp
  have 2: "\<exists>t. LSM9DS1_calibrateMag example_registers False ?u = Some t \<and>
        mRes t = 0.00014 \<and> mBiasRaw t = [35, - 15, 0] \<and> mBias t = [0.0049, - 0.0021, 0]"
    using cu mr o(1) mb' by (intro exI [of _ u] conjI)
  from i2c ok og l 1 i2cu oku po 2 show ?thesis by (intro conjI)
qed


end
